(* ===== verification/Prelude.thy ===== *)
theory Prelude
  imports Complex_Main "HOL-Library.Word"
begin

text \<open>
  Shared vocabulary of the development: the Python string operations the
  service uses (\<open>str.strip\<close>, \<open>str.startswith\<close>, \<open>str.endswith\<close>,
  \<open>str.lower\<close>, slicing), the truncating \<open>int()\<close> of a float, and the
  named collections that the component theories fill with their evaluation
  rules.  Python text is a sequence of code points; the model uses HOL's
  \<open>char\<close>, so a string stands for a text whose code points are below 256
  (Latin-1), and the character classes below are Python's on that range.
\<close>

named_theorems py_simps "evaluation rules of the Python string model"
named_theorems model_simps "evaluation rules of the service model"

type_synonym bytes = "8 word list"
type_synonym seconds = rat

section \<open>Character classes\<close>

text \<open>\<open>str.isspace\<close> on code points 0..255: the ASCII controls 9..13,
  the separators 28..31, space, NEL (133) and NBSP (160).\<close>

definition py_isspace :: "char \<Rightarrow> bool" where
  "py_isspace c \<longleftrightarrow> of_char c \<in> ({9..13} \<union> {28..32} \<union> {133, 160} :: nat set)"

text \<open>\<open>str.lower\<close> on code points 0..255: ASCII capitals and the Latin-1
  capitals 192..222 except the multiplication sign 215 move up by 32.\<close>

definition py_lower_char :: "char \<Rightarrow> char" where
  "py_lower_char c =
     (let n = (of_char c :: nat)
      in if (65 \<le> n \<and> n \<le> 90) \<or> (192 \<le> n \<and> n \<le> 222 \<and> n \<noteq> 215)
         then char_of (n + 32) else c)"

definition py_lower :: "string \<Rightarrow> string" where
  "py_lower s = map py_lower_char s"

section \<open>Strip, prefixes, suffixes\<close>

definition py_strip :: "string \<Rightarrow> string" where
  "py_strip s = rev (dropWhile py_isspace (rev (dropWhile py_isspace s)))"

definition startswith :: "string \<Rightarrow> string \<Rightarrow> bool" where
  "startswith s p \<longleftrightarrow> take (length p) s = p"

definition endswith :: "string \<Rightarrow> string \<Rightarrow> bool" where
  "endswith s p \<longleftrightarrow> drop (length s - length p) s = p"

text \<open>\<open>s.endswith((a, b))\<close> tries each suffix of the tuple.\<close>

definition endswith_any :: "string \<Rightarrow> string list \<Rightarrow> bool" where
  "endswith_any s ps \<longleftrightarrow> list_ex (endswith s) ps"

text \<open>\<open>s[n:]\<close> and \<open>s[:-n]\<close> for a non-negative \<open>n\<close>: Python clamps
  both slices at the ends of the string, as \<open>drop\<close> and \<open>take\<close> with
  truncating subtraction do.\<close>

definition slice_from :: "nat \<Rightarrow> string \<Rightarrow> string" where
  "slice_from n s = drop n s"

definition slice_upto_neg :: "nat \<Rightarrow> string \<Rightarrow> string" where
  "slice_upto_neg n s = take (length s - n) s"

section \<open>\<open>int()\<close> of a float\<close>

text \<open>\<open>int(x)\<close> truncates towards zero; \<open>floor\<close> rounds down, so the
  negative side is written out.\<close>

definition py_int_of :: "rat \<Rightarrow> int" where
  "py_int_of x = (if 0 \<le> x then \<lfloor>x\<rfloor> else - \<lfloor>- x\<rfloor>)"

text \<open>Evaluating \<open>char_of\<close> on a numeral by the simplifier.\<close>

lemmas char_of_eval = char_of_def bit_0

section \<open>Exceptions as sums\<close>

text \<open>A statement that may raise: \<open>sbind x f\<close> runs \<open>f\<close> on the value of
  \<open>x\<close> and passes a raised exception (\<open>Inl\<close>) on unchanged.\<close>

definition sbind :: "'e + 'a \<Rightarrow> ('a \<Rightarrow> 'e + 'b) \<Rightarrow> 'e + 'b" where
  "sbind x f = (case x of Inl e \<Rightarrow> Inl e | Inr a \<Rightarrow> f a)"

lemma sum_list_map_update:
  "i < length xs \<Longrightarrow> sum_list (map (f :: 'a \<Rightarrow> nat) (xs[i := x])) + f (xs ! i) = sum_list (map f xs) + f x"
proof (induction xs arbitrary: i)
  case (Cons y ys)
  show ?case
  proof (cases i)
    case 0
    then show ?thesis by (simp add: ac_simps)
  next
    case (Suc j)
    with Cons.prems Cons.IH [of j] show ?thesis by (simp add: ac_simps)
  qed
qed simp

lemma find_Some_mem: "find P xs = Some x \<Longrightarrow> x \<in> set xs \<and> P x"
  by (induction xs) (auto split: if_splits)

lemma list_all_update: "list_all P xs \<Longrightarrow> P x \<Longrightarrow> list_all P (xs[i := x])"
  by (auto simp: list_all_iff dest: set_update_subset_insert [THEN subsetD])

lemma sbind_Inl [simp]: "sbind (Inl e) f = Inl e"
  by (simp add: sbind_def)

lemma sbind_Inr [simp]: "sbind (Inr a) f = f a"
  by (simp add: sbind_def)

lemma sbind_eq_Inr: "sbind x f = Inr b \<longleftrightarrow> (\<exists>a. x = Inr a \<and> f a = Inr b)"
  by (cases x) auto

lemma sbind_eq_Inl: "sbind x f = Inl e \<longleftrightarrow> x = Inl e \<or> (\<exists>a. x = Inr a \<and> f a = Inl e)"
  by (cases x) auto

section \<open>Generic lemmas\<close>

lemma startswith_append [py_simps]: "startswith (p @ s) p"
  by (simp add: startswith_def)

lemma startswith_iff: "startswith s p \<longleftrightarrow> (\<exists>t. s = p @ t)"
  unfolding startswith_def by (metis append_eq_conv_conj append_take_drop_id)

lemma endswith_append [py_simps]: "endswith (s @ p) p"
  by (simp add: endswith_def)

lemma endswith_iff: "endswith s p \<longleftrightarrow> (\<exists>t. s = t @ p)"
proof
  assume "endswith s p"
  then have "s = take (length s - length p) s @ p"
    unfolding endswith_def by (metis append_take_drop_id)
  then show "\<exists>t. s = t @ p" by blast
next
  assume "\<exists>t. s = t @ p"
  then show "endswith s p" by (auto simp: endswith_def)
qed

lemma startswith_prefix: "startswith s (p @ q) \<Longrightarrow> startswith s p"
  by (auto simp: startswith_iff)

lemma endswith_suffix: "endswith s (p @ q) \<Longrightarrow> endswith s q"
  by (auto simp: endswith_iff)

lemma startswith_Cons_Cons [py_simps]: "startswith (a # s) (b # p) \<longleftrightarrow> a = b \<and> startswith s p"
  by (simp add: startswith_def)

lemma slice_from_append [py_simps]: "length p = n \<Longrightarrow> slice_from n (p @ s) = s"
  by (simp add: slice_from_def)

lemma slice_upto_neg_append [py_simps]: "length p = n \<Longrightarrow> slice_upto_neg n (s @ p) = s"
  by (simp add: slice_upto_neg_def)

lemma dropWhile_idem: "dropWhile P (dropWhile P s) = dropWhile P s"
  by (induction s) auto

lemma rev_dropWhile_rev_Cons:
  assumes "\<not> P a"
  shows "\<exists>w. rev (dropWhile P (rev (a # u))) = a # w"
proof (cases "\<forall>x \<in> set u. P x")
  case True
  with assms show ?thesis by (simp add: dropWhile_append)
next
  case False
  with assms have "rev (dropWhile P (rev (a # u))) = a # rev (dropWhile P (rev u))"
    by (simp add: dropWhile_append)
  then show ?thesis by blast
qed

lemma dropWhile_rev_dropWhile_rev:
  assumes "t = [] \<or> \<not> P (hd t)"
  shows "dropWhile P (rev (dropWhile P (rev t))) = rev (dropWhile P (rev t))"
proof (cases t)
  case Nil
  then show ?thesis by simp
next
  case (Cons a u)
  with assms have a: "\<not> P a" by simp
  obtain w where eq: "rev (dropWhile P (rev (a # u))) = a # w"
    using rev_dropWhile_rev_Cons [where P = P and a = a and u = u, OF a] by (elim exE)
  show ?thesis unfolding Cons eq using a by simp
qed

lemma py_strip_nonspace_ends [py_simps]:
  "\<not> py_isspace a \<Longrightarrow> \<not> py_isspace b \<Longrightarrow> py_strip (a # s @ [b]) = a # s @ [b]"
  by (simp add: py_strip_def)

lemma py_strip_Cons_nonspace:
  assumes "\<not> py_isspace a"
  shows "\<exists>u. py_strip (a # t) = a # u"
  using rev_dropWhile_rev_Cons [where P = py_isspace and a = a and u = t, OF assms] assms
  by (simp add: py_strip_def)

lemma py_strip_Nil [py_simps]: "py_strip [] = []"
  by (simp add: py_strip_def)

lemma py_strip_idem [py_simps]: "py_strip (py_strip s) = py_strip s"
proof -
  have "dropWhile py_isspace s = [] \<or> \<not> py_isspace (hd (dropWhile py_isspace s))"
    by (metis hd_dropWhile)
  then show ?thesis
    unfolding py_strip_def by (simp add: dropWhile_rev_dropWhile_rev dropWhile_idem)
qed

text \<open>Suffixes of a concatenation, and \<open>lower\<close> of one.\<close>

lemma endswith_append_longer: "length p \<le> length s \<Longrightarrow> endswith (n @ s) p \<longleftrightarrow> endswith s p"
  by (simp add: endswith_def)

lemma endswith_append_shorter:
  assumes "endswith (n @ s) p" and "length s \<le> length p"
  shows "endswith p s"
proof -
  from assms(1) obtain t where "n @ s = t @ p" by (auto simp: endswith_iff)
  then have "\<exists>us. (n = t @ us \<and> us @ s = p) \<or> (n @ us = t \<and> s = us @ p)"
    by (simp only: append_eq_append_conv2)
  with assms(2) show ?thesis by (auto simp: endswith_iff)
qed

lemma py_lower_append: "py_lower (a @ b) = py_lower a @ py_lower b"
  by (simp add: py_lower_def)

lemma py_lower_append_endswith: "py_lower (n @ s) = m \<Longrightarrow> endswith m (py_lower s)"
  by (metis py_lower_append endswith_append)

lemma endswith_append_cases:
  "endswith (n @ s) p \<Longrightarrow> (length p \<le> length s \<and> endswith s p) \<or> (length s \<le> length p \<and> endswith p s)"
  using endswith_append_longer endswith_append_shorter by (metis nat_le_linear)

end
