(* ===== verification/PyValues.thy ===== *)
theory PyValues
  imports Prelude
begin

text \<open>
  The Python values the service handles after \<open>json.loads\<close> (dicts with
  string keys, lists, strings, ints, floats, booleans and \<open>None\<close>) and the
  exceptions its code raises or catches.  Python's exception hierarchy matters
  to the HTTP layer, which maps every \<open>ValueError\<close> (including
  \<open>json.JSONDecodeError\<close>, \<open>UnicodeDecodeError\<close> and pydantic's
  \<open>ValidationError\<close>, all subclasses of it) to status 400; \<open>is_value_error\<close>
  records that hierarchy.
\<close>

section \<open>Values produced by \<open>json.loads\<close>\<close>

text \<open>A float is a rational (the value it denotes) or one of the non-finite
  values \<open>NaN\<close>, \<open>Infinity\<close>, \<open>-Infinity\<close> that \<open>json.loads\<close> also accepts.
  A dict is the list of its items in insertion order.\<close>

datatype pyval =
    PNone
  | PBool bool
  | PInt int
  | PFloat rat
  | PFloatNonFinite
  | PStr string
  | PList "pyval list"
  | PDict "(string \<times> pyval) list"

text \<open>\<open>json.loads\<close> keeps the last of duplicate keys; a lookup reads the last
  binding of the key.\<close>

definition dict_get :: "(string \<times> 'v) list \<Rightarrow> string \<Rightarrow> 'v option" where
  "dict_get kvs k = map_of (rev kvs) k"

fun py_type_name :: "pyval \<Rightarrow> string" where
  "py_type_name PNone = ''NoneType''"
| "py_type_name (PBool _) = ''bool''"
| "py_type_name (PInt _) = ''int''"
| "py_type_name (PFloat _) = ''float''"
| "py_type_name PFloatNonFinite = ''float''"
| "py_type_name (PStr _) = ''str''"
| "py_type_name (PList _) = ''list''"
| "py_type_name (PDict _) = ''dict''"

section \<open>Exceptions\<close>

text \<open>The error kinds of pydantic's \<open>ValidationError\<close> that the model's
  fields can produce, with the location of each failing field.\<close>

datatype verr =
    Missing
  | BoolParsing | BoolType
  | IntParsing | IntType | IntFromFloat | FiniteNumber
  | GreaterThanEqual | LessThanEqual
  | StringType
  | ModelType

type_synonym vloc = "string list"

datatype exc =
    ValueError string
  | UnicodeDecodeError string
  | JSONDecodeError string
  | ValidationError string "(vloc \<times> verr) list"
  | KeyError string
  | TypeError string
  | AttributeError string
  | OSError string
  | OperationalError string
  | APIError string
  | HTTPException nat string

fun is_value_error :: "exc \<Rightarrow> bool" where
  "is_value_error (ValueError _) = True"
| "is_value_error (UnicodeDecodeError _) = True"
| "is_value_error (JSONDecodeError _) = True"
| "is_value_error (ValidationError _ _) = True"
| "is_value_error _ = False"

text \<open>\<open>str(e)\<close>.  \<open>KeyError\<close> shows the repr of its key, starlette's
  \<open>HTTPException\<close> shows \<open>"status: detail"\<close>; a \<open>ValidationError\<close> is
  rendered by its headline and the dotted locations of its errors (pydantic
  adds a message line per error, which the model does not reproduce).\<close>

text \<open>\<open>repr\<close> of a string without quotes or backslashes in it.\<close>

definition py_repr_str :: "string \<Rightarrow> string" where
  "py_repr_str s = CHR 0x27 # s @ [CHR 0x27]"

fun nat_digits :: "nat \<Rightarrow> string" where
  "nat_digits n =
     (if n < 10 then [char_of (48 + n)] else nat_digits (n div 10) @ [char_of (48 + n mod 10)])"

declare nat_digits.simps [simp del]

text \<open>\<open>sep.join(xs)\<close>.\<close>

fun py_join :: "string \<Rightarrow> string list \<Rightarrow> string" where
  "py_join sep [] = []"
| "py_join sep [x] = x"
| "py_join sep (x # xs) = x @ sep @ py_join sep xs"

text \<open>\<open>s.split(c)\<close> for a one-character separator \<open>c\<close>: the pieces
  between the occurrences of \<open>c\<close>, so \<open>''.split(c) == ['']\<close>.\<close>

fun py_split_char :: "char \<Rightarrow> string \<Rightarrow> string list" where
  "py_split_char c [] = [[]]"
| "py_split_char c (x # xs) =
     (if x = c then [] # py_split_char c xs
      else case py_split_char c xs of w # ws \<Rightarrow> (x # w) # ws | [] \<Rightarrow> [[x]])"

definition str_verrs :: "string \<Rightarrow> (vloc \<times> verr) list \<Rightarrow> string" where
  "str_verrs title es =
     nat_digits (length es) @
     (if length es = 1 then '' validation error for '' else '' validation errors for '') @ title @
     concat (map (\<lambda>(loc, _). [CHR 0x0A] @ py_join ''.'' loc) es)"

fun str_exc :: "exc \<Rightarrow> string" where
  "str_exc (ValueError m) = m"
| "str_exc (UnicodeDecodeError m) = m"
| "str_exc (JSONDecodeError m) = m"
| "str_exc (ValidationError t es) = str_verrs t es"
| "str_exc (KeyError k) = py_repr_str k"
| "str_exc (TypeError m) = m"
| "str_exc (AttributeError m) = m"
| "str_exc (OSError m) = m"
| "str_exc (OperationalError m) = m"
| "str_exc (APIError m) = m"
| "str_exc (HTTPException c d) = nat_digits c @ '': '' @ d"

section \<open>Subscripting a decoded value\<close>

text \<open>\<open>data[key]\<close> for a string key: a dict lookup that raises
  \<open>KeyError\<close>, and a \<open>TypeError\<close> for every other value, with CPython's
  message.\<close>

fun py_getitem :: "pyval \<Rightarrow> string \<Rightarrow> exc + pyval" where
  "py_getitem (PDict kvs) k = (case dict_get kvs k of None \<Rightarrow> Inl (KeyError k) | Some v \<Rightarrow> Inr v)"
| "py_getitem (PList _) k = Inl (TypeError ''list indices must be integers or slices, not str'')"
| "py_getitem (PStr _) k = Inl (TypeError (''string indices must be integers, not '' @ py_repr_str ''str''))"
| "py_getitem v k = Inl (TypeError (py_repr_str (py_type_name v) @ '' object is not subscriptable''))"

lemma dict_get_append_new [model_simps]:
  "dict_get (kvs @ [(k, v)]) k = Some v"
  by (simp add: dict_get_def)

lemma dict_get_Cons_other [model_simps]:
  "k' \<noteq> k \<Longrightarrow> dict_get ((k', v) # kvs) k = dict_get kvs k"
  by (simp add: dict_get_def map_of_append map_add_def split: option.splits)

lemma dict_get_Cons_same [model_simps]:
  "dict_get ((k, v) # kvs) k = (case dict_get kvs k of None \<Rightarrow> Some v | Some w \<Rightarrow> Some w)"
  by (simp add: dict_get_def map_of_append map_add_def split: option.splits)

lemma dict_get_Nil [model_simps]: "dict_get [] k = None"
  by (simp add: dict_get_def)

section \<open>Split and join\<close>

lemma py_split_char_no_sep: "c \<notin> set p \<Longrightarrow> py_split_char c p = [p]"
  by (induction p) auto

lemma py_split_char_append_sep:
  "c \<notin> set p \<Longrightarrow> py_split_char c (p @ c # s) = p # py_split_char c s"
proof (induction p)
  case (Cons x p)
  then show ?case by (cases "py_split_char c s") auto
qed simp

lemma py_split_char_join:
  assumes "xs \<noteq> []" and "\<forall>p \<in> set xs. c \<notin> set p"
  shows "py_split_char c (py_join [c] xs) = xs"
  using assms
proof (induction "[c]" xs rule: py_join.induct)
  case (2 x)
  then show ?case by (simp add: py_split_char_no_sep)
next
  case (3 x y ys)
  then show ?case by (simp add: py_split_char_append_sep)
qed simp

end
