(* ===== verification/Models.thy ===== *)
theory Models
  imports PyValues
begin

text \<open>
  The two pydantic models of \<open>src/app/core/models.py\<close>.  \<open>CriteriaScores\<close>
  and \<open>MatchResult\<close> are records; constructing one (\<open>CriteriaScores(**d)\<close>,
  \<open>MatchResult(match=..., ...)\<close>) runs pydantic's validation in its default
  lax mode on Python inputs, which is modelled field by field: the coercion of
  the field's type (\<open>int\<close>, \<open>bool\<close>, \<open>str\<close>, \<open>Optional[int]\<close>, a nested
  model), then the constraints \<open>ge=0, le=100\<close>.  All failing fields are
  collected into one \<open>ValidationError\<close>, in field order, as pydantic does.
  \<open>model_dump\<close> turns a result back into a dict, which is what the cache
  stores.
\<close>

section \<open>Records\<close>

record criteria_scores =
  skills :: int
  experience :: int
  location :: int
  education :: int
  certifications :: int

record match_result =
  match :: bool
  overall_score :: int
  criteria_scores :: criteria_scores
  explanation :: string
  cached :: bool
  processing_time_ms :: "int option"
  error :: bool

section \<open>Lax coercions of pydantic's field types\<close>

text \<open>pydantic-core (\<open>str_as_int\<close>) reads an int from a string after Rust's
  \<open>str::trim\<close>, whose whitespace below code point 256 is the controls
  9..13, space, NEL and NBSP; unlike Python's \<open>isspace\<close>, not the
  separators 28..31.\<close>

definition rust_is_whitespace :: "char \<Rightarrow> bool" where
  "rust_is_whitespace c \<longleftrightarrow> of_char c \<in> ({9..13} \<union> {32, 133, 160} :: nat set)"

definition rust_trim :: "string \<Rightarrow> string" where
  "rust_trim s = rev (dropWhile rust_is_whitespace (rev (dropWhile rust_is_whitespace s)))"

definition digit_val :: "char \<Rightarrow> nat option" where
  "digit_val c = (let n = (of_char c :: nat) in if 48 \<le> n \<and> n \<le> 57 then Some (n - 48) else None)"

fun digits_val :: "nat \<Rightarrow> string \<Rightarrow> nat option" where
  "digits_val acc [] = Some acc"
| "digits_val acc (c # cs) =
     (case digit_val c of None \<Rightarrow> None | Some d \<Rightarrow> digits_val (10 * acc + d) cs)"

text \<open>Rust's integer \<open>parse\<close>: an optional sign followed by decimal
  digits.\<close>

definition parse_sign_digits :: "string \<Rightarrow> int option" where
  "parse_sign_digits t =
     (case t of
        [] \<Rightarrow> None
      | c # cs \<Rightarrow>
          if c = CHR ''-'' then (if cs = [] then None else map_option (\<lambda>n. - int n) (digits_val 0 cs))
          else if c = CHR ''+'' then (if cs = [] then None else map_option int (digits_val 0 cs))
          else map_option int (digits_val 0 (c # cs)))"

text \<open>\<open>strip_decimal_zeros\<close>: the part before the first \<open>.\<close> when only
  zeros follow it.\<close>

definition strip_decimal_zeros :: "string \<Rightarrow> string option" where
  "strip_decimal_zeros s =
     (case dropWhile (\<lambda>c. c \<noteq> CHR ''.'') s of
        [] \<Rightarrow> None
      | _ # zs \<Rightarrow> if list_all (\<lambda>c. c = CHR ''0'') zs then Some (takeWhile (\<lambda>c. c \<noteq> CHR ''.'') s) else None)"

text \<open>\<open>str_as_int\<close>: trim, refuse more than 4300 characters, parse, and
  otherwise parse again without a decimal part of zeros, so \<open>"85.0"\<close> and
  \<open>"85."\<close> read as 85.  (The underscore forms some versions accept are
  not modelled: the model refuses them.)\<close>

definition parse_int_str :: "string \<Rightarrow> int option" where
  "parse_int_str s =
     (let t = rust_trim s in
      if 4300 < length t then None
      else case parse_sign_digits t of
             Some n \<Rightarrow> Some n
           | None \<Rightarrow> (case strip_decimal_zeros t of Some u \<Rightarrow> parse_sign_digits u | None \<Rightarrow> None))"

text \<open>\<open>int\<close> field: ints; booleans as 0 and 1; floats with no fractional
  part; numeric strings.\<close>

fun coerce_int :: "pyval \<Rightarrow> verr + int" where
  "coerce_int (PInt n) = Inr n"
| "coerce_int (PBool b) = Inr (if b then 1 else 0)"
| "coerce_int (PFloat q) = (if q = of_int \<lfloor>q\<rfloor> then Inr \<lfloor>q\<rfloor> else Inl IntFromFloat)"
| "coerce_int PFloatNonFinite = Inl FiniteNumber"
| "coerce_int (PStr s) = (case parse_int_str s of None \<Rightarrow> Inl IntParsing | Some n \<Rightarrow> Inr n)"
| "coerce_int _ = Inl IntType"

text \<open>\<open>bool\<close> field: booleans; the ints and floats 0 and 1; the strings
  pydantic reads as booleans, in any letter case.\<close>

definition bool_true_strs :: "string list" where
  "bool_true_strs = [''1'', ''on'', ''t'', ''true'', ''y'', ''yes'']"

definition bool_false_strs :: "string list" where
  "bool_false_strs = [''0'', ''off'', ''f'', ''false'', ''n'', ''no'']"

fun coerce_bool :: "pyval \<Rightarrow> verr + bool" where
  "coerce_bool (PBool b) = Inr b"
| "coerce_bool (PInt n) = (if n = 0 then Inr False else if n = 1 then Inr True else Inl BoolParsing)"
| "coerce_bool (PFloat q) = (if q = 0 then Inr False else if q = 1 then Inr True else Inl BoolParsing)"
| "coerce_bool PFloatNonFinite = Inl BoolParsing"
| "coerce_bool (PStr s) =
     (if py_lower s \<in> set bool_true_strs then Inr True
      else if py_lower s \<in> set bool_false_strs then Inr False else Inl BoolParsing)"
| "coerce_bool _ = Inl BoolType"

fun coerce_str :: "pyval \<Rightarrow> verr + string" where
  "coerce_str (PStr s) = Inr s"
| "coerce_str _ = Inl StringType"

fun coerce_opt_int :: "pyval \<Rightarrow> verr + int option" where
  "coerce_opt_int PNone = Inr None"
| "coerce_opt_int v = (case coerce_int v of Inl e \<Rightarrow> Inl e | Inr n \<Rightarrow> Inr (Some n))"

text \<open>\<open>int = Field(ge=0, le=100)\<close>.\<close>

definition validate_score :: "pyval \<Rightarrow> verr + int" where
  "validate_score v =
     (case coerce_int v of
        Inl e \<Rightarrow> Inl e
      | Inr n \<Rightarrow> if n < 0 then Inl GreaterThanEqual else if 100 < n then Inl LessThanEqual else Inr n)"

text \<open>A keyword argument: a required field reports \<open>missing\<close>, a field with
  a default takes it.\<close>

definition required :: "('v \<Rightarrow> verr + 'a) \<Rightarrow> 'v option \<Rightarrow> verr + 'a" where
  "required f x = (case x of None \<Rightarrow> Inl Missing | Some v \<Rightarrow> f v)"

definition defaulted :: "'a \<Rightarrow> ('v \<Rightarrow> verr + 'a) \<Rightarrow> 'v option \<Rightarrow> verr + 'a" where
  "defaulted d f x = (case x of None \<Rightarrow> Inr d | Some v \<Rightarrow> f v)"

definition ferr :: "string \<Rightarrow> verr + 'a \<Rightarrow> (vloc \<times> verr) list" where
  "ferr name r = (case r of Inl e \<Rightarrow> [([name], e)] | Inr _ \<Rightarrow> [])"

section \<open>\<open>CriteriaScores(**kwargs)\<close>\<close>

definition validate_criteria :: "(string \<times> pyval) list \<Rightarrow> (vloc \<times> verr) list + criteria_scores" where
  "validate_criteria kw =
     (let s = required validate_score (dict_get kw ''skills'');
          x = required validate_score (dict_get kw ''experience'');
          l = required validate_score (dict_get kw ''location'');
          e = required validate_score (dict_get kw ''education'');
          c = required validate_score (dict_get kw ''certifications'')
      in case (s, x, l, e, c) of
           (Inr s', Inr x', Inr l', Inr e', Inr c') \<Rightarrow>
             Inr \<lparr>skills = s', experience = x', location = l', education = e', certifications = c'\<rparr>
         | _ \<Rightarrow> Inl (ferr ''skills'' s @ ferr ''experience'' x @ ferr ''location'' l @
                    ferr ''education'' e @ ferr ''certifications'' c))"

definition CriteriaScores :: "(string \<times> pyval) list \<Rightarrow> exc + criteria_scores" where
  "CriteriaScores kw =
     (case validate_criteria kw of Inl es \<Rightarrow> Inl (ValidationError ''CriteriaScores'' es) | Inr c \<Rightarrow> Inr c)"

section \<open>\<open>MatchResult(...)\<close>\<close>

text \<open>The \<open>criteria_scores\<close> argument is either an already built
  \<open>CriteriaScores\<close> instance (as in the LLM adapter) or a raw value (as when
  a cached dict is passed back with \<open>**\<close>); a raw dict is validated as a
  nested model, with its errors located under \<open>criteria_scores\<close>.\<close>

datatype crit_arg = CritModel criteria_scores | CritRaw pyval

fun validate_crit_arg :: "crit_arg \<Rightarrow> (vloc \<times> verr) list + criteria_scores" where
  "validate_crit_arg (CritModel c) = Inr c"
| "validate_crit_arg (CritRaw (PDict kw)) =
     (case validate_criteria kw of
        Inl es \<Rightarrow> Inl (map (\<lambda>(loc, e). (''criteria_scores'' # loc, e)) es)
      | Inr c \<Rightarrow> Inr c)"
| "validate_crit_arg (CritRaw _) = Inl [([''criteria_scores''], ModelType)]"

definition crit_required :: "crit_arg option \<Rightarrow> (vloc \<times> verr) list + criteria_scores" where
  "crit_required x = (case x of None \<Rightarrow> Inl [([''criteria_scores''], Missing)] | Some a \<Rightarrow> validate_crit_arg a)"

definition MatchResult ::
  "pyval option \<Rightarrow> pyval option \<Rightarrow> crit_arg option \<Rightarrow> pyval option \<Rightarrow>
   pyval option \<Rightarrow> pyval option \<Rightarrow> pyval option \<Rightarrow> exc + match_result" where
  "MatchResult m ov cs ex ca pt er =
     (let m' = required coerce_bool m;
          ov' = required validate_score ov;
          cs' = crit_required cs;
          ex' = required coerce_str ex;
          ca' = defaulted False coerce_bool ca;
          pt' = defaulted None coerce_opt_int pt;
          er' = defaulted False coerce_bool er
      in case (m', ov', cs', ex', ca', pt', er') of
           (Inr m'', Inr ov'', Inr cs'', Inr ex'', Inr ca'', Inr pt'', Inr er'') \<Rightarrow>
             Inr \<lparr>match = m'', overall_score = ov'', criteria_scores = cs'', explanation = ex'',
                  cached = ca'', processing_time_ms = pt'', error = er''\<rparr>
         | _ \<Rightarrow> Inl (ValidationError ''MatchResult''
                  (ferr ''match'' m' @ ferr ''overall_score'' ov' @
                   (case cs' of Inl es \<Rightarrow> es | Inr _ \<Rightarrow> []) @
                   ferr ''explanation'' ex' @ ferr ''cached'' ca' @
                   ferr ''processing_time_ms'' pt' @ ferr ''error'' er')))"

text \<open>\<open>MatchResult(**data)\<close> for a decoded dict; any other value is not a
  mapping and the call raises \<open>TypeError\<close> before pydantic runs.\<close>

definition MatchResult_kwargs :: "(string \<times> pyval) list \<Rightarrow> exc + match_result" where
  "MatchResult_kwargs kw =
     MatchResult (dict_get kw ''match'') (dict_get kw ''overall_score'')
       (map_option CritRaw (dict_get kw ''criteria_scores'')) (dict_get kw ''explanation'')
       (dict_get kw ''cached'') (dict_get kw ''processing_time_ms'') (dict_get kw ''error'')"

fun MatchResult_star :: "pyval \<Rightarrow> exc + match_result" where
  "MatchResult_star (PDict kw) = MatchResult_kwargs kw"
| "MatchResult_star v =
     Inl (TypeError (''MatchResult() argument after ** must be a mapping, not '' @ py_type_name v))"

section \<open>\<open>model_dump()\<close>\<close>

definition criteria_items :: "criteria_scores \<Rightarrow> (string \<times> pyval) list" where
  "criteria_items c =
     [(''skills'', PInt (skills c)), (''experience'', PInt (experience c)),
      (''location'', PInt (location c)), (''education'', PInt (education c)),
      (''certifications'', PInt (certifications c))]"

definition dump_criteria :: "criteria_scores \<Rightarrow> pyval" where
  "dump_criteria c = PDict (criteria_items c)"

definition model_dump :: "match_result \<Rightarrow> pyval" where
  "model_dump r =
     PDict [(''match'', PBool (match r)), (''overall_score'', PInt (overall_score r)),
            (''criteria_scores'', dump_criteria (criteria_scores r)),
            (''explanation'', PStr (explanation r)), (''cached'', PBool (cached r)),
            (''processing_time_ms'', (case processing_time_ms r of None \<Rightarrow> PNone | Some n \<Rightarrow> PInt n)),
            (''error'', PBool (error r))]"

section \<open>Well-formedness\<close>

definition in_range :: "int \<Rightarrow> bool" where
  "in_range n \<longleftrightarrow> 0 \<le> n \<and> n \<le> 100"

definition wf_criteria :: "criteria_scores \<Rightarrow> bool" where
  "wf_criteria c \<longleftrightarrow>
     in_range (skills c) \<and> in_range (experience c) \<and> in_range (location c) \<and>
     in_range (education c) \<and> in_range (certifications c)"

definition wf_result :: "match_result \<Rightarrow> bool" where
  "wf_result r \<longleftrightarrow> in_range (overall_score r) \<and> wf_criteria (criteria_scores r)"

section \<open>Validation establishes the field constraints\<close>

lemma validate_score_Inr [dest]: "validate_score v = Inr n \<Longrightarrow> in_range n"
  by (auto simp: validate_score_def in_range_def split: sum.splits if_splits)

lemma validate_score_PInt [model_simps]: "in_range n \<Longrightarrow> validate_score (PInt n) = Inr n"
  by (simp add: validate_score_def in_range_def)

lemma required_Inr: "required f x = Inr a \<Longrightarrow> \<exists>v. x = Some v \<and> f v = Inr a"
  by (auto simp: required_def split: option.splits)

lemma validate_criteria_wf:
  assumes "validate_criteria kw = Inr c"
  shows "wf_criteria c"
  using assms
  by (auto simp: validate_criteria_def wf_criteria_def Let_def split: sum.splits
           dest!: required_Inr)

lemma validate_crit_arg_wf:
  assumes "validate_crit_arg a = Inr c" and "\<And>c'. a = CritModel c' \<Longrightarrow> wf_criteria c'"
  shows "wf_criteria c"
  using assms
  by (cases a rule: validate_crit_arg.cases) (auto split: sum.splits intro: validate_criteria_wf)

lemma MatchResult_wf:
  assumes "MatchResult m ov cs ex ca pt er = Inr r"
    and "\<And>c. cs = Some (CritModel c) \<Longrightarrow> wf_criteria c"
  shows "wf_result r"
proof -
  from assms(1) obtain a c n where cs: "cs = Some a" and a: "validate_crit_arg a = Inr c"
      and ov: "required validate_score ov = Inr n"
      and r: "overall_score r = n" "criteria_scores r = c"
    by (auto simp: MatchResult_def Let_def crit_required_def split: sum.splits option.splits)
  have "wf_criteria c"
    using a by (rule validate_crit_arg_wf) (use assms(2) cs in blast)
  moreover from ov have "in_range n" by (auto dest: required_Inr)
  ultimately show ?thesis by (simp add: wf_result_def r)
qed

lemma MatchResult_star_wf: "MatchResult_star v = Inr r \<Longrightarrow> wf_result r"
  by (cases v) (auto simp: MatchResult_kwargs_def intro: MatchResult_wf)

section \<open>Round trip through \<open>model_dump\<close>\<close>

lemma validate_criteria_items:
  "wf_criteria c \<Longrightarrow> validate_criteria (criteria_items c) = Inr c"
  by (simp add: criteria_items_def validate_criteria_def wf_criteria_def required_def
      validate_score_PInt dict_get_def)

lemma validate_criteria_dump:
  "wf_criteria c \<Longrightarrow> validate_crit_arg (CritRaw (dump_criteria c)) = Inr c"
  by (simp add: dump_criteria_def validate_criteria_items)

lemma coerce_opt_int_dump:
  "coerce_opt_int (case t of None \<Rightarrow> PNone | Some n \<Rightarrow> PInt n) = Inr t"
  by (cases t) simp_all

lemma MatchResult_star_model_dump:
  assumes "wf_result r"
  shows "MatchResult_star (model_dump r) = Inr r"
proof -
  from assms have "in_range (overall_score r)" "wf_criteria (criteria_scores r)"
    by (simp_all add: wf_result_def)
  then show ?thesis
    by (simp add: model_dump_def MatchResult_kwargs_def MatchResult_def required_def
        defaulted_def crit_required_def validate_criteria_dump validate_score_PInt
        coerce_opt_int_dump dict_get_def)
qed

text \<open>C19: Validation normalises: whatever value \<open>MatchResult(**data)\<close>
  accepts, dumping the result and validating the dump again gives the same
  result, so a cached entry reads back unchanged.\<close>

theorem validate_dump_stable:
  assumes "MatchResult_star v = Inr r"
  shows "MatchResult_star (model_dump r) = Inr r"
  using MatchResult_star_wf [OF assms] by (rule MatchResult_star_model_dump)

end
