(* ===== verification/LlmService.thy ===== *)
theory LlmService
  imports Models
begin

text \<open>
  The scoring backend adapter, \<open>LLMService\<close> of
  \<open>src/app/services/llm_service.py\<close>.  The record \<open>llm_env\<close> is the
  service object: the model name it takes from the settings
  (\<open>self.model\<close>) and what it calls outside the program, each a parameter
  that may raise and so returns a sum: reading a file
  (\<open>Path.read_text\<close>), the template's \<open>str.format\<close>, the OpenAI chat
  completion (its message content, which the API types as optional),
  \<open>json.loads\<close> and the \<open>models.list\<close> probe.  The adapter itself is
  modelled as written: \<open>load_prompt\<close> and the request that
  \<open>_call_openai\<close> sends; the prompt is loaded and formatted \<^emph>\<open>before\<close>
  the \<open>try\<close>, so those two failures escape as exceptions (\<open>Inl\<close>);
  everything inside the \<open>try\<close> is caught by \<open>except Exception\<close> and
  turned into the error result.
\<close>

text \<open>The arguments of \<open>client.chat.completions.create\<close> (lines 25--32).\<close>

record chat_request =
  req_model :: string
  messages :: "(string \<times> string) list"
  temperature :: rat
  max_tokens :: nat

record llm_env =
  read_text :: "string \<Rightarrow> exc + string"
  render :: "string \<Rightarrow> string \<Rightarrow> string \<Rightarrow> exc + string"
  model :: string
  chat_completion :: "chat_request \<Rightarrow> exc + string option"
  json_loads :: "string \<Rightarrow> exc + pyval"
  models_list :: "exc + unit"

section \<open>Loading the prompt (lines 11--14, 44)\<close>

text \<open>\<open>Path(__file__).parent.parent / "prompts" / filename\<close>: the file
  \<open>prompts/filename\<close> of the \<open>app\<close> package.\<close>

definition prompt_path :: "string \<Rightarrow> string" where
  "prompt_path filename = ''app/prompts/'' @ filename"

definition load_prompt :: "llm_env \<Rightarrow> string \<Rightarrow> exc + string" where
  "load_prompt env filename = read_text env (prompt_path filename)"

definition prompt_template :: "llm_env \<Rightarrow> exc + string" where
  "prompt_template env = load_prompt env ''match_prompt.txt''"

section \<open>Cleaning the completion (lines 53--60)\<close>

definition clean_response :: "string \<Rightarrow> string" where
  "clean_response response =
     (let r1 = py_strip response;
          r2 = (if startswith r1 ''```json'' then slice_from 7 r1 else r1);
          r3 = (if startswith r2 ''```'' then slice_from 3 r2 else r2);
          r4 = (if endswith r3 ''```'' then slice_upto_neg 3 r3 else r3)
      in py_strip r4)"

section \<open>Building the result (lines 62--71)\<close>

text \<open>\<open>CriteriaScores(**data['criteria_scores'])\<close> is evaluated first; then
  the three keyword arguments \<open>data['match']\<close>, \<open>data['overall_score']\<close>,
  \<open>data['explanation']\<close>, left to right; then \<open>MatchResult\<close> validates.\<close>

definition star_mapping :: "pyval \<Rightarrow> exc + (string \<times> pyval) list" where
  "star_mapping v =
     (case v of PDict kw \<Rightarrow> Inr kw
      | _ \<Rightarrow> Inl (TypeError (''CriteriaScores() argument after ** must be a mapping, not '' @ py_type_name v)))"

definition build_result :: "pyval \<Rightarrow> exc + match_result" where
  "build_result data =
     sbind (py_getitem data ''criteria_scores'') (\<lambda>cv.
     sbind (star_mapping cv) (\<lambda>kw.
     sbind (CriteriaScores kw) (\<lambda>cs.
     sbind (py_getitem data ''match'') (\<lambda>m.
     sbind (py_getitem data ''overall_score'') (\<lambda>ov.
     sbind (py_getitem data ''explanation'') (\<lambda>ex.
       MatchResult (Some m) (Some ov) (Some (CritModel cs)) (Some ex) None None None))))))"

section \<open>The error result (lines 73--88)\<close>

definition zero_scores :: criteria_scores where
  "zero_scores = \<lparr>skills = 0, experience = 0, location = 0, education = 0, certifications = 0\<rparr>"

definition error_result :: "exc \<Rightarrow> match_result" where
  "error_result e =
     \<lparr>match = False, overall_score = 0, criteria_scores = zero_scores,
      explanation = ''Error processing match: '' @ str_exc e,
      cached = False, processing_time_ms = None, error = True\<rparr>"

section \<open>\<open>_call_openai\<close> and \<open>match_cv_job\<close>\<close>

text \<open>\<open>_call_openai\<close> sends the prompt as the one user message, with the
  configured model, temperature 0.3 and at most 2000 tokens; it logs and
  re-raises a failure, so its outcome is the completion's.  A \<open>None\<close>
  content fails later, at \<open>response.strip()\<close>.\<close>

definition call_openai :: "llm_env \<Rightarrow> string \<Rightarrow> exc + string option" where
  "call_openai env prompt =
     chat_completion env
       \<lparr>req_model = model env, messages = [(''user'', prompt)], temperature = 3 / 10, max_tokens = 2000\<rparr>"

definition none_strip_error :: exc where
  "none_strip_error = AttributeError ([CHR 0x27] @ ''NoneType'' @ [CHR 0x27] @
                        '' object has no attribute '' @ [CHR 0x27] @ ''strip'' @ [CHR 0x27])"

definition try_body :: "llm_env \<Rightarrow> string \<Rightarrow> exc + match_result" where
  "try_body env prompt =
     sbind (call_openai env prompt) (\<lambda>content.
       case content of
         None \<Rightarrow> Inl none_strip_error
       | Some response \<Rightarrow> sbind (json_loads env (clean_response response)) build_result)"

definition llm_match_cv_job :: "llm_env \<Rightarrow> string \<Rightarrow> string \<Rightarrow> exc + match_result" where
  "llm_match_cv_job env cv_text job_text =
     sbind (prompt_template env) (\<lambda>template.
     sbind (render env template cv_text job_text) (\<lambda>prompt.
       Inr (case try_body env prompt of Inl e \<Rightarrow> error_result e | Inr r \<Rightarrow> r)))"

definition health_check :: "llm_env \<Rightarrow> bool" where
  "health_check env = (case models_list env of Inl _ \<Rightarrow> False | Inr _ \<Rightarrow> True)"

text \<open>The five sub-score fields of \<open>CriteriaScores\<close>, in declaration order.\<close>

definition score_fields :: "string list" where
  "score_fields = [''skills'', ''experience'', ''location'', ''education'', ''certifications'']"

section \<open>Properties of \<open>clean_response\<close>\<close>

lemma backtick_not_space [py_simps]: "\<not> py_isspace (CHR ''`'')"
  by (simp add: py_isspace_def)

text \<open>A text whose stripped form neither starts nor ends with a backtick is
  only stripped.\<close>

lemma clean_response_plain:
  assumes "\<not> startswith (py_strip q) ''`''" and "\<not> endswith (py_strip q) ''`''"
  shows "clean_response q = py_strip q"
proof -
  have "\<not> startswith (py_strip q) ''```json''" "\<not> startswith (py_strip q) ''```''"
    using assms(1) startswith_prefix [of "py_strip q" "''`''"] by auto
  moreover have "\<not> endswith (py_strip q) ''```''"
    using assms(2) endswith_suffix [of "py_strip q" "''``''" "''`''"] by auto
  ultimately show ?thesis
    by (simp add: clean_response_def Let_def py_strip_idem)
qed

lemma strip_backtick_start:
  assumes "\<not> startswith (py_strip p) ''`''" and "p \<noteq> []"
  shows "\<not> startswith (p @ ''```'') ''```''"
proof -
  from assms(2) obtain a t where Cons: "p = a # t" by (cases p) auto
  show ?thesis
  proof (cases "a = CHR ''`''")
    case True
    then obtain u where "py_strip p = CHR ''`'' # u"
      using py_strip_Cons_nonspace [of a t] Cons backtick_not_space by blast
    with assms show ?thesis by (simp add: startswith_def)
  next
    case False
    with Cons show ?thesis by (simp add: startswith_def)
  qed
qed

text \<open>A text that, followed by backticks, starts with \<open>json\<close> starts with it
  itself.\<close>

lemma startswith_append_backticks:
  assumes "startswith (p @ ''```'') ''json''"
  shows "startswith p ''json''"
proof -
  obtain t where "p @ ''```'' = ''json'' @ t" using assms by (auto simp: startswith_iff)
  then have "\<exists>us. (p = ''json'' @ us \<and> us @ ''```'' = t) \<or> (p @ us = ''json'' \<and> ''```'' = us @ t)"
    by (simp only: append_eq_append_conv2)
  then obtain us where "(p = ''json'' @ us \<and> us @ ''```'' = t) \<or> (p @ us = ''json'' \<and> ''```'' = us @ t)"
    by blast
  then show ?thesis
  proof
    assume "p = ''json'' @ us \<and> us @ ''```'' = t"
    then show ?thesis by (simp add: startswith_iff)
  next
    assume a: "p @ us = ''json'' \<and> ''```'' = us @ t"
    show ?thesis
    proof (cases "us = []")
      case True
      with a show ?thesis by (simp add: startswith_def)
    next
      case False
      have "last us = last (p @ us)" using False by simp
      then have "last us = CHR ''n''" using a by simp
      moreover have "last us \<in> set (us @ t)" using False by simp
      then have "last us \<in> set ''```''" using a by metis
      ultimately show ?thesis by simp
    qed
  qed
qed

text \<open>Removing a \<open>```json ... ```\<close> fence gives the cleaned payload.\<close>

lemma clean_response_fence:
  assumes "\<not> startswith (py_strip p) ''`''" and "\<not> endswith (py_strip p) ''`''"
  shows "clean_response (''```json'' @ p @ ''```'') = clean_response p"
proof (cases "p = []")
  case True
  then show ?thesis
    by (simp add: clean_response_def startswith_def endswith_def slice_from_def
        slice_upto_neg_def py_strip_def py_isspace_def)
next
  case False
  have eq: "''```json'' @ p @ ''```'' = CHR ''`'' # (''``json'' @ p @ ''``'') @ [CHR ''`'']"
    by simp
  have strip: "py_strip (''```json'' @ p @ ''```'') = ''```json'' @ p @ ''```''"
    unfolding eq by (rule py_strip_nonspace_ends) (rule backtick_not_space)+
  have r2: "slice_from 7 (''```json'' @ p @ ''```'') = p @ ''```''"
    by (simp add: slice_from_def)
  have r3: "\<not> startswith (p @ ''```'') ''```''"
    using assms(1) False by (rule strip_backtick_start)
  have s1: "startswith (''```json'' @ p @ ''```'') ''```json''"
    by (rule startswith_append)
  have r4: "slice_upto_neg 3 (p @ ''```'') = p"
    by (rule slice_upto_neg_append) simp
  have "clean_response (''```json'' @ p @ ''```'') = py_strip p"
    unfolding clean_response_def Let_def strip
    by (simp only: s1 r2 r3 r4 endswith_append if_True if_False)
  also have "\<dots> = clean_response p"
    using assms by (rule clean_response_plain [symmetric])
  finally show ?thesis .
qed

section \<open>Results of the adapter\<close>

lemma CriteriaScores_wf: "CriteriaScores kw = Inr c \<Longrightarrow> wf_criteria c"
  by (auto simp: CriteriaScores_def split: sum.splits intro: validate_criteria_wf)

lemma build_result_Inr:
  assumes "build_result d = Inr r"
  shows "wf_result r \<and> \<not> error r \<and> \<not> cached r \<and> processing_time_ms r = None"
proof -
  from assms obtain kw cs m ov ex where
      cs: "CriteriaScores kw = Inr cs" and
      mr: "MatchResult (Some m) (Some ov) (Some (CritModel cs)) (Some ex) None None None = Inr r"
    by (auto simp: build_result_def sbind_eq_Inr)
  from cs have "wf_criteria cs" by (rule CriteriaScores_wf)
  with mr have "wf_result r" by (auto intro: MatchResult_wf)
  moreover from mr have "\<not> error r \<and> \<not> cached r \<and> processing_time_ms r = None"
    by (auto simp: MatchResult_def Let_def defaulted_def split: sum.splits)
  ultimately show ?thesis by blast
qed

lemma error_result_wf [model_simps]: "wf_result (error_result e)"
  by (simp add: error_result_def wf_result_def wf_criteria_def zero_scores_def in_range_def)

lemma try_body_Inr: "try_body env prompt = Inr r \<Longrightarrow> wf_result r \<and> \<not> error r \<and> \<not> cached r \<and> processing_time_ms r = None"
  by (auto simp: try_body_def sbind_eq_Inr split: option.splits dest: build_result_Inr)

lemma llm_match_cv_job_eq:
  assumes "prompt_template env = Inr template" and "render env template cv_text job_text = Inr prompt"
  shows "llm_match_cv_job env cv_text job_text =
           Inr (case try_body env prompt of Inl e \<Rightarrow> error_result e | Inr r \<Rightarrow> r)"
  using assms by (simp add: llm_match_cv_job_def)

text \<open>A range or type violation in any sub-score is reported by
  \<open>CriteriaScores\<close> under that field's name.\<close>

lemma validate_criteria_field_error:
  assumes "f \<in> set score_fields" and "required validate_score (dict_get kw f) = Inl e"
  shows "\<exists>es. validate_criteria kw = Inl es \<and> ([f], e) \<in> set es"
proof -
  have "f = ''skills'' \<or> f = ''experience'' \<or> f = ''location'' \<or> f = ''education'' \<or>
        f = ''certifications''"
    using assms(1) by (simp add: score_fields_def)
  then show ?thesis
    using assms(2)
    by (elim disjE) (simp_all add: validate_criteria_def Let_def ferr_def split: sum.split)
qed

lemma build_result_criteria_error:
  assumes "dict_get kw ''criteria_scores'' = Some (PDict ckw)"
    and "f \<in> set score_fields" and "dict_get ckw f = Some v" and "validate_score v = Inl e"
  shows "\<exists>es. build_result (PDict kw) = Inl (ValidationError ''CriteriaScores'' es) \<and> ([f], e) \<in> set es"
proof -
  from assms(3,4) have "required validate_score (dict_get ckw f) = Inl e"
    by (simp add: required_def)
  with assms(2) obtain es where "validate_criteria ckw = Inl es" "([f], e) \<in> set es"
    using validate_criteria_field_error by blast
  with assms(1) show ?thesis
    by (simp add: build_result_def star_mapping_def CriteriaScores_def)
qed

lemma CriteriaScores_items: "wf_criteria c \<Longrightarrow> CriteriaScores (criteria_items c) = Inr c"
  by (simp add: CriteriaScores_def validate_criteria_items)

lemma build_result_lax:
  assumes "dict_get kw ''criteria_scores'' = Some (dump_criteria c)" and "wf_criteria c"
    and "dict_get kw ''match'' = Some v" and "coerce_bool v = Inr b"
    and "dict_get kw ''overall_score'' = Some u" and "validate_score u = Inr n"
    and "dict_get kw ''explanation'' = Some (PStr x)"
  shows "build_result (PDict kw) =
           Inr \<lparr>match = b, overall_score = n, criteria_scores = c, explanation = x,
                cached = False, processing_time_ms = None, error = False\<rparr>"
  using assms
  by (simp add: build_result_def star_mapping_def dump_criteria_def CriteriaScores_items
      MatchResult_def required_def defaulted_def crit_required_def)

text \<open>The strings pydantic reads as booleans, and numeric strings for a
  score.\<close>

lemma coerce_bool_word:
  "py_lower s \<in> set (bool_true_strs @ bool_false_strs) \<Longrightarrow> coerce_bool (PStr s) = Inr (py_lower s \<in> set bool_true_strs)"
  by (auto simp: bool_true_strs_def bool_false_strs_def)

lemma validate_score_numeric_str:
  "parse_int_str d = Some n \<Longrightarrow> in_range n \<Longrightarrow> validate_score (PStr d) = Inr n"
  by (simp add: validate_score_def in_range_def)

lemma build_result_success:
  assumes "dict_get kw ''criteria_scores'' = Some (dump_criteria c)" and "wf_criteria c"
    and "dict_get kw ''match'' = Some (PBool b)"
    and "dict_get kw ''overall_score'' = Some (PInt n)" and "in_range n"
    and "dict_get kw ''explanation'' = Some (PStr x)"
  shows "build_result (PDict kw) =
           Inr \<lparr>match = b, overall_score = n, criteria_scores = c, explanation = x,
                cached = False, processing_time_ms = None, error = False\<rparr>"
  by (rule build_result_lax [OF assms(1-3) _ assms(4) validate_score_PInt [OF assms(5)] assms(6)]) simp

lemma llm_match_cv_job_Inr:
  assumes "llm_match_cv_job env cv_text job_text = Inr r"
  shows "wf_result r \<and> \<not> cached r \<and> processing_time_ms r = None \<and>
         (error r \<longrightarrow> (\<exists>e. r = error_result e))"
proof -
  from assms obtain prompt where "r = (case try_body env prompt of Inl e \<Rightarrow> error_result e | Inr r \<Rightarrow> r)"
    by (auto simp: llm_match_cv_job_def sbind_eq_Inr)
  then show ?thesis
    by (auto split: sum.splits dest: try_body_Inr simp: error_result_wf, auto simp: error_result_def)
qed

section \<open>Properties of the adapter\<close>

text \<open>C7: Every result the adapter returns is well-formed and not marked
  cached; an error result says no match, has overall score 0 and all
  sub-scores 0, and its explanation starts with the fixed diagnostic prefix.\<close>

theorem llm_error_result_shape:
  assumes "llm_match_cv_job env cv job = Inr r"
  shows "wf_result r \<and> \<not> cached r \<and>
         (error r \<longrightarrow> \<not> match r \<and> overall_score r = 0 \<and> criteria_scores r = zero_scores \<and>
                      startswith (explanation r) ''Error processing match: '')"
proof -
  have shape: "\<not> match (error_result e) \<and> overall_score (error_result e) = 0 \<and>
      criteria_scores (error_result e) = zero_scores \<and>
      startswith (explanation (error_result e)) ''Error processing match: ''" for e
    unfolding error_result_def match_result.select_convs by (simp del: append.simps add: startswith_append)
  from llm_match_cv_job_Inr [OF assms] shape show ?thesis by auto
qed

text \<open>C8: A completion wrapped in a \<open>```json ... ```\<close> fence gives the
  adapter the same result as the bare payload, whenever the payload does not
  itself begin or end with a backtick.\<close>

theorem fenced_completion_same_result:
  assumes "\<not> startswith (py_strip p) ''`''" and "\<not> endswith (py_strip p) ''`''"
  shows "llm_match_cv_job (env\<lparr>chat_completion := \<lambda>_. Inr (Some (''```json'' @ p @ ''```''))\<rparr>) cv job =
         llm_match_cv_job (env\<lparr>chat_completion := \<lambda>_. Inr (Some p)\<rparr>) cv job"
  using clean_response_fence [OF assms]
  by (simp add: llm_match_cv_job_def try_body_def call_openai_def prompt_template_def load_prompt_def)

text \<open>C9: If the decoded payload gives any sub-score a value that does not
  coerce to an integer in [0, 100] (for example 150), the adapter returns an error result
  (overall score 0, no match) instead of passing the value through.\<close>

theorem out_of_range_score_rejected:
  assumes "prompt_template env = Inr template" and "render env template cv job = Inr prompt"
    and "call_openai env prompt = Inr (Some response)"
    and "json_loads env (clean_response response) = Inr (PDict kw)"
    and "dict_get kw ''criteria_scores'' = Some (PDict ckw)"
    and "f \<in> set score_fields" and "dict_get ckw f = Some v"
    and "\<not> (\<exists>n. coerce_int v = Inr n \<and> 0 \<le> n \<and> n \<le> 100)"
  shows "\<exists>r. llm_match_cv_job env cv job = Inr r \<and> error r \<and> \<not> match r \<and> overall_score r = 0"
proof -
  obtain e where "validate_score v = Inl e"
    using assms(8) by (cases "coerce_int v") (auto simp: validate_score_def)
  then obtain es where "build_result (PDict kw) = Inl (ValidationError ''CriteriaScores'' es)"
    using build_result_criteria_error [OF assms(5-7)] by blast
  with assms(3,4) have "try_body env prompt = Inl (ValidationError ''CriteriaScores'' es)"
    by (simp add: try_body_def call_openai_def)
  with assms(1,2) show ?thesis
    by (simp add: llm_match_cv_job_def error_result_def)
qed

text \<open>C10: A well-typed payload with scores in range is returned as the
  result with exactly its fields, not cached, no processing time, no error.\<close>

theorem valid_payload_accepted:
  assumes "prompt_template env = Inr template" and "render env template cv job = Inr prompt"
    and "call_openai env prompt = Inr (Some response)"
    and "json_loads env (clean_response response) = Inr (PDict kw)"
    and "dict_get kw ''criteria_scores'' = Some (dump_criteria c)" and "wf_criteria c"
    and "dict_get kw ''match'' = Some (PBool b)"
    and "dict_get kw ''overall_score'' = Some (PInt n)" and "in_range n"
    and "dict_get kw ''explanation'' = Some (PStr x)"
  shows "llm_match_cv_job env cv job =
           Inr \<lparr>match = b, overall_score = n, criteria_scores = c, explanation = x,
                cached = False, processing_time_ms = None, error = False\<rparr>"
  using assms build_result_success [OF assms(5-10)]
  by (simp add: llm_match_cv_job_def try_body_def call_openai_def)

text \<open>C11: pydantic's lax mode lets the backend answer with strings: a
  \<open>match\<close> that is any of the words pydantic reads as a boolean (\<open>"yes"\<close>,
  \<open>"on"\<close>, \<open>"t"\<close>, \<open>"1"\<close>, \<open>"no"\<close>, ... in any letter case) and an
  \<open>overall_score\<close> that is a numeric string in range (\<open>" 85 "\<close>,
  \<open>"85.0"\<close>) are accepted, and the result carries the bool and the int
  they denote.\<close>

theorem lax_match_string_accepted:
  assumes "prompt_template env = Inr template" and "render env template cv job = Inr prompt"
    and "call_openai env prompt = Inr (Some response)"
    and "json_loads env (clean_response response) = Inr (PDict kw)"
    and "dict_get kw ''criteria_scores'' = Some (dump_criteria c)" and "wf_criteria c"
    and "dict_get kw ''match'' = Some (PStr s)" and "py_lower s \<in> set (bool_true_strs @ bool_false_strs)"
    and "dict_get kw ''overall_score'' = Some (PStr d)" and "parse_int_str d = Some n" and "in_range n"
    and "dict_get kw ''explanation'' = Some (PStr x)"
  shows "llm_match_cv_job env cv job =
           Inr \<lparr>match = (py_lower s \<in> set bool_true_strs), overall_score = n, criteria_scores = c,
                explanation = x, cached = False, processing_time_ms = None, error = False\<rparr>"
proof -
  have "build_result (PDict kw) =
          Inr \<lparr>match = (py_lower s \<in> set bool_true_strs), overall_score = n, criteria_scores = c,
               explanation = x, cached = False, processing_time_ms = None, error = False\<rparr>"
    by (rule build_result_lax [OF assms(5-7) coerce_bool_word [OF assms(8)] assms(9)
        validate_score_numeric_str [OF assms(10,11)] assms(12)])
  with assms(1-4) show ?thesis by (simp add: llm_match_cv_job_def try_body_def call_openai_def)
qed

text \<open>C12: Only a lower-case \<open>json\<close> language tag is removed: for any
  fenced completion whose content does not start with \<open>json\<close> (a
  \<open>```JSON\<close> or \<open>```javascript\<close> fence, say), the cleaned text is the
  whole content, tag word included, handed as it is to \<open>json.loads\<close>.\<close>

theorem other_fence_tag_kept:
  assumes "\<not> startswith p ''json''"
  shows "clean_response (''```'' @ p @ ''```'') = py_strip p"
proof -
  have eq: "''```'' @ p @ ''```'' = CHR ''`'' # (''``'' @ p @ ''``'') @ [CHR ''`'']"
    by simp
  have strip: "py_strip (''```'' @ p @ ''```'') = ''```'' @ p @ ''```''"
    unfolding eq by (rule py_strip_nonspace_ends) (rule backtick_not_space)+
  have s1: "\<not> startswith (''```'' @ p @ ''```'') ''```json''"
    using assms startswith_append_backticks by (auto simp: startswith_Cons_Cons)
  have r2: "slice_from 3 (''```'' @ p @ ''```'') = p @ ''```''"
    by (simp add: slice_from_def)
  have r4: "slice_upto_neg 3 (p @ ''```'') = p"
    by (rule slice_upto_neg_append) simp
  show ?thesis
    unfolding clean_response_def Let_def strip
    by (simp only: s1 r2 r4 startswith_append endswith_append if_True if_False)
qed

text \<open>C13: The prompt is loaded and formatted before the \<open>try\<close> block: if
  \<open>str.format\<close> raises (for instance on a brace in the template that is
  not a placeholder), the exception escapes the adapter instead of becoming
  an error result.\<close>

theorem prompt_format_error_escapes:
  assumes "prompt_template env = Inr template" and "render env template cv job = Inl e"
  shows "llm_match_cv_job env cv job = Inl e"
  using assms by (simp add: llm_match_cv_job_def)

end
