(* ===== verification/CvParser.thy ===== *)
theory CvParser
  imports PyValues
begin

text \<open>
  Text extraction, \<open>src/app/services/cv_parser.py\<close>.  What the libraries
  do is a parameter of the model: \<open>pdf_pages\<close> opens a PDF with PyMuPDF and
  gives the text of each page (\<open>fitz.open\<close>, \<open>page.get_text()\<close>),
  \<open>docx_paragraphs\<close> opens a DOCX with python-docx and gives the text of each
  paragraph, \<open>utf8_decode\<close> is \<open>bytes.decode('utf-8')\<close>; each returns its
  value or raises.  What the module does itself is modelled as written: the
  page loop of \<open>extract_text_from_pdf\<close>, the newline join of
  \<open>extract_text_from_docx\<close>, and \<open>parse_file\<close>'s dispatch on the declared
  type: the MIME type is compared after \<open>lower()\<close>, the file-name suffix is
  tested on the type as given (case-sensitively), and anything else raises
  \<open>ValueError\<close>.
\<close>

record extractors =
  pdf_pages :: "bytes \<Rightarrow> exc + string list"
  docx_paragraphs :: "bytes \<Rightarrow> exc + string list"
  utf8_decode :: "bytes \<Rightarrow> exc + string"

text \<open>Lines 9--16: \<open>text = ""\<close>, then \<open>text += page.get_text()\<close> for each
  page in order.\<close>

fun pdf_text_loop :: "string \<Rightarrow> string list \<Rightarrow> string" where
  "pdf_text_loop text [] = text"
| "pdf_text_loop text (page # pages) = pdf_text_loop (text @ page) pages"

definition extract_text_from_pdf :: "extractors \<Rightarrow> bytes \<Rightarrow> exc + string" where
  "extract_text_from_pdf ex file_content = sbind (pdf_pages ex file_content) (\<lambda>pages. Inr (pdf_text_loop [] pages))"

text \<open>Lines 19--27: the paragraph texts joined with \<open>"\\n"\<close>.\<close>

definition extract_text_from_docx :: "extractors \<Rightarrow> bytes \<Rightarrow> exc + string" where
  "extract_text_from_docx ex file_content =
     sbind (docx_paragraphs ex file_content) (\<lambda>text. Inr (py_join [CHR 0x0A] text))"

definition extract_text_from_text :: "extractors \<Rightarrow> bytes \<Rightarrow> exc + string" where
  "extract_text_from_text ex file_content = utf8_decode ex file_content"

datatype file_kind = PdfFile | DocxFile | TextFile

definition docx_mime_types :: "string list" where
  "docx_mime_types =
     [''application/vnd.openxmlformats-officedocument.wordprocessingml.document'', ''application/msword'']"

definition text_mime_types :: "string list" where
  "text_mime_types = [''text/plain'', ''text/markdown'']"

definition file_kind_of :: "string \<Rightarrow> file_kind option" where
  "file_kind_of file_type =
     (let file_type_lower = py_lower file_type
      in if file_type_lower = ''application/pdf'' \<or> endswith file_type ''.pdf'' then Some PdfFile
         else if file_type_lower \<in> set docx_mime_types \<or> endswith_any file_type [''.docx'', ''.doc'']
           then Some DocxFile
         else if file_type_lower \<in> set text_mime_types \<or> endswith_any file_type [''.txt'', ''.md'']
           then Some TextFile
         else None)"

definition parse_file :: "extractors \<Rightarrow> bytes \<Rightarrow> string \<Rightarrow> exc + string" where
  "parse_file ex file_content file_type =
     (case file_kind_of file_type of
        Some PdfFile \<Rightarrow> extract_text_from_pdf ex file_content
      | Some DocxFile \<Rightarrow> extract_text_from_docx ex file_content
      | Some TextFile \<Rightarrow> extract_text_from_text ex file_content
      | None \<Rightarrow> Inl (ValueError (''Unsupported file type: '' @ file_type)))"

section \<open>Dispatch\<close>

text \<open>A name ending in an upper-case form of an accepted suffix has no file
  kind: the suffix test is case-sensitive, and the lowered name cannot be
  one of the accepted MIME types, none of which ends in such a suffix.\<close>

lemma file_kind_of_upper_suffix:
  assumes "s \<in> set [''.PDF'', ''.DOCX'', ''.DOC'', ''.TXT'', ''.MD'']"
  shows "file_kind_of (n @ s) = None"
  using assms
  by (auto simp: file_kind_of_def Let_def endswith_any_def docx_mime_types_def text_mime_types_def
      endswith_def py_lower_def py_lower_char_def char_of_eval dest!: py_lower_append_endswith endswith_append_cases)

lemma file_kind_of_lower_suffix:
  "file_kind_of (n @ ''.pdf'') = Some PdfFile \<and> file_kind_of (n @ ''.docx'') = Some DocxFile \<and>
   file_kind_of (n @ ''.doc'') = Some DocxFile \<and> file_kind_of (n @ ''.txt'') = Some TextFile \<and>
   file_kind_of (n @ ''.md'') = Some TextFile"
  by (auto simp: file_kind_of_def Let_def endswith_any_def docx_mime_types_def text_mime_types_def
      endswith_append endswith_def py_lower_def py_lower_char_def char_of_eval
      dest!: py_lower_append_endswith endswith_append_cases)

lemma parse_file_unsupported:
  "file_kind_of t = None \<Longrightarrow> parse_file ex b t = Inl (ValueError (''Unsupported file type: '' @ t))"
  by (simp add: parse_file_def)

lemma parse_file_error_class:
  assumes "parse_file ex b t = Inl e"
  shows "(file_kind_of t = None \<and> is_value_error e) \<or>
         (\<exists>k. file_kind_of t = Some k \<and>
              e \<in> {e'. pdf_pages ex b = Inl e' \<or> docx_paragraphs ex b = Inl e' \<or> utf8_decode ex b = Inl e'})"
  using assms
  by (auto simp: parse_file_def extract_text_from_pdf_def extract_text_from_docx_def
      extract_text_from_text_def sbind_eq_Inl split: option.splits file_kind.splits)

lemma pdf_text_loop_concat: "pdf_text_loop acc pages = acc @ concat pages"
  by (induction pages arbitrary: acc) simp_all

text \<open>C20: The file-name suffix is tested case-sensitively: for every file
  name \<open>n\<close>, a type \<open>n.PDF\<close>, \<open>n.DOCX\<close>, \<open>n.DOC\<close>, \<open>n.TXT\<close> or \<open>n.MD\<close>
  (what \<open>parse_file\<close> receives when the upload has no content type) is
  rejected with \<open>ValueError("Unsupported file type: ...")\<close>, although the
  lower-case forms are accepted.\<close>

theorem parse_file_type_matching:
  "list_all (\<lambda>s. parse_file ex b (n @ s) = Inl (ValueError (''Unsupported file type: '' @ n @ s)))
     [''.PDF'', ''.DOCX'', ''.DOC'', ''.TXT'', ''.MD''] \<and>
   parse_file ex b (n @ ''.pdf'') = extract_text_from_pdf ex b \<and>
   parse_file ex b (n @ ''.docx'') = extract_text_from_docx ex b \<and>
   parse_file ex b (n @ ''.doc'') = extract_text_from_docx ex b \<and>
   parse_file ex b (n @ ''.txt'') = extract_text_from_text ex b \<and>
   parse_file ex b (n @ ''.md'') = extract_text_from_text ex b"
  by (simp add: parse_file_unsupported file_kind_of_upper_suffix file_kind_of_lower_suffix parse_file_def)

text \<open>A DOCX with at least one paragraph, none containing a line break,
  extracts to a text whose lines are exactly its paragraphs: splitting the
  text at \<open>"\\n"\<close> gives the paragraphs back.\<close>

theorem docx_lines_are_paragraphs:
  assumes "docx_paragraphs ex b = Inr ps" and "ps \<noteq> []" and "\<forall>p \<in> set ps. CHR 0x0A \<notin> set p"
  shows "\<exists>t. extract_text_from_docx ex b = Inr t \<and> py_split_char (CHR 0x0A) t = ps"
  using assms by (simp add: extract_text_from_docx_def py_split_char_join)

end
