(* ===== verification/Database.thy ===== *)
theory Database
  imports Models
begin

text \<open>
  The result cache, class \<open>Database\<close> of \<open>src/app/data/database.py\<close>: one
  SQLite table \<open>match_cache\<close> keyed by \<open>hash\<close>.  The state is the table
  as a map from keys to rows, plus whether the database file can be opened
  (every method opens a fresh connection; when that fails, sqlite3 raises
  \<open>OperationalError\<close>).  The key is \<open>sha256(cv_content + job_content)\<close>;
  the digest is a parameter \<open>H\<close> of the operations, so the lemmas hold for
  every hash function, and those about distinct keys assume the two keys
  differ.  The \<open>result\<close> column holds \<open>json.dumps(model_dump())\<close> and
  \<open>get_match\<close> reads it back with \<open>json.loads\<close>; since \<open>json.loads\<close>
  inverts \<open>json.dumps\<close> on the dicts, ints, strings, booleans and \<open>None\<close>
  that \<open>model_dump\<close> produces, the column is modelled by the decoded value.

  Time is an int count of microseconds.  \<open>created_at\<close> is SQLite's
  \<open>CURRENT_TIMESTAMP\<close>: UTC, to the second.  \<open>cleanup_old_cache\<close> compares
  it with \<open>datetime.now() - timedelta(hours=ttl)\<close>, a naive \<^emph>\<open>local\<close> time
  with microseconds; both are ISO texts of the same shape, so SQLite's text
  comparison is the comparison of the instants they spell.  The local clock is
  the UTC clock plus the host's offset \<open>tz\<close>.
\<close>

type_synonym usec = int

record cache_row =
  cv_content :: string
  job_content :: string
  result :: pyval
  created_at :: usec

record 'k cache_db =
  rows :: "'k \<Rightarrow> cache_row option"
  available :: bool

definition usec_per_sec :: int where
  "usec_per_sec = 1000000"

definition usec_per_hour :: int where
  "usec_per_hour = 3600 * usec_per_sec"

definition db_unavailable :: exc where
  "db_unavailable = OperationalError ''unable to open database file''"

section \<open>Operations\<close>

text \<open>\<open>match_hash = self._generate_hash(cv_content + job_content)\<close>.\<close>

text \<open>\<open>Database.__init__\<close> and \<open>_init_database\<close> (lines 11--32): the path
  is \<open>db_path or settings.database_path\<close> (an absent or empty argument
  falls back to the setting, passed as \<open>settings_path\<close>), \<open>stores\<close> gives
  the store at each path; connecting raises \<open>OperationalError\<close> when the
  file cannot be opened; \<open>CREATE TABLE IF NOT EXISTS\<close> leaves an existing
  table and its rows as they are (a missing table and an empty one are the
  same store here).\<close>

definition init_database :: "string \<Rightarrow> string option \<Rightarrow> (string \<Rightarrow> 'k cache_db) \<Rightarrow> exc + 'k cache_db" where
  "init_database settings_path db_path stores =
     (let p = (case db_path of Some q \<Rightarrow> if q = [] then settings_path else q | None \<Rightarrow> settings_path)
      in if \<not> available (stores p) then Inl db_unavailable else Inr (stores p))"

definition match_key :: "(string \<Rightarrow> 'k) \<Rightarrow> string \<Rightarrow> string \<Rightarrow> 'k" where
  "match_key H cv job = H (cv @ job)"

definition get_match ::
  "(string \<Rightarrow> 'k) \<Rightarrow> 'k cache_db \<Rightarrow> string \<Rightarrow> string \<Rightarrow> exc + match_result option" where
  "get_match H db cv job =
     (if \<not> available db then Inl db_unavailable
      else case rows db (match_key H cv job) of
             None \<Rightarrow> Inr None
           | Some row \<Rightarrow> sbind (MatchResult_star (result row)) (\<lambda>r. Inr (Some r)))"

text \<open>\<open>CURRENT_TIMESTAMP\<close> of an insert at UTC time \<open>now\<close>.\<close>

definition sqlite_timestamp :: "usec \<Rightarrow> usec" where
  "sqlite_timestamp now = now div usec_per_sec * usec_per_sec"

text \<open>\<open>INSERT OR REPLACE\<close> deletes the row with the same key and inserts a new
  one, whose \<open>created_at\<close> takes its default again.\<close>

definition cache_match ::
  "(string \<Rightarrow> 'k) \<Rightarrow> usec \<Rightarrow> 'k cache_db \<Rightarrow> string \<Rightarrow> string \<Rightarrow> match_result \<Rightarrow> exc + 'k cache_db" where
  "cache_match H now db cv job r =
     (if \<not> available db then Inl db_unavailable
      else Inr (db\<lparr>rows := (rows db)(match_key H cv job \<mapsto>
                   \<lparr>cv_content = cv, job_content = job,
                    result = model_dump r, created_at = sqlite_timestamp now\<rparr>)\<rparr>))"

definition expired :: "usec \<Rightarrow> cache_row \<Rightarrow> bool" where
  "expired cutoff row \<longleftrightarrow> created_at row < cutoff"

definition cleanup_old_cache :: "int \<Rightarrow> usec \<Rightarrow> usec \<Rightarrow> 'k cache_db \<Rightarrow> exc + 'k cache_db" where
  "cleanup_old_cache ttl_hours utc_now tz db =
     (let cutoff = (utc_now + tz) - ttl_hours * usec_per_hour
      in if \<not> available db then Inl db_unavailable
         else Inr (db\<lparr>rows := (\<lambda>k. case rows db k of
                                      None \<Rightarrow> None
                                    | Some row \<Rightarrow> if expired cutoff row then None else Some row)\<rparr>))"

section \<open>The store invariant\<close>

text \<open>Every row sits under the key of its own texts, and its result column
  decodes to a result that is neither an error result nor marked cached.\<close>

definition cache_inv :: "(string \<Rightarrow> 'k) \<Rightarrow> 'k cache_db \<Rightarrow> bool" where
  "cache_inv H db \<longleftrightarrow>
     (\<forall>k row. rows db k = Some row \<longrightarrow>
        k = match_key H (cv_content row) (job_content row) \<and>
        (\<exists>r. MatchResult_star (result row) = Inr r \<and> \<not> error r \<and> \<not> cached r))"

section \<open>Lookup after update\<close>

lemma cache_match_Inr:
  "cache_match H now db cv job r = Inr db' \<longleftrightarrow>
     available db \<and>
     db' = db\<lparr>rows := (rows db)(match_key H cv job \<mapsto>
             \<lparr>cv_content = cv, job_content = job, result = model_dump r,
              created_at = sqlite_timestamp now\<rparr>)\<rparr>"
  by (auto simp: cache_match_def)

lemma cache_match_available: "cache_match H now db cv job r = Inr db' \<Longrightarrow> available db'"
  by (auto simp: cache_match_Inr)

lemma get_match_same_key:
  "match_key H cv' job' = match_key H cv job \<Longrightarrow> get_match H db cv' job' = get_match H db cv job"
  by (simp add: get_match_def)

lemma get_match_cache_match_same:
  assumes "cache_match H now db cv job r = Inr db'" and "wf_result r"
  shows "get_match H db' cv job = Inr (Some r)"
  using assms by (auto simp: cache_match_Inr get_match_def MatchResult_star_model_dump)

lemma get_match_cache_match_other:
  assumes "cache_match H now db cv job r = Inr db'" and "match_key H cv' job' \<noteq> match_key H cv job"
  shows "get_match H db' cv' job' = get_match H db cv' job'"
  using assms by (auto simp: cache_match_Inr get_match_def)

section \<open>Sweep\<close>

lemma cleanup_old_cache_Inr:
  "cleanup_old_cache ttl u tz db = Inr db' \<longleftrightarrow>
     available db \<and>
     db' = db\<lparr>rows := (\<lambda>k. case rows db k of
                               None \<Rightarrow> None
                             | Some row \<Rightarrow> if created_at row < u + tz - ttl * usec_per_hour
                                           then None else Some row)\<rparr>"
  unfolding cleanup_old_cache_def expired_def Let_def by auto

lemma cleanup_rows_subset:
  "cleanup_old_cache ttl u tz db = Inr db' \<Longrightarrow> rows db' k = Some row \<Longrightarrow> rows db k = Some row"
  by (auto simp: cleanup_old_cache_Inr split: option.splits if_splits)

lemma sqlite_timestamp_bounds: "sqlite_timestamp t \<le> t \<and> t < sqlite_timestamp t + usec_per_sec"
proof -
  have "t div usec_per_sec * usec_per_sec + t mod usec_per_sec = t" by simp
  moreover have "0 \<le> t mod usec_per_sec" "t mod usec_per_sec < usec_per_sec"
    by (simp_all add: usec_per_sec_def)
  ultimately show ?thesis unfolding sqlite_timestamp_def by linarith
qed

lemma cache_inv_empty [model_simps]: "cache_inv H \<lparr>rows = Map.empty, available = a\<rparr>"
  by (simp add: cache_inv_def)

lemma cache_inv_available [model_simps]: "cache_inv H (db\<lparr>available := a\<rparr>) = cache_inv H db"
  by (simp add: cache_inv_def)

lemma cache_match_inv:
  assumes "cache_inv H db" and "cache_match H now db cv job r = Inr db'"
    and "wf_result r" and "\<not> error r" and "\<not> cached r"
  shows "cache_inv H db'"
  using assms by (auto simp: cache_inv_def cache_match_Inr MatchResult_star_model_dump)

lemma cleanup_old_cache_inv:
  assumes "cache_inv H db" and "cleanup_old_cache ttl u tz db = Inr db'"
  shows "cache_inv H db'"
  using assms unfolding cache_inv_def by (blast dest: cleanup_rows_subset)

lemma get_match_wf: "get_match H db cv job = Inr (Some r) \<Longrightarrow> wf_result r"
  by (auto simp: get_match_def sbind_eq_Inr split: if_splits option.splits dest: MatchResult_star_wf)

lemma cache_inv_get_match:
  assumes "cache_inv H db" and "get_match H db cv job = Inr (Some r)"
  shows "\<not> error r \<and> \<not> cached r"
proof -
  from assms(2) obtain row where row: "rows db (match_key H cv job) = Some row"
      and dec: "MatchResult_star (result row) = Inr r"
    by (auto simp: get_match_def sbind_eq_Inr split: if_splits option.splits)
  from assms(1) row obtain r' where "MatchResult_star (result row) = Inr r'" "\<not> error r'" "\<not> cached r'"
    unfolding cache_inv_def by blast
  with dec show ?thesis by simp
qed

section \<open>Properties of the store\<close>

text \<open>C14: Caching a well-formed result and reading the same pair back gives
  exactly that result (its \<open>cached\<close> flag and processing time as stored);
  the entries under every other key read as before.\<close>

theorem cache_round_trip:
  assumes "cache_match H now db cv job r = Inr db'" and "wf_result r"
  shows "get_match H db' cv job = Inr (Some r) \<and>
         (\<forall>cv' job'. match_key H cv' job' \<noteq> match_key H cv job \<longrightarrow>
            get_match H db' cv' job' = get_match H db cv' job')"
  using get_match_cache_match_same [OF assms] get_match_cache_match_other [OF assms(1)] by blast

text \<open>C15: Writing under a key replaces what was there: a second write under
  the same key leaves the store as if the first had never happened.\<close>

theorem cache_match_replaces:
  assumes "cache_match H t1 db cv job r1 = Inr d1" and "cache_match H t2 d1 cv' job' r2 = Inr d2"
    and "match_key H cv' job' = match_key H cv job"
  shows "cache_match H t2 db cv' job' r2 = Inr d2"
  using assms by (auto simp: cache_match_Inr)


text \<open>C17: The sweep compares the UTC \<open>created_at\<close> with a cutoff taken
  from the local clock, so its effective age limit is the TTL shifted by
  the host's offset \<open>tz\<close> from UTC: an entry written before
  \<open>u + tz - ttl\<close> is deleted and one written at least a second after it
  is kept.  On a host ahead of UTC (\<open>tz > 0\<close>) entries younger than the
  TTL are deleted; on a host behind it, entries older than the TTL survive.\<close>

theorem sweep_uses_local_clock:
  assumes "cache_match H t db cv job r = Inr db1" and "cleanup_old_cache ttl u tz db1 = Inr db2"
  shows "(t < u + tz - ttl * usec_per_hour \<longrightarrow> rows db2 (match_key H cv job) = None) \<and>
         (u + tz - ttl * usec_per_hour + usec_per_sec \<le> t \<longrightarrow> rows db2 (match_key H cv job) \<noteq> None)"
  using assms sqlite_timestamp_bounds [of t]
  by (auto simp: cache_match_Inr cleanup_old_cache_Inr)

text \<open>C18: The key hashes the plain concatenation of the two texts, so two
  different pairs with the same concatenation share an entry: after caching a
  result for one pair, a request for the other pair reads it back, whatever
  the digest.\<close>

theorem concatenation_collision:
  assumes "cv @ job = cv' @ job'" and "cache_match H now db cv job r = Inr db'" and "wf_result r"
  shows "get_match H db' cv' job' = Inr (Some r)"
proof -
  have "match_key H cv' job' = match_key H cv job" using assms(1) by (simp add: match_key_def)
  then have "get_match H db' cv' job' = get_match H db' cv job" by (rule get_match_same_key)
  also have "\<dots> = Inr (Some r)" using assms(2,3) by (rule get_match_cache_match_same)
  finally show ?thesis .
qed

text \<open>Swapping the two texts gives the same key exactly when the two
  concatenations agree, even for a collision-free digest: \<open>("x", "xx")\<close>
  and \<open>("xx", "x")\<close> share an entry, so the key does not separate a pair
  from its swap.\<close>

theorem swapped_pair_key:
  assumes "inj H"
  shows "match_key H a b = match_key H b a \<longleftrightarrow> a @ b = b @ a"
  using assms by (auto simp: match_key_def dest: injD)

end
