(* ===== verification/MatchingService.thy ===== *)
theory MatchingService
  imports LlmService CvParser Database
begin

text \<open>
  The match orchestrator, \<open>MatchingService.match_cv_job\<close> of
  \<open>src/app/services/matching_service.py\<close>.  It parses both files, computes
  the cache key, returns a cache hit marked \<open>cached\<close>, and otherwise calls
  the LLM adapter, stamps the processing time and caches the result unless it
  is an error result.  Its environment \<open>service_env\<close> holds what the code
  reads from outside: the extractors, the digest, the adapter's environment,
  the two \<open>time.time()\<close> readings (at the start and where the elapsed time
  is taken) and the UTC time of the cache insert.  A run returns the outcome
  (a result or the exception that escapes), the new cache and the trace of
  the effects it performed, in order: \<open>EvCacheGet\<close> (a \<open>get_match\<close>),
  \<open>EvLlmCall\<close> (a call of the adapter) and \<open>EvCachePut\<close> (a
  \<open>cache_match\<close>).
\<close>

record 'k service_env =
  parsers :: extractors
  hash :: "string \<Rightarrow> 'k"
  llm :: llm_env
  t_start :: seconds
  t_end :: seconds
  now_utc :: usec

datatype 'k event = EvCacheGet 'k | EvLlmCall string string | EvCachePut 'k

type_synonym 'k outcome = "(exc + match_result) \<times> 'k cache_db \<times> 'k event list"

text \<open>\<open>int((time.time() - start_time) * 1000)\<close>.\<close>

definition elapsed_ms :: "'k service_env \<Rightarrow> int" where
  "elapsed_ms env = py_int_of ((t_end env - t_start env) * 1000)"

text \<open>Lines 29--52, once both texts are extracted.\<close>

definition match_texts :: "'k service_env \<Rightarrow> 'k cache_db \<Rightarrow> string \<Rightarrow> string \<Rightarrow> 'k outcome" where
  "match_texts env db cv_text job_text =
     (let k = match_key (hash env) cv_text job_text
      in case get_match (hash env) db cv_text job_text of
           Inl e \<Rightarrow> (Inl e, db, [EvCacheGet k])
         | Inr (Some cached_match) \<Rightarrow>
             (Inr (cached_match\<lparr>cached := True, processing_time_ms := Some (elapsed_ms env)\<rparr>),
              db, [EvCacheGet k])
         | Inr None \<Rightarrow>
             (case llm_match_cv_job (llm env) cv_text job_text of
                Inl e \<Rightarrow> (Inl e, db, [EvCacheGet k, EvLlmCall cv_text job_text])
              | Inr match_result \<Rightarrow>
                  let mr = match_result\<lparr>processing_time_ms := Some (elapsed_ms env)\<rparr>
                  in if \<not> error mr then
                       (case cache_match (hash env) (now_utc env) db cv_text job_text mr of
                          Inl e \<Rightarrow> (Inl e, db, [EvCacheGet k, EvLlmCall cv_text job_text, EvCachePut k])
                        | Inr db' \<Rightarrow> (Inr mr, db', [EvCacheGet k, EvLlmCall cv_text job_text, EvCachePut k]))
                     else (Inr mr, db, [EvCacheGet k, EvLlmCall cv_text job_text])))"

definition match_cv_job ::
  "'k service_env \<Rightarrow> 'k cache_db \<Rightarrow> bytes \<Rightarrow> string \<Rightarrow> bytes \<Rightarrow> string \<Rightarrow> 'k outcome" where
  "match_cv_job env db cv_file_content cv_file_type job_file_content job_file_type =
     (case parse_file (parsers env) cv_file_content cv_file_type of
        Inl e \<Rightarrow> (Inl e, db, [])
      | Inr cv_text \<Rightarrow>
          (case parse_file (parsers env) job_file_content job_file_type of
             Inl e \<Rightarrow> (Inl e, db, [])
           | Inr job_text \<Rightarrow> match_texts env db cv_text job_text))"

section \<open>Branches of \<open>match_texts\<close>\<close>

lemma match_texts_hit:
  assumes "get_match (hash env) db cv job = Inr (Some c)"
  shows "match_texts env db cv job =
           (Inr (c\<lparr>cached := True, processing_time_ms := Some (elapsed_ms env)\<rparr>), db,
            [EvCacheGet (match_key (hash env) cv job)])"
  using assms by (simp add: match_texts_def)

lemma match_texts_cache_error:
  assumes "get_match (hash env) db cv job = Inl e"
  shows "match_texts env db cv job = (Inl e, db, [EvCacheGet (match_key (hash env) cv job)])"
  using assms by (simp add: match_texts_def)

lemma match_texts_miss_exc:
  assumes "get_match (hash env) db cv job = Inr None" and "llm_match_cv_job (llm env) cv job = Inl e"
  shows "match_texts env db cv job =
           (Inl e, db, [EvCacheGet (match_key (hash env) cv job), EvLlmCall cv job])"
  using assms by (simp add: match_texts_def)

lemma match_texts_miss_error:
  assumes "get_match (hash env) db cv job = Inr None" and "llm_match_cv_job (llm env) cv job = Inr m"
    and "error m"
  shows "match_texts env db cv job =
           (Inr (m\<lparr>processing_time_ms := Some (elapsed_ms env)\<rparr>), db,
            [EvCacheGet (match_key (hash env) cv job), EvLlmCall cv job])"
  using assms by (simp add: match_texts_def)

lemma match_texts_miss_store:
  assumes "get_match (hash env) db cv job = Inr None" and "llm_match_cv_job (llm env) cv job = Inr m"
    and "\<not> error m"
    and "cache_match (hash env) (now_utc env) db cv job (m\<lparr>processing_time_ms := Some (elapsed_ms env)\<rparr>) = s"
  shows "match_texts env db cv job =
           (case s of
              Inl e \<Rightarrow> Inl e
            | Inr _ \<Rightarrow> Inr (m\<lparr>processing_time_ms := Some (elapsed_ms env)\<rparr>),
            case s of Inl _ \<Rightarrow> db | Inr db' \<Rightarrow> db',
            [EvCacheGet (match_key (hash env) cv job), EvLlmCall cv job,
             EvCachePut (match_key (hash env) cv job)])"
  using assms by (simp add: match_texts_def Let_def split: sum.split)

text \<open>Every run of \<open>match_texts\<close> falls in one of the three branches of the
  cache lookup.\<close>

lemma get_match_cases:
  obtains (hit) c where "get_match H db cv job = Inr (Some c)"
  | (fault) e where "get_match H db cv job = Inl e"
  | (miss) "get_match H db cv job = Inr None"
  by (cases "get_match H db cv job") auto

text \<open>The six ways a run of \<open>match_texts\<close> can go, each with the outcome
  it produces.\<close>

lemma match_texts_cases:
  obtains
    (hit) c where "get_match (hash env) db cv job = Inr (Some c)"
      "match_texts env db cv job =
         (Inr (c\<lparr>cached := True, processing_time_ms := Some (elapsed_ms env)\<rparr>), db,
          [EvCacheGet (match_key (hash env) cv job)])"
  | (fault) e where "get_match (hash env) db cv job = Inl e"
      "match_texts env db cv job = (Inl e, db, [EvCacheGet (match_key (hash env) cv job)])"
  | (llm_exc) e where "get_match (hash env) db cv job = Inr None"
      "llm_match_cv_job (llm env) cv job = Inl e"
      "match_texts env db cv job =
         (Inl e, db, [EvCacheGet (match_key (hash env) cv job), EvLlmCall cv job])"
  | (llm_error) m where "get_match (hash env) db cv job = Inr None"
      "llm_match_cv_job (llm env) cv job = Inr m" "error m"
      "match_texts env db cv job =
         (Inr (m\<lparr>processing_time_ms := Some (elapsed_ms env)\<rparr>), db,
          [EvCacheGet (match_key (hash env) cv job), EvLlmCall cv job])"
  | (put_fail) m e where "get_match (hash env) db cv job = Inr None"
      "llm_match_cv_job (llm env) cv job = Inr m" "\<not> error m"
      "cache_match (hash env) (now_utc env) db cv job
         (m\<lparr>processing_time_ms := Some (elapsed_ms env)\<rparr>) = Inl e"
      "match_texts env db cv job =
         (Inl e, db, [EvCacheGet (match_key (hash env) cv job), EvLlmCall cv job,
                      EvCachePut (match_key (hash env) cv job)])"
  | (stored) m db' where "get_match (hash env) db cv job = Inr None"
      "llm_match_cv_job (llm env) cv job = Inr m" "\<not> error m"
      "cache_match (hash env) (now_utc env) db cv job
         (m\<lparr>processing_time_ms := Some (elapsed_ms env)\<rparr>) = Inr db'"
      "match_texts env db cv job =
         (Inr (m\<lparr>processing_time_ms := Some (elapsed_ms env)\<rparr>), db',
          [EvCacheGet (match_key (hash env) cv job), EvLlmCall cv job,
           EvCachePut (match_key (hash env) cv job)])"
proof (cases rule: get_match_cases [of "hash env" db cv job])
  case (hit c)
  then show ?thesis using that(1) match_texts_hit by blast
next
  case (fault e)
  then show ?thesis using that(2) match_texts_cache_error by blast
next
  case miss
  show ?thesis
  proof (cases "llm_match_cv_job (llm env) cv job")
    case (Inl e)
    then show ?thesis using that(3) miss match_texts_miss_exc by blast
  next
    case (Inr m)
    show ?thesis
    proof (cases "error m")
      case True
      then show ?thesis using that(4) miss Inr match_texts_miss_error by blast
    next
      case False
      let ?s = "cache_match (hash env) (now_utc env) db cv job
                  (m\<lparr>processing_time_ms := Some (elapsed_ms env)\<rparr>)"
      have run: "match_texts env db cv job =
           (case ?s of Inl e \<Rightarrow> Inl e | Inr _ \<Rightarrow> Inr (m\<lparr>processing_time_ms := Some (elapsed_ms env)\<rparr>),
            case ?s of Inl _ \<Rightarrow> db | Inr db' \<Rightarrow> db',
            [EvCacheGet (match_key (hash env) cv job), EvLlmCall cv job,
             EvCachePut (match_key (hash env) cv job)])"
        using miss Inr False by (rule match_texts_miss_store) (rule refl)
      show ?thesis
      proof (cases ?s)
        case (Inl e)
        then show ?thesis using that(5) miss Inr False run by simp
      next
        case (Inr db')
        then show ?thesis using that(6) miss \<open>llm_match_cv_job (llm env) cv job = Inr m\<close> False run
          by simp
      qed
    qed
  qed
qed

lemma match_cv_job_cases:
  obtains (parse_fail) e where "match_cv_job env db cb ct jb jt = (Inl e, db, [])"
  | (parsed) cv job where "parse_file (parsers env) cb ct = Inr cv"
      "parse_file (parsers env) jb jt = Inr job"
      "match_cv_job env db cb ct jb jt = match_texts env db cv job"
  by (cases "parse_file (parsers env) cb ct"; cases "parse_file (parsers env) jb jt")
     (auto simp: match_cv_job_def)

section \<open>Helper facts on runs\<close>

lemma wf_result_ptime [simp, model_simps]: "wf_result (r\<lparr>processing_time_ms := t\<rparr>) = wf_result r"
  by (simp add: wf_result_def)

lemma wf_result_cached [simp, model_simps]: "wf_result (r\<lparr>cached := c\<rparr>) = wf_result r"
  by (simp add: wf_result_def)

lemma get_match_inv_not_Inl:
  assumes "available db" and "cache_inv H db"
  shows "get_match H db cv job \<noteq> Inl e"
proof
  assume fault: "get_match H db cv job = Inl e"
  with assms(1) obtain row where row: "rows db (match_key H cv job) = Some row"
      and bad: "MatchResult_star (result row) = Inl e"
    by (auto simp: get_match_def sbind_eq_Inl split: option.splits)
  from assms(2) row obtain r where "MatchResult_star (result row) = Inr r"
    unfolding cache_inv_def by blast
  with bad show False by simp
qed

lemma match_texts_inv:
  assumes "cache_inv (hash env) db" and "match_texts env db cv job = (res, db', evs)"
  shows "cache_inv (hash env) db'"
  using assms(2)
proof (cases rule: match_texts_cases [of env db cv job])
  case (stored m db'')
  from stored(2) have "wf_result m" "\<not> cached m"
    using llm_match_cv_job_Inr by blast+
  with assms(1) stored(3,4) have "cache_inv (hash env) db''"
    by (intro cache_match_inv [OF assms(1) stored(4)]) simp_all
  with stored(5) assms(2) show ?thesis by simp
qed (use assms in simp_all)

lemma match_cv_job_inv:
  assumes "cache_inv (hash env) db" and "match_cv_job env db cb ct jb jt = (res, db', evs)"
  shows "cache_inv (hash env) db'"
  using assms(2)
  by (cases rule: match_cv_job_cases [of env db cb ct jb jt])
     (use assms in \<open>auto intro: match_texts_inv\<close>)

text \<open>Every result a request returns satisfies the field constraints of
  \<open>MatchResult\<close>, hit or miss, whatever the state of the store.\<close>

lemma match_texts_Inr_wf:
  assumes "match_texts env db cv job = (Inr r, db', evs)"
  shows "wf_result r"
  using assms
proof (cases rule: match_texts_cases [of env db cv job])
  case (hit c)
  then show ?thesis using assms get_match_wf [OF hit(1)] by (auto simp: wf_result_def)
next
  case (llm_error m)
  then show ?thesis using assms llm_match_cv_job_Inr [OF llm_error(2)] by (auto simp: wf_result_def)
next
  case (stored m db'')
  then show ?thesis using assms llm_match_cv_job_Inr [OF stored(2)] by (auto simp: wf_result_def)
qed simp_all

lemma match_cv_job_Inr_wf:
  "match_cv_job env db cb ct jb jt = (Inr r, db', evs) \<Longrightarrow> wf_result r"
  by (cases rule: match_cv_job_cases [of env db cb ct jb jt]) (auto intro: match_texts_Inr_wf)

section \<open>Properties of the orchestrator\<close>

lemma match_texts_error_unchanged:
  assumes "match_texts env db cv job = (Inr r, db', evs)" and "error r"
  shows "db' = db \<and> (\<forall>k. EvCachePut k \<notin> set evs)"
  using assms(1)
  by (cases rule: match_texts_cases [of env db cv job]) (use assms in auto)

text \<open>C1: A request whose result is an error result leaves the cache exactly
  as it was and performs no cache write: error results are never persisted.\<close>

theorem match_cv_job_error_never_cached:
  assumes "match_cv_job env db cb ct jb jt = (Inr r, db', evs)" and "error r"
  shows "db' = db \<and> (\<forall>k. EvCachePut k \<notin> set evs)"
proof (cases rule: match_cv_job_cases [of env db cb ct jb jt])
  case (parse_fail e)
  with assms(1) show ?thesis by simp
next
  case (parsed cv job)
  with assms(1) have "match_texts env db cv job = (Inr r, db', evs)" by simp
  then show ?thesis using assms(2) by (rule match_texts_error_unchanged)
qed

text \<open>C2: When both files parse and the cache holds an entry for the pair,
  the request returns that entry marked \<open>cached\<close> with the elapsed time,
  leaves the cache unchanged and performs only the cache read: the backend
  is not called.\<close>

theorem match_cv_job_hit_skips_backend:
  assumes "parse_file (parsers env) cb ct = Inr cv" and "parse_file (parsers env) jb jt = Inr job"
    and "get_match (hash env) db cv job = Inr (Some c)"
  shows "match_cv_job env db cb ct jb jt =
           (Inr (c\<lparr>cached := True, processing_time_ms := Some (elapsed_ms env)\<rparr>), db,
            [EvCacheGet (match_key (hash env) cv job)])"
  using assms by (simp add: match_cv_job_def match_texts_hit)

text \<open>C3: After a request on two texts returns a non-error result, a second
  request on the same texts (with the same digest) is a cache hit: it returns
  the same assessment marked \<open>cached\<close>, changes nothing and makes no
  backend call.\<close>

theorem second_request_hits:
  assumes first: "match_texts env db cv job = (Inr r, db1, evs1)" and "\<not> error r"
    and "hash env2 = hash env"
  shows "\<exists>c. match_texts env2 db1 cv job =
               (Inr (c\<lparr>cached := True, processing_time_ms := Some (elapsed_ms env2)\<rparr>), db1,
                [EvCacheGet (match_key (hash env) cv job)]) \<and>
             match c = match r \<and> overall_score c = overall_score r \<and>
             criteria_scores c = criteria_scores r \<and> explanation c = explanation r \<and> \<not> error c"
  using first
proof (cases rule: match_texts_cases [of env db cv job])
  case (hit c)
  with first have "db1 = db" "r = c\<lparr>cached := True, processing_time_ms := Some (elapsed_ms env)\<rparr>"
    by simp_all
  with hit(1) assms(2,3) show ?thesis by (intro exI [of _ c]) (simp add: match_texts_hit)
next
  case (stored m db')
  let ?mr = "m\<lparr>processing_time_ms := Some (elapsed_ms env)\<rparr>"
  from stored(5) first have db1: "db1 = db'" and r: "r = ?mr" by simp_all
  from stored(2) have "wf_result ?mr" using llm_match_cv_job_Inr by simp
  with stored(4) have "get_match (hash env) db' cv job = Inr (Some ?mr)"
    by (rule get_match_cache_match_same)
  with db1 r assms(2,3) show ?thesis by (intro exI [of _ ?mr]) (simp add: match_texts_hit)
qed (use assms in auto)

text \<open>C4: If the database file cannot be opened, the cache read raises
  \<open>OperationalError\<close> and the request fails with it: a storage fault is
  not treated as a cache miss.\<close>

theorem storage_fault_not_fail_open:
  assumes "\<not> available db"
  shows "match_texts env db cv job =
           (Inl db_unavailable, db, [EvCacheGet (match_key (hash env) cv job)])"
  using assms by (simp add: match_texts_cache_error get_match_def)

text \<open>C5: Every request performs its effects in the order cache read, backend
  call, cache write, each at most once, and for one key: its trace is a prefix
  of that sequence.\<close>

theorem match_cv_job_trace_order:
  assumes "match_cv_job env db cb ct jb jt = (res, db', evs)"
  shows "\<exists>cv job. evs = take (length evs)
           [EvCacheGet (match_key (hash env) cv job), EvLlmCall cv job,
            EvCachePut (match_key (hash env) cv job)]"
proof (cases rule: match_cv_job_cases [of env db cb ct jb jt])
  case (parse_fail e)
  with assms show ?thesis by auto
next
  case (parsed cv job)
  from assms parsed(3) have run: "match_texts env db cv job = (res, db', evs)" by simp
  have "evs = take (length evs)
           [EvCacheGet (match_key (hash env) cv job), EvLlmCall cv job,
            EvCachePut (match_key (hash env) cv job)]"
    using run by (cases rule: match_texts_cases [of env db cv job]) (use run in auto)
  then show ?thesis by blast
qed

text \<open>C6: With the database file available and every stored row satisfying
  the store invariant (rows under their own key, each decoding to a valid
  result), and the prompt loaded and formatted, a request on extracted texts
  always returns a result, never an exception: every backend fault,
  malformed completion and validation failure is absorbed into the result,
  and that result satisfies the field constraints of \<open>MatchResult\<close>.  (The
  invariant is needed: a row that does not decode makes the lookup raise.)\<close>

theorem match_texts_returns_result:
  assumes "available db" and "cache_inv (hash env) db"
    and "prompt_template (llm env) = Inr template" and "render (llm env) template cv job = Inr prompt"
  shows "\<exists>r db' evs. match_texts env db cv job = (Inr r, db', evs) \<and> wf_result r"
proof -
  have "\<exists>r db' evs. match_texts env db cv job = (Inr r, db', evs)"
  proof (cases rule: match_texts_cases [of env db cv job])
    case (fault e)
    with get_match_inv_not_Inl [OF assms(1,2)] show ?thesis by blast
  next
    case (llm_exc e)
    with assms(3,4) show ?thesis by (simp add: llm_match_cv_job_def)
  next
    case (put_fail m e)
    with assms(1) show ?thesis by (simp add: cache_match_def)
  qed auto
  then show ?thesis using match_texts_Inr_wf by blast
qed

text \<open>C34: When the clock does not go backwards, the reported processing
  time is the elapsed wall-clock time in whole milliseconds, rounded down.\<close>

theorem elapsed_ms_bounds:
  assumes "t_start env \<le> t_end env"
  shows "0 \<le> elapsed_ms env \<and> of_int (elapsed_ms env) \<le> (t_end env - t_start env) * 1000 \<and>
         (t_end env - t_start env) * 1000 < of_int (elapsed_ms env) + 1"
proof -
  define x where "x = (t_end env - t_start env) * 1000"
  have x0: "0 \<le> x" using assms by (simp add: x_def)
  have e: "elapsed_ms env = \<lfloor>x\<rfloor>" using x0 by (simp add: elapsed_ms_def py_int_of_def x_def)
  have "0 \<le> \<lfloor>x\<rfloor>" using x0 by simp
  moreover have "of_int \<lfloor>x\<rfloor> \<le> x \<and> x < of_int (\<lfloor>x\<rfloor> + 1)" by (rule floor_correct)
  ultimately show ?thesis unfolding e x_def [symmetric] by simp
qed

text \<open>A wall clock stepping back at least a millisecond gives a negative
  \<open>int()\<close> of the elapsed milliseconds (it truncates towards zero).\<close>

lemma elapsed_ms_neg:
  assumes "t_end env \<le> t_start env - 1 / 1000"
  shows "elapsed_ms env < 0"
proof -
  define x where "x = (t_end env - t_start env) * 1000"
  have "x \<le> -1" using assms by (simp add: x_def algebra_simps)
  then have "1 \<le> \<lfloor>- x\<rfloor>" by (simp add: le_floor_iff)
  moreover have "\<not> 0 \<le> x" using \<open>x \<le> -1\<close> by simp
  then have "elapsed_ms env = - \<lfloor>- x\<rfloor>" by (simp add: elapsed_ms_def py_int_of_def x_def)
  ultimately show ?thesis by simp
qed

text \<open>C35: \<open>time.time()\<close> is a wall clock: whenever it steps back at least
  a millisecond during a request that misses the cache and gets a
  non-error result, the request reports a negative
  \<open>processing_time_ms\<close>, which validation accepts (the field has no lower
  bound), and that value is what the cache stores and reads back.\<close>

theorem clock_step_back_negative_time:
  assumes "t_end env \<le> t_start env - 1 / 1000" and "available db"
    and "get_match (hash env) db cv job = Inr None"
    and "llm_match_cv_job (llm env) cv job = Inr m" and "\<not> error m"
  shows "\<exists>db'. match_texts env db cv job =
            (Inr (m\<lparr>processing_time_ms := Some (elapsed_ms env)\<rparr>), db',
             [EvCacheGet (match_key (hash env) cv job), EvLlmCall cv job, EvCachePut (match_key (hash env) cv job)]) \<and>
          elapsed_ms env < 0 \<and>
          get_match (hash env) db' cv job = Inr (Some (m\<lparr>processing_time_ms := Some (elapsed_ms env)\<rparr>))"
proof -
  let ?r = "m\<lparr>processing_time_ms := Some (elapsed_ms env)\<rparr>"
  obtain db' where c: "cache_match (hash env) (now_utc env) db cv job ?r = Inr db'"
    using assms(2) by (simp add: cache_match_def)
  have wf: "wf_result ?r" using llm_match_cv_job_Inr [OF assms(4)] by simp
  have run: "match_texts env db cv job =
     (Inr ?r, db', [EvCacheGet (match_key (hash env) cv job), EvLlmCall cv job, EvCachePut (match_key (hash env) cv job)])"
    using assms(3-5) c by (cases rule: match_texts_cases [of env db cv job]) auto
  show ?thesis using run elapsed_ms_neg [OF assms(1)] get_match_cache_match_same [OF c wf] by blast
qed

end
