(* ===== verification/Config.thy ===== *)
theory Config
  imports Models
begin

text \<open>
  The settings of \<open>src/app/core/config.py\<close>.  \<open>Settings()\<close> (line 17)
  reads each field from the process environment, then from the \<open>.env\<close>
  file, and takes the field's default when neither has it; with
  \<open>case_sensitive = False\<close> the variable names are compared in lower case,
  and where two names differ only in case the later one wins, as in the dict
  pydantic-settings builds.  A value is a string and is validated like a
  model field in lax mode: the int fields accept a numeric string (\<open>coerce_int\<close>),
  and a value that does not parse makes \<open>Settings()\<close> raise a
  \<open>ValidationError\<close> that lists every bad field, so the application fails
  at import.  The environment and the \<open>.env\<close> file are lists of name--value
  pairs in their order.
\<close>

record settings =
  openai_api_key :: string
  openai_model :: string
  database_path :: string
  cache_ttl_hours :: int
  match_threshold :: int
  log_level :: string

definition default_settings :: settings where
  "default_settings =
     \<lparr>openai_api_key = [], openai_model = ''gpt-3.5-turbo'', database_path = ''/app/data/cv_filtering.db'',
      cache_ttl_hours = 168, match_threshold = 70, log_level = ''INFO''\<rparr>"

text \<open>The values the fields are read from: the \<open>.env\<close> file's, overridden
  by the environment's, under lower-cased names.\<close>

definition settings_source :: "(string \<times> string) list \<Rightarrow> (string \<times> string) list \<Rightarrow> (string \<times> pyval) list" where
  "settings_source environ dotenv =
     map (\<lambda>(k, v). (py_lower k, PStr v)) (dotenv @ environ)"

definition Settings :: "(string \<times> string) list \<Rightarrow> (string \<times> string) list \<Rightarrow> exc + settings" where
  "Settings environ dotenv =
     (let kw = settings_source environ dotenv;
          k = defaulted (openai_api_key default_settings) coerce_str (dict_get kw ''openai_api_key'');
          m = defaulted (openai_model default_settings) coerce_str (dict_get kw ''openai_model'');
          d = defaulted (database_path default_settings) coerce_str (dict_get kw ''database_path'');
          t = defaulted (cache_ttl_hours default_settings) coerce_int (dict_get kw ''cache_ttl_hours'');
          h = defaulted (match_threshold default_settings) coerce_int (dict_get kw ''match_threshold'');
          l = defaulted (log_level default_settings) coerce_str (dict_get kw ''log_level'')
      in case (k, m, d, t, h, l) of
           (Inr k', Inr m', Inr d', Inr t', Inr h', Inr l') \<Rightarrow>
             Inr \<lparr>openai_api_key = k', openai_model = m', database_path = d',
                  cache_ttl_hours = t', match_threshold = h', log_level = l'\<rparr>
         | _ \<Rightarrow> Inl (ValidationError ''Settings''
                  (ferr ''openai_api_key'' k @ ferr ''openai_model'' m @ ferr ''database_path'' d @
                   ferr ''cache_ttl_hours'' t @ ferr ''match_threshold'' h @ ferr ''log_level'' l)))"

section \<open>Loading the settings\<close>

lemma Settings_defaults: "Settings [] [] = Inr default_settings"
  by (simp add: Settings_def settings_source_def dict_get_def defaulted_def default_settings_def)

text \<open>The environment overrides \<open>.env\<close>, names match in any case, and a
  numeric string may carry surrounding spaces.\<close>

lemma Settings_environment_first:
  "Settings [(''Cache_TTL_Hours'', '' 24 '')] [(''CACHE_TTL_HOURS'', ''48''), (''OPENAI_MODEL'', ''gpt-4'')] =
   Inr (default_settings\<lparr>openai_model := ''gpt-4'', cache_ttl_hours := 24\<rparr>)"
  by (simp add: Settings_def settings_source_def dict_get_def defaulted_def default_settings_def
      py_lower_def py_lower_char_def char_of_eval parse_int_str_def rust_trim_def rust_is_whitespace_def parse_sign_digits_def digit_val_def)

lemma Settings_bad_int:
  "Settings [(''MATCH_THRESHOLD'', ''high'')] [] =
   Inl (ValidationError ''Settings'' [([''match_threshold''], IntParsing)])"
  by (simp add: Settings_def settings_source_def dict_get_def defaulted_def default_settings_def ferr_def
      py_lower_def py_lower_char_def char_of_eval parse_int_str_def rust_trim_def rust_is_whitespace_def parse_sign_digits_def strip_decimal_zeros_def digit_val_def)

end
