(* ===== verification/Endpoints.thy ===== *)
theory Endpoints
  imports MatchingService Config
begin

text \<open>
  The HTTP layer and the process start-up: the \<open>/match\<close> and \<open>/health\<close>
  handlers of \<open>src/app/api/endpoints.py\<close>, the start-up hook of
  \<open>src/app/main.py\<close>; the settings are the \<open>Config\<close> theory's.  An
  upload is a record of its optional file name, optional content type and
  content.  A handler's outcome is a response: a JSON body with status 200, or
  an \<open>HTTPException\<close> with its status and detail.  The \<open>/match\<close> handler
  is one \<open>try\<close> block whose \<open>except ValueError\<close> answers 400 and whose
  \<open>except Exception\<close> answers 500; the \<open>HTTPException\<close>s it raises itself
  are inside that block.
\<close>

record upload_file =
  filename :: "string option"
  content_type :: "string option"
  content :: bytes

datatype response = HttpOk pyval | HttpError nat string

text \<open>Python truthiness of an optional string, and \<open>a or b\<close>.\<close>

definition truthy :: "string option \<Rightarrow> bool" where
  "truthy x \<longleftrightarrow> (case x of None \<Rightarrow> False | Some s \<Rightarrow> s \<noteq> [])"

definition py_or :: "string option \<Rightarrow> string option \<Rightarrow> string option" where
  "py_or a b = (if truthy a then a else b)"

text \<open>The two \<open>except\<close> clauses (lines 42--48).\<close>

definition handle_exc :: "exc \<Rightarrow> response" where
  "handle_exc e =
     (if is_value_error e then HttpError 400 (str_exc e)
      else HttpError 500 (''Internal server error: '' @ str_exc e))"

text \<open>\<open>parse_file\<close> on the declared type; \<open>None\<close> has no \<open>lower()\<close>.\<close>

definition none_lower_error :: exc where
  "none_lower_error = AttributeError ([CHR 0x27] @ ''NoneType'' @ [CHR 0x27] @
                        '' object has no attribute '' @ [CHR 0x27] @ ''lower'' @ [CHR 0x27])"

definition match_endpoint ::
  "'k service_env \<Rightarrow> 'k cache_db \<Rightarrow> upload_file \<Rightarrow> upload_file \<Rightarrow> response \<times> 'k cache_db \<times> 'k event list" where
  "match_endpoint env db cv job_description =
     (if \<not> truthy (filename cv) \<and> \<not> truthy (content_type cv)
      then (handle_exc (HTTPException 400 ''CV file is required''), db, [])
      else if \<not> truthy (filename job_description) \<and> \<not> truthy (content_type job_description)
      then (handle_exc (HTTPException 400 ''Job description file is required''), db, [])
      else case (py_or (content_type cv) (filename cv),
                 py_or (content_type job_description) (filename job_description)) of
             (Some cv_type, Some job_type) \<Rightarrow>
               (case match_cv_job env db (content cv) cv_type (content job_description) job_type of
                  (Inl e, db', evs) \<Rightarrow> (handle_exc e, db', evs)
                | (Inr r, db', evs) \<Rightarrow> (HttpOk (model_dump r), db', evs))
           | _ \<Rightarrow> (handle_exc none_lower_error, db, []))"

definition health_endpoint :: "llm_env \<Rightarrow> pyval" where
  "health_endpoint env =
     (let llm_available = health_check env
      in PDict [(''status'', PStr (if llm_available then ''healthy'' else ''degraded'')),
                (''llm_available'', PBool llm_available)])"

definition root_endpoint :: pyval where
  "root_endpoint =
     PDict [(''message'', PStr ''CV Filtering System API''), (''docs'', PStr ''/docs''),
            (''health'', PStr ''/health'')]"

text \<open>\<open>startup_event\<close>: the sweep with the configured TTL, at the UTC time
  \<open>utc_now\<close> on a host whose local clock is \<open>tz\<close> ahead of UTC.\<close>

definition startup_event :: "settings \<Rightarrow> usec \<Rightarrow> usec \<Rightarrow> 'k cache_db \<Rightarrow> exc + 'k cache_db" where
  "startup_event s utc_now tz db = cleanup_old_cache (cache_ttl_hours s) utc_now tz db"

section \<open>Properties of the handlers\<close>

lemma py_or_truthy: "truthy a \<or> truthy b \<Longrightarrow> \<exists>t. py_or a b = Some t \<and> t \<noteq> []"
  by (auto simp: py_or_def truthy_def split: option.splits)

lemma match_endpoint_uploads_ok:
  assumes "content_type cv = Some cv_type" and "cv_type \<noteq> []"
    and "content_type jd = Some job_type" and "job_type \<noteq> []"
  shows "match_endpoint env db cv jd =
           (case match_cv_job env db (content cv) cv_type (content jd) job_type of
              (Inl e, db', evs) \<Rightarrow> (handle_exc e, db', evs)
            | (Inr r, db', evs) \<Rightarrow> (HttpOk (model_dump r), db', evs))"
  using assms by (simp add: match_endpoint_def truthy_def py_or_def)

text \<open>C21: A request whose CV upload has neither a file name nor a content
  type is answered with status 500, not 400: the \<open>HTTPException(400)\<close> the
  handler raises is caught by its own \<open>except Exception\<close> clause.\<close>

theorem missing_cv_file_is_500:
  "match_endpoint env db \<lparr>filename = None, content_type = None, content = b\<rparr> jd =
     (HttpError 500 ''Internal server error: 400: CV file is required'', db, [])"
  by (simp add: match_endpoint_def truthy_def handle_exc_def nat_digits.simps char_of_eval)

text \<open>C22: Every 200 response of \<open>/match\<close> is well typed: its body is
  the dump of a result whose overall score and five sub-scores are integers
  in [0, 100], and validating the body as a \<open>MatchResult\<close> gives that
  result back.  This holds for cache hits and fresh results alike.\<close>

theorem response_body_well_typed:
  assumes "match_endpoint env db cv jd = (HttpOk body, db', evs)"
  shows "\<exists>r. wf_result r \<and> body = model_dump r \<and> MatchResult_star body = Inr r"
proof -
  from assms obtain r where "wf_result r" "body = model_dump r"
    by (auto simp: match_endpoint_def handle_exc_def split: if_splits option.splits prod.splits
        sum.splits dest: match_cv_job_Inr_wf)
  then show ?thesis using MatchResult_star_model_dump by blast
qed

text \<open>An upload of an unsupported declared type is answered with status
  400 and the parser's message, before any cache or backend work.\<close>

theorem unsupported_type_is_400:
  assumes "content_type cv = Some t" and "t \<noteq> []" and "file_kind_of t = None"
    and "content_type jd = Some job_type" and "job_type \<noteq> []"
  shows "match_endpoint env db cv jd = (HttpError 400 (''Unsupported file type: '' @ t), db, [])"
  using assms
  by (simp add: match_endpoint_uploads_ok match_cv_job_def parse_file_unsupported handle_exc_def)

text \<open>C24: When the backend fails during a request that misses the cache,
  the client still gets status 200, with the error result (\<open>error\<close> true)
  as body, and nothing is cached.\<close>

theorem backend_failure_is_200:
  assumes "content_type cv = Some cv_type" and "cv_type \<noteq> []"
    and "content_type jd = Some job_type" and "job_type \<noteq> []"
    and "parse_file (parsers env) (content cv) cv_type = Inr cv_text"
    and "parse_file (parsers env) (content jd) job_type = Inr job_text"
    and "get_match (hash env) db cv_text job_text = Inr None"
    and "prompt_template (llm env) = Inr template"
    and "render (llm env) template cv_text job_text = Inr prompt"
    and "try_body (llm env) prompt = Inl e"
  shows "match_endpoint env db cv jd =
           (HttpOk (model_dump ((error_result e)\<lparr>processing_time_ms := Some (elapsed_ms env)\<rparr>)), db,
            [EvCacheGet (match_key (hash env) cv_text job_text), EvLlmCall cv_text job_text])"
proof -
  have llm: "llm_match_cv_job (llm env) cv_text job_text = Inr (error_result e)"
    using assms(8-10) by (simp add: llm_match_cv_job_eq)
  have "match_texts env db cv_text job_text =
      (Inr ((error_result e)\<lparr>processing_time_ms := Some (elapsed_ms env)\<rparr>), db,
       [EvCacheGet (match_key (hash env) cv_text job_text), EvLlmCall cv_text job_text])"
    using assms(7) llm by (rule match_texts_miss_error) (simp add: error_result_def)
  with assms(1-6) show ?thesis
    by (simp add: match_endpoint_uploads_ok match_cv_job_def)
qed

text \<open>C33: A request one of whose files cannot be extracted is answered by
  the exception handlers before any cache or backend work: the store is
  unchanged and no effect is performed; the status is 400 for a
  \<open>ValueError\<close> (including \<open>UnicodeDecodeError\<close>) and 500 otherwise.\<close>

theorem unparsable_upload_rejected_early:
  assumes "truthy (filename cv) \<or> truthy (content_type cv)"
    and "truthy (filename jd) \<or> truthy (content_type jd)"
    and "py_or (content_type cv) (filename cv) = Some cv_type"
    and "py_or (content_type jd) (filename jd) = Some job_type"
    and "parse_file (parsers env) (content cv) cv_type = Inl e \<or>
         (\<exists>t. parse_file (parsers env) (content cv) cv_type = Inr t \<and>
              parse_file (parsers env) (content jd) job_type = Inl e)"
  shows "match_endpoint env db cv jd = (handle_exc e, db, [])"
  using assms by (auto simp: match_endpoint_def match_cv_job_def)

end
