(* ===== verification/Concurrency.thy ===== *)
theory Concurrency
  imports MatchingService
begin

text \<open>
  Concurrent requests.  The service runs its handlers on one asyncio event
  loop, so a request is interrupted only where it awaits.  Once both texts
  are extracted, \<open>MatchingService.match_cv_job\<close> (lines 29--52) runs the
  cache read and, on a miss, \<open>LLMService.match_cv_job\<close> up to the
  \<open>await self._call_openai(prompt)\<close> of \<open>llm_service.py\<close> line 50 without
  yielding: the SQLite calls are synchronous.  The request then waits for the
  completion, during which other requests run, and finishes (cleaning,
  validation, elapsed time, the cache write) again without yielding.  A
  request is therefore two atomic phases, \<open>match_start\<close> and
  \<open>match_finish\<close>, and a concurrent run is an interleaving of the phases of
  several requests over one shared store.  A thread is \<open>Ready\<close> (texts
  extracted), \<open>Waiting\<close> (prompt sent, the store may change under it) or
  \<open>Done\<close>; \<open>thread_step i\<close> runs the next phase of thread \<open>i\<close> and
  appends its effects, tagged with \<open>i\<close>, to the global trace.
\<close>

datatype started = Finished "exc + match_result" | Suspended string

text \<open>Lines 29--40 and \<open>llm_service.py\<close> lines 44--50: the lookup, and on a
  miss the prompt, up to the request sent to the backend.\<close>

definition match_start ::
  "'k service_env \<Rightarrow> 'k cache_db \<Rightarrow> string \<Rightarrow> string \<Rightarrow> started \<times> 'k event list" where
  "match_start env db cv_text job_text =
     (let k = match_key (hash env) cv_text job_text
      in case get_match (hash env) db cv_text job_text of
           Inl e \<Rightarrow> (Finished (Inl e), [EvCacheGet k])
         | Inr (Some cached_match) \<Rightarrow>
             (Finished (Inr (cached_match\<lparr>cached := True, processing_time_ms := Some (elapsed_ms env)\<rparr>)),
              [EvCacheGet k])
         | Inr None \<Rightarrow>
             (case sbind (prompt_template (llm env)) (\<lambda>template. render (llm env) template cv_text job_text) of
                Inl e \<Rightarrow> (Finished (Inl e), [EvCacheGet k, EvLlmCall cv_text job_text])
              | Inr prompt \<Rightarrow> (Suspended prompt, [EvCacheGet k, EvLlmCall cv_text job_text])))"

text \<open>\<open>llm_service.py\<close> lines 50--88 and lines 40--52: the completion
  arrives, the result is built (or the error result), timed and written
  unless it is an error result.\<close>

definition match_finish ::
  "'k service_env \<Rightarrow> 'k cache_db \<Rightarrow> string \<Rightarrow> string \<Rightarrow> string \<Rightarrow> 'k outcome" where
  "match_finish env db cv_text job_text prompt =
     (let k = match_key (hash env) cv_text job_text;
          match_result = (case try_body (llm env) prompt of Inl e \<Rightarrow> error_result e | Inr r \<Rightarrow> r);
          mr = match_result\<lparr>processing_time_ms := Some (elapsed_ms env)\<rparr>
      in if \<not> error mr then
           (case cache_match (hash env) (now_utc env) db cv_text job_text mr of
              Inl e \<Rightarrow> (Inl e, db, [EvCachePut k])
            | Inr db' \<Rightarrow> (Inr mr, db', [EvCachePut k]))
         else (Inr mr, db, []))"

datatype 'k thread =
    Ready "'k service_env" string string
  | Waiting "'k service_env" string string string
  | Done "exc + match_result"

record 'k sched_state =
  store :: "'k cache_db"
  threads :: "'k thread list"
  trace :: "(nat \<times> 'k event) list"

definition init_state :: "'k cache_db \<Rightarrow> ('k service_env \<times> string \<times> string) list \<Rightarrow> 'k sched_state" where
  "init_state db reqs =
     \<lparr>store = db, threads = map (\<lambda>(env, cv, job). Ready env cv job) reqs, trace = []\<rparr>"

definition thread_step :: "nat \<Rightarrow> 'k sched_state \<Rightarrow> 'k sched_state option" where
  "thread_step i s =
     (if length (threads s) \<le> i then None
      else case threads s ! i of
        Ready env cv job \<Rightarrow>
          (case match_start env (store s) cv job of
             (Finished r, evs) \<Rightarrow>
               Some (s\<lparr>threads := (threads s)[i := Done r], trace := trace s @ map (Pair i) evs\<rparr>)
           | (Suspended p, evs) \<Rightarrow>
               Some (s\<lparr>threads := (threads s)[i := Waiting env cv job p], trace := trace s @ map (Pair i) evs\<rparr>))
      | Waiting env cv job p \<Rightarrow>
          (case match_finish env (store s) cv job p of
             (r, db', evs) \<Rightarrow>
               Some (s\<lparr>store := db', threads := (threads s)[i := Done r], trace := trace s @ map (Pair i) evs\<rparr>))
      | Done _ \<Rightarrow> None)"

fun run_schedule :: "nat list \<Rightarrow> 'k sched_state \<Rightarrow> 'k sched_state option" where
  "run_schedule [] s = Some s"
| "run_schedule (i # is) s = (case thread_step i s of None \<Rightarrow> None | Some s' \<Rightarrow> run_schedule is s')"

inductive conc_reach :: "'k sched_state \<Rightarrow> 'k sched_state \<Rightarrow> bool" for s0 where
  refl: "conc_reach s0 s0"
| step: "conc_reach s0 s \<Longrightarrow> thread_step i s = Some s' \<Longrightarrow> conc_reach s0 s'"

text \<open>The effects of thread \<open>i\<close> in a global trace.\<close>

definition proj :: "nat \<Rightarrow> (nat \<times> 'k event) list \<Rightarrow> 'k event list" where
  "proj i tr = map snd (filter (\<lambda>(j, _). j = i) tr)"


text \<open>Every thread of a run uses the digest \<open>H\<close>.\<close>

fun thread_hash :: "(string \<Rightarrow> 'k) \<Rightarrow> 'k thread \<Rightarrow> bool" where
  "thread_hash H (Ready env _ _) = (hash env = H)"
| "thread_hash H (Waiting env _ _ _) = (hash env = H)"
| "thread_hash H (Done _) = True"

text \<open>A thread that can make progress without an exception: a request not
  yet started whose prompt builds, a suspended request, or an answer that is
  a valid result.\<close>

fun thread_sound :: "(string \<Rightarrow> 'k) \<Rightarrow> 'k thread \<Rightarrow> bool" where
  "thread_sound H (Ready env cv job) \<longleftrightarrow>
     hash env = H \<and> (case sbind (prompt_template (llm env)) (\<lambda>t. render (llm env) t cv job) of
                       Inl _ \<Rightarrow> False | Inr _ \<Rightarrow> True)"
| "thread_sound H (Waiting env cv job p) \<longleftrightarrow> hash env = H"
| "thread_sound H (Done r) \<longleftrightarrow> (case r of Inl _ \<Rightarrow> False | Inr m \<Rightarrow> wf_result m)"

text \<open>The effects a request may perform, in order, and what a thread's
  effects are in each phase.\<close>

definition full_trace :: "'k service_env \<Rightarrow> string \<Rightarrow> string \<Rightarrow> 'k event list" where
  "full_trace env cv job =
     [EvCacheGet (match_key (hash env) cv job), EvLlmCall cv job, EvCachePut (match_key (hash env) cv job)]"

fun thread_ok :: "'k service_env \<times> string \<times> string \<Rightarrow> 'k thread \<Rightarrow> 'k event list \<Rightarrow> bool" where
  "thread_ok (env, cv, job) (Ready env' cv' job') evs \<longleftrightarrow> (env', cv', job') = (env, cv, job) \<and> evs = []"
| "thread_ok (env, cv, job) (Waiting env' cv' job' _) evs \<longleftrightarrow>
     (env', cv', job') = (env, cv, job) \<and> evs = take 2 (full_trace env cv job)"
| "thread_ok (env, cv, job) (Done _) evs \<longleftrightarrow> evs = take (length evs) (full_trace env cv job)"

text \<open>Progress: whether a thread has answered, and how many of its phases
  are still to run.\<close>

fun is_done :: "'k thread \<Rightarrow> bool" where
  "is_done (Done _) = True"
| "is_done _ = False"

fun phases_left :: "'k thread \<Rightarrow> nat" where
  "phases_left (Ready _ _ _) = 2"
| "phases_left (Waiting _ _ _ _) = 1"
| "phases_left (Done _) = 0"

definition remaining :: "'k sched_state \<Rightarrow> nat" where
  "remaining s = sum_list (map phases_left (threads s))"

section \<open>Phases and steps\<close>

lemma proj_append: "proj i (tr @ map (Pair j) evs) = proj i tr @ (if i = j then evs else [])"
  by (induction evs) (auto simp: proj_def)

lemma thread_step_cases:
  assumes "thread_step i s = Some s'"
  obtains (start_done) env cv job r evs where "i < length (threads s)" "threads s ! i = Ready env cv job"
      "match_start env (store s) cv job = (Finished r, evs)"
      "s' = s\<lparr>threads := (threads s)[i := Done r], trace := trace s @ map (Pair i) evs\<rparr>"
  | (start_wait) env cv job p evs where "i < length (threads s)" "threads s ! i = Ready env cv job"
      "match_start env (store s) cv job = (Suspended p, evs)"
      "s' = s\<lparr>threads := (threads s)[i := Waiting env cv job p], trace := trace s @ map (Pair i) evs\<rparr>"
  | (finish) env cv job p r db' evs where "i < length (threads s)" "threads s ! i = Waiting env cv job p"
      "match_finish env (store s) cv job p = (r, db', evs)"
      "s' = s\<lparr>store := db', threads := (threads s)[i := Done r], trace := trace s @ map (Pair i) evs\<rparr>"
  using assms
  by (cases "threads s ! i"; cases "i < length (threads s)")
     (auto simp: thread_step_def split: prod.splits started.splits)

lemma match_start_events:
  assumes "match_start env db cv job = (st, evs)"
  shows "case st of Suspended _ \<Rightarrow> evs = take 2 (full_trace env cv job)
                  | Finished _ \<Rightarrow> evs = take (length evs) (full_trace env cv job) \<and> evs \<noteq> []"
  using assms
  by (auto simp: match_start_def full_trace_def Let_def split: sum.splits option.splits)

lemma match_finish_events:
  "match_finish env db cv job p = (r, db', evs) \<Longrightarrow> evs = [] \<or> evs = [EvCachePut (match_key (hash env) cv job)]"
  by (auto simp: match_finish_def Let_def split: sum.splits if_splits)

lemma match_finish_inv:
  assumes "cache_inv (hash env) db" and "match_finish env db cv job p = (r, db', evs)"
  shows "cache_inv (hash env) db'"
proof (cases "try_body (llm env) p")
  case (Inl e)
  then show ?thesis using assms by (simp add: match_finish_def Let_def error_result_def)
next
  case (Inr m)
  then have m: "wf_result m" "\<not> error m" "\<not> cached m" using try_body_Inr by blast+
  show ?thesis
  proof (cases "cache_match (hash env) (now_utc env) db cv job (m\<lparr>processing_time_ms := Some (elapsed_ms env)\<rparr>)")
    case (Inl e)
    with Inr m assms show ?thesis by (simp add: match_finish_def Let_def)
  next
    case (Inr db'')
    with \<open>try_body (llm env) p = Inr m\<close> m assms(2) have "db' = db''"
      by (simp add: match_finish_def Let_def)
    moreover have "cache_inv (hash env) db''"
      using assms(1) Inr by (rule cache_match_inv) (simp_all add: m)
    ultimately show ?thesis by simp
  qed
qed


lemma thread_step_cache_inv:
  assumes "thread_step i s = Some s'" and "cache_inv H (store s)" and "list_all (thread_hash H) (threads s)"
  shows "cache_inv H (store s') \<and> list_all (thread_hash H) (threads s')"
  using assms(1)
proof (cases rule: thread_step_cases)
  case (start_wait env cv job p evs)
  moreover have "hash env = H" using assms(3) start_wait(1,2) by (metis list_all_length thread_hash.simps(1))
  ultimately show ?thesis using assms(2,3) by (simp add: list_all_update)
next
  case (finish env cv job p r db' evs)
  moreover have "hash env = H" using assms(3) finish(1,2) by (metis list_all_length thread_hash.simps(2))
  ultimately have "cache_inv H db'" using assms(2) match_finish_inv by blast
  with finish assms(3) show ?thesis by (simp add: list_all_update)
qed (use assms in \<open>simp_all add: list_all_update\<close>)

lemma thread_ok_Ready: "thread_ok q (Ready env cv job) evs \<longleftrightarrow> q = (env, cv, job) \<and> evs = []"
  by (cases q) auto

lemma thread_ok_Waiting:
  "thread_ok q (Waiting env cv job p) evs \<longleftrightarrow> q = (env, cv, job) \<and> evs = take 2 (full_trace env cv job)"
  by (cases q) auto

text \<open>A step of thread \<open>i\<close> changes only thread \<open>i\<close> and its effects.\<close>

lemma thread_ok_update:
  assumes "\<forall>j < length reqs. thread_ok (reqs ! j) (ts ! j) (proj j tr)" and "length ts = length reqs"
    and "i < length reqs" and "thread_ok (reqs ! i) t (proj i tr @ evs)"
  shows "\<forall>j < length reqs. thread_ok (reqs ! j) (ts[i := t] ! j) (proj j (tr @ map (Pair i) evs))"
proof -
  show ?thesis
  proof (intro allI impI)
    fix j assume "j < length reqs"
    then show "thread_ok (reqs ! j) (ts[i := t] ! j) (proj j (tr @ map (Pair i) evs))"
      using assms by (cases "j = i") (auto simp: proj_append)
  qed
qed

lemma thread_step_trace_ok:
  assumes "thread_step i s = Some s'" and "length (threads s) = length reqs"
    and "\<forall>j < length reqs. thread_ok (reqs ! j) (threads s ! j) (proj j (trace s))"
  shows "length (threads s') = length reqs \<and>
         (\<forall>j < length reqs. thread_ok (reqs ! j) (threads s' ! j) (proj j (trace s')))"
  using assms(1)
proof (cases rule: thread_step_cases)
  case (start_done env cv job r evs)
  with assms(2,3) have "reqs ! i = (env, cv, job)" "proj i (trace s) = []"
    by (metis thread_ok_Ready)+
  moreover have "evs = take (length evs) (full_trace env cv job)"
    using match_start_events [OF start_done(3)] by simp
  ultimately have "thread_ok (reqs ! i) (Done r) (proj i (trace s) @ evs)" by simp
  with start_done assms(2,3) show ?thesis by (simp add: thread_ok_update)
next
  case (start_wait env cv job p evs)
  with assms(2,3) have "reqs ! i = (env, cv, job)" "proj i (trace s) = []"
    by (metis thread_ok_Ready)+
  moreover have "evs = take 2 (full_trace env cv job)"
    using match_start_events [OF start_wait(3)] by simp
  ultimately have "thread_ok (reqs ! i) (Waiting env cv job p) (proj i (trace s) @ evs)" by simp
  with start_wait assms(2,3) show ?thesis by (simp add: thread_ok_update)
next
  case (finish env cv job p r db' evs)
  with assms(2,3) have "reqs ! i = (env, cv, job)" "proj i (trace s) = take 2 (full_trace env cv job)"
    by (metis thread_ok_Waiting)+
  moreover have "evs = [] \<or> evs = [EvCachePut (match_key (hash env) cv job)]"
    using finish(3) by (rule match_finish_events)
  ultimately have "thread_ok (reqs ! i) (Done r) (proj i (trace s) @ evs)"
    by (auto simp: full_trace_def)
  with finish assms(2,3) show ?thesis by (simp add: thread_ok_update)
qed


lemma run_schedule_reach:
  "run_schedule is s = Some s' \<Longrightarrow> conc_reach s0 s \<Longrightarrow> conc_reach s0 s'"
  by (induction "is" arbitrary: s) (auto split: option.splits intro: conc_reach.step)

lemma thread_ok_prefix:
  "thread_ok (env, cv, job) t evs \<Longrightarrow> evs = take (length evs) (full_trace env cv job)"
  by (cases t) (auto simp: full_trace_def)

lemma match_finish_other_key:
  assumes "match_finish e1 db cv1 job1 p1 = (r1, db1, ev1)"
    and "match_key H cv job \<noteq> match_key (hash e1) cv1 job1"
  shows "get_match H db1 cv job = get_match H db cv job"
  using assms
  by (auto simp: match_finish_def cache_match_def get_match_def Let_def split: sum.splits if_splits)

lemma match_start_same_lookup:
  "get_match (hash env) db' cv job = get_match (hash env) db cv job \<Longrightarrow>
   match_start env db' cv job = match_start env db cv job"
  by (simp add: match_start_def)

lemma thread_step_remaining:
  assumes "thread_step i s = Some s'"
  shows "remaining s' < remaining s"
  using assms
proof (cases rule: thread_step_cases)
  case (start_done env cv job r evs)
  then show ?thesis
    using sum_list_map_update [OF start_done(1), of phases_left "Done r"] by (simp add: remaining_def)
next
  case (start_wait env cv job p evs)
  then show ?thesis
    using sum_list_map_update [OF start_wait(1), of phases_left "Waiting env cv job p"]
    by (simp add: remaining_def)
next
  case (finish env cv job p r db' evs)
  then show ?thesis
    using sum_list_map_update [OF finish(1), of phases_left "Done r"] by (simp add: remaining_def)
qed

lemma thread_step_progress:
  "i < length (threads s) \<Longrightarrow> \<not> is_done (threads s ! i) \<Longrightarrow> thread_step i s \<noteq> None"
  by (cases "threads s ! i") (auto simp: thread_step_def split: prod.splits started.splits)

lemma thread_step_pending:
  "thread_step i s = Some s' \<Longrightarrow> i < length (threads s) \<and> \<not> is_done (threads s ! i)"
  by (erule thread_step_cases) simp_all

lemma thread_step_length: "thread_step i s = Some s' \<Longrightarrow> length (threads s') = length (threads s)"
  by (erule thread_step_cases) simp_all

lemma conc_reach_length: "conc_reach s0 s \<Longrightarrow> length (threads s) = length (threads s0)"
  by (induction rule: conc_reach.induct) (auto dest: thread_step_length)

text \<open>With the store available and sound, a phase never raises: a start
  answers a hit with a valid result or suspends, and a finish answers with a
  valid result and leaves the store available.\<close>

lemma match_start_sound:
  assumes "available db" and "cache_inv (hash env) db" and "thread_sound (hash env) (Ready env cv job)"
    and "match_start env db cv job = (st, evs)"
  shows "(\<exists>m. st = Finished (Inr m) \<and> wf_result m) \<or> (\<exists>p. st = Suspended p)"
  using assms get_match_inv_not_Inl [OF assms(1,2), of cv job]
  by (auto simp: match_start_def Let_def split: sum.splits option.splits dest: get_match_wf)

lemma match_finish_sound:
  assumes "available db" and "match_finish env db cv job p = (r, db', evs)"
  shows "(\<exists>m. r = Inr m \<and> wf_result m) \<and> available db'"
  using assms
  by (auto simp: match_finish_def Let_def cache_match_def error_result_wf split: sum.splits if_splits
      dest: try_body_Inr)

lemma thread_step_sound:
  assumes "thread_step i s = Some s'" and "available (store s)" and "cache_inv H (store s)"
    and "list_all (thread_sound H) (threads s)"
  shows "available (store s') \<and> list_all (thread_sound H) (threads s')"
  using assms(1)
proof (cases rule: thread_step_cases)
  case (start_done env cv job r evs)
  moreover have "thread_sound H (Ready env cv job)" using assms(4) start_done(1,2) by (metis list_all_length)
  ultimately show ?thesis using assms(2-4) match_start_sound [of "store s" env cv job]
    by (auto simp: list_all_update)
next
  case (start_wait env cv job p evs)
  moreover have "thread_sound H (Ready env cv job)" using assms(4) start_wait(1,2) by (metis list_all_length)
  ultimately show ?thesis using assms(2,4) by (simp add: list_all_update)
next
  case (finish env cv job p r db' evs)
  with assms(2,4) match_finish_sound [OF assms(2) finish(3)] show ?thesis
    by (auto simp: list_all_update split: sum.splits)
qed

lemma thread_sound_hash: "list_all (thread_sound H) ts \<Longrightarrow> list_all (thread_hash H) ts"
proof (induction ts)
  case (Cons t ts)
  then show ?case by (cases t) auto
qed simp

lemma conc_reach_sound:
  assumes "conc_reach s0 s" and "available (store s0)" and "cache_inv H (store s0)"
    and "list_all (thread_sound H) (threads s0)"
  shows "available (store s) \<and> cache_inv H (store s) \<and> list_all (thread_sound H) (threads s)"
  using assms(1)
proof (induction rule: conc_reach.induct)
  case refl
  then show ?case using assms(2-4) by simp
next
  case (step s i s')
  then show ?case
    using thread_step_sound [OF step.hyps(2)] thread_step_cache_inv [OF step.hyps(2)] thread_sound_hash
    by blast
qed

text \<open>C27: However the phases of concurrent requests interleave, the shared
  store keeps its invariant: every row is under its texts' key and holds a
  valid, non-error, non-cached result.\<close>

theorem concurrent_cache_inv:
  assumes "conc_reach (init_state db reqs) s" and "cache_inv H db"
    and "\<forall>(env, cv, job) \<in> set reqs. hash env = H"
  shows "cache_inv H (store s)"
proof -
  have "cache_inv H (store s) \<and> list_all (thread_hash H) (threads s)"
    using assms(1)
  proof (induction rule: conc_reach.induct)
    case refl
    show ?case using assms(2,3) by (auto simp: init_state_def list_all_iff)
  next
    case (step s i s')
    then show ?case using thread_step_cache_inv by blast
  qed
  then show ?thesis by simp
qed

text \<open>C28: In any interleaving, each request performs at most one cache read,
  at most one backend call and at most one cache write, for its own pair and
  in that order: its projection of the global trace is a prefix of read,
  call, write.\<close>

theorem concurrent_effects_per_request:
  assumes "conc_reach (init_state db reqs) s" and "i < length reqs" and "reqs ! i = (env, cv, job)"
  shows "proj i (trace s) = take (length (proj i (trace s)))
           [EvCacheGet (match_key (hash env) cv job), EvLlmCall cv job,
            EvCachePut (match_key (hash env) cv job)]"
proof -
  have "length (threads s) = length reqs \<and>
        (\<forall>j < length reqs. thread_ok (reqs ! j) (threads s ! j) (proj j (trace s)))"
    using assms(1)
  proof (induction rule: conc_reach.induct)
    case refl
    have "thread_ok (reqs ! j) (case reqs ! j of (env, cv, job) \<Rightarrow> Ready env cv job) []" for j
      by (cases "reqs ! j") auto
    then show ?case by (simp add: init_state_def proj_def)
  next
    case (step s i s')
    then show ?case using thread_step_trace_ok by blast
  qed
  with assms(2,3) have "thread_ok (env, cv, job) (threads s ! i) (proj i (trace s))" by metis
  then show ?thesis by (simp add: thread_ok_prefix [of env cv job, unfolded full_trace_def])
qed

text \<open>C29: A request that has sent its prompt does not reserve its key: for
  any two requests for the same pair on a store that misses it, if the
  second starts before the first has finished, both read the cache, both
  miss and both call the backend; the store is untouched until a finish.\<close>

theorem same_key_overlap:
  assumes "i < length reqs" and "j < length reqs" and "i \<noteq> j"
    and "reqs ! i = (e1, cv, job)" and "reqs ! j = (e2, cv, job)" and "hash e2 = hash e1"
    and "get_match (hash e1) db cv job = Inr None"
    and "sbind (prompt_template (llm e1)) (\<lambda>t. render (llm e1) t cv job) = Inr p1"
    and "sbind (prompt_template (llm e2)) (\<lambda>t. render (llm e2) t cv job) = Inr p2"
  shows "\<exists>s. run_schedule [i, j] (init_state db reqs) = Some s \<and> store s = db \<and>
           trace s = [(i, EvCacheGet (match_key (hash e1) cv job)), (i, EvLlmCall cv job),
                      (j, EvCacheGet (match_key (hash e1) cv job)), (j, EvLlmCall cv job)]"
proof -
  have s1: "match_start e1 db cv job =
              (Suspended p1, [EvCacheGet (match_key (hash e1) cv job), EvLlmCall cv job])"
    using assms(7,8) by (simp add: match_start_def Let_def)
  have s2: "match_start e2 db cv job =
              (Suspended p2, [EvCacheGet (match_key (hash e1) cv job), EvLlmCall cv job])"
    using assms(6,7,9) by (simp add: match_start_def Let_def)
  show ?thesis
    using assms(1-5) s1 s2 by (simp add: init_state_def thread_step_def)
qed

text \<open>C30: Requests on different keys do not contend: a lookup is unaffected
  by the other request's write, and the two completions can be processed in
  either order with the same results, the same effects and the same final
  store.\<close>

theorem different_keys_no_contention:
  assumes keys: "match_key (hash e1) cv1 job1 \<noteq> match_key (hash e2) cv2 job2"
    and f1: "match_finish e1 db cv1 job1 p1 = (r1, db1, ev1)"
    and f2: "match_finish e2 db cv2 job2 p2 = (r2, db2, ev2)"
  shows "match_start e2 db1 cv2 job2 = match_start e2 db cv2 job2 \<and>
         match_start e1 db2 cv1 job1 = match_start e1 db cv1 job1 \<and>
         (\<exists>db'. match_finish e2 db1 cv2 job2 p2 = (r2, db', ev2) \<and>
                match_finish e1 db2 cv1 job1 p1 = (r1, db', ev1))"
proof (intro conjI)
  show "match_start e2 db1 cv2 job2 = match_start e2 db cv2 job2"
    using match_finish_other_key [OF f1] keys by (metis match_start_same_lookup)
  show "match_start e1 db2 cv1 job1 = match_start e1 db cv1 job1"
    using match_finish_other_key [OF f2] keys by (metis match_start_same_lookup)
  show "\<exists>db'. match_finish e2 db1 cv2 job2 p2 = (r2, db', ev2) \<and>
                match_finish e1 db2 cv1 job1 p1 = (r1, db', ev1)"
    using f1 f2 keys
    by (auto simp: match_finish_def cache_match_def Let_def fun_upd_twist split: sum.splits if_splits)
qed

text \<open>The two-phase model refines the sequential one: running
  \<open>match_start\<close> and then, if the request was suspended, \<open>match_finish\<close> on
  the same store gives exactly the outcome, store and effects of
  \<open>match_texts\<close>.  A request that runs alone is thus the request of
  \<open>MatchingService\<close>.\<close>

theorem match_texts_two_phase:
  "match_texts env db cv job =
     (case match_start env db cv job of
        (Finished r, evs) \<Rightarrow> (r, db, evs)
      | (Suspended p, evs) \<Rightarrow>
          (case match_finish env db cv job p of (r, db', evs') \<Rightarrow> (r, db', evs @ evs')))"
proof (cases rule: get_match_cases [of "hash env" db cv job])
  case (hit c)
  then show ?thesis by (simp add: match_texts_hit match_start_def)
next
  case (fault e)
  then show ?thesis by (simp add: match_texts_cache_error match_start_def)
next
  case miss
  show ?thesis
  proof (cases "prompt_template (llm env)")
    case (Inl e)
    with miss show ?thesis by (simp add: match_texts_miss_exc llm_match_cv_job_def match_start_def)
  next
    case (Inr t)
    show ?thesis
    proof (cases "render (llm env) t cv job")
      case (Inl e)
      with miss \<open>prompt_template (llm env) = Inr t\<close> show ?thesis
        by (simp add: match_texts_miss_exc llm_match_cv_job_def match_start_def)
    next
      case (Inr p)
      with miss \<open>prompt_template (llm env) = Inr t\<close> show ?thesis
        by (simp add: match_texts_def llm_match_cv_job_def match_start_def match_finish_def Let_def
            split: sum.split)
    qed
  qed
qed

end
