(* ===== verification/EventLoop.thy ===== *)
theory EventLoop
  imports Concurrency
begin

text \<open>
  The event loop.  asyncio runs the steps of the requests that are ready one
  after another, in an order of its own; a step is one phase of one request
  (\<open>thread_step\<close>).  \<open>run_all pick\<close> is the loop under a scheduling
  policy \<open>pick\<close> that names the request to resume next: it steps that
  request until the policy names none.  Each request has two phases, so the
  loop terminates whatever the policy (\<open>remaining\<close> decreases with every
  step; the termination proof of \<open>run_all\<close>), every schedule is at most
  twice as long as there are requests, and a policy that never idles while a
  request is unanswered answers all of them.  \<open>first_pending\<close>, which
  resumes the lowest-numbered unanswered request, is such a policy.
\<close>

function run_all :: "('k sched_state \<Rightarrow> nat option) \<Rightarrow> 'k sched_state \<Rightarrow> 'k sched_state" where
  "run_all pick s =
     (case pick s of
        None \<Rightarrow> s
      | Some i \<Rightarrow> (case thread_step i s of None \<Rightarrow> s | Some s' \<Rightarrow> run_all pick s'))"
  by pat_completeness auto
termination
  by (relation "measure (\<lambda>(pick, s). remaining s)") (auto dest: thread_step_remaining)

declare run_all.simps [simp del]

definition first_pending :: "'k sched_state \<Rightarrow> nat option" where
  "first_pending s = find (\<lambda>i. \<not> is_done (threads s ! i)) [0..<length (threads s)]"

section \<open>Termination and progress\<close>

lemma first_pending_ok:
  "\<forall>s. (\<exists>i < length (threads s). \<not> is_done (threads s ! i)) \<longrightarrow>
       (\<exists>i. first_pending s = Some i \<and> i < length (threads s) \<and> \<not> is_done (threads s ! i))"
proof (intro allI impI)
  fix s :: "'k sched_state"
  assume "\<exists>i < length (threads s). \<not> is_done (threads s ! i)"
  then have "first_pending s \<noteq> None" by (auto simp: first_pending_def find_None_iff)
  then obtain j where "first_pending s = Some j" by blast
  moreover from this have "j < length (threads s) \<and> \<not> is_done (threads s ! j)"
    unfolding first_pending_def by (auto dest: find_Some_mem)
  ultimately show "\<exists>i. first_pending s = Some i \<and> i < length (threads s) \<and> \<not> is_done (threads s ! i)"
    by blast
qed

lemma run_schedule_remaining:
  "run_schedule sched s = Some s' \<Longrightarrow> remaining s' + length sched \<le> remaining s"
proof (induction sched arbitrary: s)
  case (Cons i sched)
  then obtain s1 where s1: "thread_step i s = Some s1" and r: "run_schedule sched s1 = Some s'"
    by (auto split: option.splits)
  from Cons.IH [OF r] thread_step_remaining [OF s1] show ?case by simp
qed simp

lemma remaining_init: "remaining (init_state db reqs) = 2 * length reqs"
  by (induction reqs) (auto simp: remaining_def init_state_def)

lemma run_all_reach:
  "conc_reach s0 s \<Longrightarrow> conc_reach s0 (run_all pick s)"
proof (induction pick s rule: run_all.induct)
  case (1 pick s)
  then show ?case
    by (subst run_all.simps) (auto split: option.splits intro: conc_reach.step)
qed

lemma run_all_done:
  "(\<forall>s. (\<exists>i < length (threads s). \<not> is_done (threads s ! i)) \<longrightarrow>
        (\<exists>i. pick s = Some i \<and> i < length (threads s) \<and> \<not> is_done (threads s ! i))) \<longrightarrow>
   (\<forall>i < length (threads (run_all pick s)). is_done (threads (run_all pick s) ! i))"
proof (induction pick s rule: run_all.induct)
  case (1 pick s)
  show ?case
  proof
    assume ok: "\<forall>s. (\<exists>i < length (threads s). \<not> is_done (threads s ! i)) \<longrightarrow>
        (\<exists>i. pick s = Some i \<and> i < length (threads s) \<and> \<not> is_done (threads s ! i))"
    show "\<forall>i < length (threads (run_all pick s)). is_done (threads (run_all pick s) ! i)"
    proof (cases "\<exists>i < length (threads s). \<not> is_done (threads s ! i)")
      case True
      with ok obtain i where i: "pick s = Some i" "i < length (threads s)" "\<not> is_done (threads s ! i)"
        by blast
      then obtain s' where s': "thread_step i s = Some s'" using thread_step_progress by blast
      with i ok "1.IH" show ?thesis by (simp add: run_all.simps [of pick s])
    next
      case False
      then show ?thesis
        by (auto simp: run_all.simps [of pick s] split: option.splits dest: thread_step_pending)
    qed
  qed
qed

text \<open>Every interleaving of concurrent requests is finite: a schedule
  that the requests can run has at most two steps per request, since each
  request suspends once, at its backend call.\<close>

theorem schedules_are_short:
  assumes "run_schedule sched (init_state db reqs) = Some s"
  shows "length sched \<le> 2 * length reqs"
  using run_schedule_remaining [OF assms] by (simp add: remaining_init)

text \<open>C36: The event loop answers every request with a valid result: if the
  store is available and satisfies its invariant, and every request's prompt
  can be built, then under any policy that resumes some unanswered request
  whenever there is one, the loop stops in a state reachable by interleaving
  in which every request is answered with a result (never an exception)
  that satisfies the field constraints, and the store keeps its invariant.\<close>

theorem every_request_answered:
  assumes "\<forall>s. (\<exists>i < length (threads s). \<not> is_done (threads s ! i)) \<longrightarrow>
               (\<exists>i. pick s = Some i \<and> i < length (threads s) \<and> \<not> is_done (threads s ! i))"
    and "available db" and "cache_inv H db"
    and "\<forall>(env, cv, job) \<in> set reqs. hash env = H \<and>
           (\<exists>p. sbind (prompt_template (llm env)) (\<lambda>t. render (llm env) t cv job) = Inr p)"
  shows "conc_reach (init_state db reqs) (run_all pick (init_state db reqs)) \<and>
         length (threads (run_all pick (init_state db reqs))) = length reqs \<and>
         (\<forall>i < length reqs. \<exists>m. threads (run_all pick (init_state db reqs)) ! i = Done (Inr m) \<and> wf_result m) \<and>
         cache_inv H (store (run_all pick (init_state db reqs)))"
proof -
  let ?s = "run_all pick (init_state db reqs)"
  have reach: "conc_reach (init_state db reqs) ?s"
    by (rule run_all_reach) (rule conc_reach.refl)
  then have len: "length (threads ?s) = length reqs"
    by (auto dest: conc_reach_length simp: init_state_def)
  have start: "list_all (thread_sound H) (threads (init_state db reqs))"
    using assms(4) by (auto simp: init_state_def list_all_iff split: sum.splits)
  have sound: "cache_inv H (store ?s) \<and> list_all (thread_sound H) (threads ?s)"
    using conc_reach_sound [OF reach] assms(2,3) start by (simp add: init_state_def)
  have "\<forall>i < length (threads ?s). is_done (threads ?s ! i)"
    using run_all_done assms(1) by blast
  then have "\<forall>i < length reqs. \<exists>m. threads ?s ! i = Done (Inr m) \<and> wf_result m"
    using len sound by (metis is_done.elims(2) list_all_length thread_sound.simps(3) sum.case(1) sum.exhaust sum.case(2))
  with reach len sound show ?thesis by blast
qed

end
