(* ===== verification/Scenario.thy ===== *)
theory Scenario
  imports Endpoints EventLoop
begin

text \<open>
  Concrete environments for running the model: a stub backend that always
  completes with a fixed text whose decoding is fixed, an extractor set whose
  plain-text decoder maps each byte to one character, the identity as
  digest, and the example pair of the specification (a CV with five years of
  Python and AWS, a job asking for both, scored 85).  The theorems here apply
  the component theorems to these inputs, which shows that their hypotheses
  hold together.
\<close>

definition text_parsers :: extractors where
  "text_parsers =
     \<lparr>pdf_pages = \<lambda>_. Inl (ValueError ''cannot open broken document''),
      docx_paragraphs = \<lambda>_. Inl (ValueError ''file is not a zip file''),
      utf8_decode = \<lambda>b. Inr (replicate (length b) (CHR ''x''))\<rparr>"

definition scenario_scores :: criteria_scores where
  "scenario_scores = \<lparr>skills = 90, experience = 80, location = 70, education = 70, certifications = 60\<rparr>"

definition scenario_payload :: pyval where
  "scenario_payload =
     PDict [(''match'', PBool True), (''overall_score'', PInt 85),
            (''criteria_scores'', dump_criteria scenario_scores),
            (''explanation'', PStr ''Strong match'')]"

definition stub_llm :: "string \<Rightarrow> exc + pyval \<Rightarrow> llm_env" where
  "stub_llm completion decoded =
     \<lparr>read_text = \<lambda>path. Inr ''CV: {cv_text} JOB: {job_text}'',
      render = \<lambda>template cv job. Inr (''CV: '' @ cv @ '' JOB: '' @ job),
      model = ''gpt-3.5-turbo'',
      chat_completion = \<lambda>request. Inr (Some completion),
      json_loads = \<lambda>text. decoded,
      models_list = Inr ()\<rparr>"

definition stub_env :: "llm_env \<Rightarrow> seconds \<Rightarrow> seconds \<Rightarrow> string service_env" where
  "stub_env l t0 t1 =
     \<lparr>parsers = text_parsers, hash = (\<lambda>s. s), llm = l, t_start = t0, t_end = t1, now_utc = 0\<rparr>"

definition empty_db :: "string cache_db" where
  "empty_db = \<lparr>rows = Map.empty, available = True\<rparr>"

definition scenario_cv :: string where
  "scenario_cv = ''5 years Python, AWS''"

definition scenario_job :: string where
  "scenario_job = ''Looking for Python engineer, AWS required''"

definition scenario_result :: match_result where
  "scenario_result =
     \<lparr>match = True, overall_score = 85, criteria_scores = scenario_scores,
      explanation = ''Strong match'', cached = False, processing_time_ms = None, error = False\<rparr>"

definition scenario_llm :: llm_env where
  "scenario_llm = stub_llm ''```json {...} ```'' (Inr scenario_payload)"

text \<open>The first request takes 50 ms, the second 2 ms.\<close>

definition first_env :: "string service_env" where
  "first_env = stub_env scenario_llm 0 (1/20)"

definition second_env :: "string service_env" where
  "second_env = stub_env scenario_llm 10 (10 + 1/500)"

definition scenario_key :: string where
  "scenario_key = scenario_cv @ scenario_job"

definition scenario_db1 :: "string cache_db" where
  "scenario_db1 =
     \<lparr>rows = [scenario_key \<mapsto>
        \<lparr>cv_content = scenario_cv, job_content = scenario_job,
         result = model_dump (scenario_result\<lparr>processing_time_ms := Some 50\<rparr>), created_at = 0\<rparr>],
      available = True\<rparr>"

definition hit_db :: "string cache_db" where
  "hit_db =
     \<lparr>rows = [''xx'' \<mapsto> \<lparr>cv_content = ''x'', job_content = ''x'', result = model_dump scenario_result,
                        created_at = 0\<rparr>],
      available = True\<rparr>"

definition failing_db :: "string cache_db" where
  "failing_db = \<lparr>rows = Map.empty, available = False\<rparr>"

definition payload_150 :: pyval where
  "payload_150 =
     PDict [(''match'', PBool True), (''overall_score'', PInt 85),
            (''criteria_scores'', PDict [(''skills'', PInt 150), (''experience'', PInt 80),
               (''location'', PInt 70), (''education'', PInt 70), (''certifications'', PInt 60)]),
            (''explanation'', PStr ''Strong match'')]"

text \<open>A backend that answers \<open>match\<close> and \<open>overall_score\<close> as strings.\<close>

definition lax_kw :: "(string \<times> pyval) list" where
  "lax_kw = [(''match'', PStr ''YES''), (''overall_score'', PStr '' 85.0 ''),
             (''criteria_scores'', dump_criteria scenario_scores), (''explanation'', PStr ''Strong match'')]"

definition lax_llm :: llm_env where
  "lax_llm = stub_llm ''```json {...} ```'' (Inr (PDict lax_kw))"

definition brace_llm :: llm_env where
  "brace_llm = scenario_llm\<lparr>render := \<lambda>template cv job. Inl (KeyError ''match'')\<rparr>"

text \<open>Two concurrent requests for the example pair.\<close>

definition twin_reqs :: "(string service_env \<times> string \<times> string) list" where
  "twin_reqs = [(first_env, scenario_cv, scenario_job), (first_env, scenario_cv, scenario_job)]"

text \<open>The definitions a run of the model unfolds to.\<close>

lemmas run_simps =
  stub_env_def stub_llm_def text_parsers_def empty_db_def prompt_template_def load_prompt_def
  match_cv_job_def match_texts_def get_match_def cache_match_def match_key_def
  llm_match_cv_job_def try_body_def call_openai_def build_result_def star_mapping_def
  CriteriaScores_def validate_criteria_def required_def validate_score_def dict_get_def
  MatchResult_def MatchResult_kwargs_def defaulted_def crit_required_def elapsed_ms_def py_int_of_def Let_def
  parse_file_def extract_text_from_text_def file_kind_of_def py_lower_def py_lower_char_def char_of_eval
  text_mime_types_def docx_mime_types_def endswith_any_def endswith_def
  sqlite_timestamp_def usec_per_sec_def model_dump_def dump_criteria_def criteria_items_def
  scenario_llm_def first_env_def second_env_def scenario_key_def scenario_db1_def
  scenario_result_def scenario_scores_def scenario_payload_def scenario_cv_def scenario_job_def

lemmas sched_simps = thread_step_def match_start_def match_finish_def init_state_def twin_reqs_def

text \<open>The twin requests, overlapping (both send their prompt before either
  completes) and one after the other.\<close>

lemma overlap_run:
  "run_schedule [0, 1, 0, 1] (init_state empty_db twin_reqs) =
   Some \<lparr>store = scenario_db1,
         threads = [Done (Inr (scenario_result\<lparr>processing_time_ms := Some 50\<rparr>)),
                    Done (Inr (scenario_result\<lparr>processing_time_ms := Some 50\<rparr>))],
         trace = [(0, EvCacheGet scenario_key), (0, EvLlmCall scenario_cv scenario_job),
                  (1, EvCacheGet scenario_key), (1, EvLlmCall scenario_cv scenario_job),
                  (0, EvCachePut scenario_key), (1, EvCachePut scenario_key)]\<rparr>"
  by (simp add: sched_simps run_simps)

lemma serial_run:
  "run_schedule [0, 0, 1] (init_state empty_db twin_reqs) =
   Some \<lparr>store = scenario_db1,
         threads = [Done (Inr (scenario_result\<lparr>processing_time_ms := Some 50\<rparr>)),
                    Done (Inr (scenario_result\<lparr>cached := True, processing_time_ms := Some 50\<rparr>))],
         trace = [(0, EvCacheGet scenario_key), (0, EvLlmCall scenario_cv scenario_job),
                  (0, EvCachePut scenario_key), (1, EvCacheGet scenario_key)]\<rparr>"
  by (simp add: sched_simps run_simps)

lemma overlap_reach:
  "conc_reach (init_state empty_db twin_reqs)
     \<lparr>store = scenario_db1,
      threads = [Done (Inr (scenario_result\<lparr>processing_time_ms := Some 50\<rparr>)),
                 Done (Inr (scenario_result\<lparr>processing_time_ms := Some 50\<rparr>))],
      trace = [(0, EvCacheGet scenario_key), (0, EvLlmCall scenario_cv scenario_job),
               (1, EvCacheGet scenario_key), (1, EvLlmCall scenario_cv scenario_job),
               (0, EvCachePut scenario_key), (1, EvCachePut scenario_key)]\<rparr>"
  by (rule run_schedule_reach [OF overlap_run conc_reach.refl])

text \<open>The example request over HTTP: two plain-text uploads of one byte each
  (decoded to \<open>"x"\<close>) on an empty store.\<close>

lemma endpoint_first_run:
  "match_endpoint first_env \<lparr>rows = Map.empty, available = True\<rparr>
      \<lparr>filename = Some ''cv.txt'', content_type = Some ''text/plain'', content = [1]\<rparr>
      \<lparr>filename = Some ''job.txt'', content_type = Some ''text/plain'', content = [2]\<rparr> =
    (HttpOk (model_dump (scenario_result\<lparr>processing_time_ms := Some 50\<rparr>)),
     \<lparr>rows = [''xx'' \<mapsto> \<lparr>cv_content = ''x'', job_content = ''x'',
       result = model_dump (scenario_result\<lparr>processing_time_ms := Some 50\<rparr>), created_at = 0\<rparr>],
      available = True\<rparr>,
     [EvCacheGet ''xx'', EvLlmCall ''x'' ''x'', EvCachePut ''xx''])"
  by (simp add: match_endpoint_uploads_ok run_simps del: model_dump_def)

section \<open>Witnesses of the orchestrator theorems\<close>

theorem error_never_cached_witness:
  "match_cv_job (stub_env (stub_llm ''oops'' (Inl (JSONDecodeError ''Expecting value''))) 0 (1/20))
      empty_db [1] ''text/plain'' [2] ''text/plain'' =
     (Inr ((error_result (JSONDecodeError ''Expecting value''))\<lparr>processing_time_ms := Some 50\<rparr>),
      empty_db, [EvCacheGet ''xx'', EvLlmCall ''x'' ''x'']) \<and>
   error ((error_result (JSONDecodeError ''Expecting value''))\<lparr>processing_time_ms := Some 50\<rparr>) \<and>
   empty_db = empty_db \<and>
   (\<forall>k. EvCachePut k \<notin> set [EvCacheGet ''xx'', EvLlmCall ''x'' ''x''])"
proof -
  have run: "match_cv_job (stub_env (stub_llm ''oops'' (Inl (JSONDecodeError ''Expecting value''))) 0 (1/20))
      empty_db [1] ''text/plain'' [2] ''text/plain'' =
     (Inr ((error_result (JSONDecodeError ''Expecting value''))\<lparr>processing_time_ms := Some 50\<rparr>),
      empty_db, [EvCacheGet ''xx'', EvLlmCall ''x'' ''x''])"
    by (simp add: run_simps error_result_def)
  have err: "error ((error_result (JSONDecodeError ''Expecting value''))\<lparr>processing_time_ms := Some 50\<rparr>)"
    by (simp add: error_result_def)
  show ?thesis using run err match_cv_job_error_never_cached [OF run err] by simp
qed

lemma scenario_first_run:
  "match_texts first_env empty_db scenario_cv scenario_job =
     (Inr (scenario_result\<lparr>processing_time_ms := Some 50\<rparr>), scenario_db1,
      [EvCacheGet scenario_key, EvLlmCall scenario_cv scenario_job, EvCachePut scenario_key])"
  by (simp add: run_simps)

theorem hit_skips_backend_witness:
  "parse_file (parsers second_env) [1] ''text/plain'' = Inr ''x'' \<and>
   parse_file (parsers second_env) [2] ''text/plain'' = Inr ''x'' \<and>
   get_match (hash second_env) hit_db ''x'' ''x'' = Inr (Some scenario_result) \<and>
   match_cv_job second_env hit_db [1] ''text/plain'' [2] ''text/plain'' =
     (Inr (scenario_result\<lparr>cached := True, processing_time_ms := Some 2\<rparr>), hit_db,
      [EvCacheGet ''xx''])"
proof -
  have p1: "parse_file (parsers second_env) [1] ''text/plain'' = Inr ''x''"
    and p2: "parse_file (parsers second_env) [2] ''text/plain'' = Inr ''x''"
    by (simp_all add: run_simps)
  have g: "get_match (hash second_env) hit_db ''x'' ''x'' = Inr (Some scenario_result)"
    by (simp add: run_simps hit_db_def)
  have "elapsed_ms second_env = 2" "match_key (hash second_env) ''x'' ''x'' = ''xx''"
    by (simp_all add: run_simps)
  then show ?thesis using p1 p2 g match_cv_job_hit_skips_backend [OF p1 p2 g] by simp
qed

theorem second_request_hits_witness:
  "match_texts first_env empty_db scenario_cv scenario_job =
     (Inr (scenario_result\<lparr>processing_time_ms := Some 50\<rparr>), scenario_db1,
      [EvCacheGet scenario_key, EvLlmCall scenario_cv scenario_job, EvCachePut scenario_key]) \<and>
   \<not> error (scenario_result\<lparr>processing_time_ms := Some 50\<rparr>) \<and> hash second_env = hash first_env \<and>
   (\<exists>c. match_texts second_env scenario_db1 scenario_cv scenario_job =
          (Inr (c\<lparr>cached := True, processing_time_ms := Some (elapsed_ms second_env)\<rparr>), scenario_db1,
           [EvCacheGet (match_key (hash first_env) scenario_cv scenario_job)]) \<and>
        match c = True \<and> overall_score c = 85 \<and> criteria_scores c = scenario_scores)"
proof -
  have ne: "\<not> error (scenario_result\<lparr>processing_time_ms := Some 50\<rparr>)" by (simp add: scenario_result_def)
  have h: "hash second_env = hash first_env" by (simp add: first_env_def second_env_def stub_env_def)
  from second_request_hits [OF scenario_first_run ne h] show ?thesis
    using scenario_first_run ne h by (auto simp: scenario_result_def)
qed

theorem storage_fault_witness:
  "\<not> available failing_db \<and>
   match_texts first_env failing_db ''x'' ''x'' =
     (Inl db_unavailable, failing_db, [EvCacheGet (match_key (hash first_env) ''x'' ''x'')])"
proof -
  have "\<not> available failing_db" by (simp add: failing_db_def)
  with storage_fault_not_fail_open [of failing_db first_env] show ?thesis by simp
qed

theorem trace_order_witness:
  "match_cv_job first_env empty_db [1] ''text/plain'' [2] ''text/plain'' =
     (Inr (scenario_result\<lparr>processing_time_ms := Some 50\<rparr>),
      \<lparr>rows = [''xx'' \<mapsto> \<lparr>cv_content = ''x'', job_content = ''x'',
                 result = model_dump (scenario_result\<lparr>processing_time_ms := Some 50\<rparr>), created_at = 0\<rparr>],
       available = True\<rparr>,
      [EvCacheGet ''xx'', EvLlmCall ''x'' ''x'', EvCachePut ''xx'']) \<and>
   (\<exists>cv job. [EvCacheGet ''xx'', EvLlmCall ''x'' ''x'', EvCachePut ''xx''] =
      take 3 [EvCacheGet (match_key (hash first_env) cv job), EvLlmCall cv job,
              EvCachePut (match_key (hash first_env) cv job)])"
proof -
  have run: "match_cv_job first_env empty_db [1] ''text/plain'' [2] ''text/plain'' =
     (Inr (scenario_result\<lparr>processing_time_ms := Some 50\<rparr>),
      \<lparr>rows = [''xx'' \<mapsto> \<lparr>cv_content = ''x'', job_content = ''x'',
                 result = model_dump (scenario_result\<lparr>processing_time_ms := Some 50\<rparr>), created_at = 0\<rparr>],
       available = True\<rparr>,
      [EvCacheGet ''xx'', EvLlmCall ''x'' ''x'', EvCachePut ''xx''])"
    by (simp add: run_simps del: model_dump_def)
  show ?thesis using run match_cv_job_trace_order [OF run] by simp
qed

theorem returns_result_witness:
  "available empty_db \<and> cache_inv (hash first_env) empty_db \<and>
   prompt_template (llm first_env) = Inr ''CV: {cv_text} JOB: {job_text}'' \<and>
   render (llm first_env) ''CV: {cv_text} JOB: {job_text}'' scenario_cv scenario_job =
     Inr (''CV: '' @ scenario_cv @ '' JOB: '' @ scenario_job) \<and>
   (\<exists>r db' evs. match_texts first_env empty_db scenario_cv scenario_job = (Inr r, db', evs) \<and> wf_result r)"
proof -
  have a: "available empty_db" and i: "cache_inv (hash first_env) empty_db"
    by (simp_all add: empty_db_def cache_inv_def)
  have t: "prompt_template (llm first_env) = Inr ''CV: {cv_text} JOB: {job_text}''"
    and r: "render (llm first_env) ''CV: {cv_text} JOB: {job_text}'' scenario_cv scenario_job =
              Inr (''CV: '' @ scenario_cv @ '' JOB: '' @ scenario_job)"
    by (simp_all add: first_env_def stub_env_def scenario_llm_def stub_llm_def prompt_template_def load_prompt_def call_openai_def)
  show ?thesis using a i t r match_texts_returns_result [OF a i t r] by blast
qed

section \<open>Witnesses of the adapter theorems\<close>

theorem error_result_shape_witness:
  "llm_match_cv_job (stub_llm ''oops'' (Inl (JSONDecodeError ''Expecting value''))) scenario_cv scenario_job =
     Inr (error_result (JSONDecodeError ''Expecting value'')) \<and>
   \<not> match (error_result (JSONDecodeError ''Expecting value'')) \<and>
   startswith (explanation (error_result (JSONDecodeError ''Expecting value''))) ''Error processing match: ''"
proof -
  have run: "llm_match_cv_job (stub_llm ''oops'' (Inl (JSONDecodeError ''Expecting value''))) scenario_cv scenario_job =
     Inr (error_result (JSONDecodeError ''Expecting value''))"
    by (simp add: run_simps)
  have "error (error_result (JSONDecodeError ''Expecting value''))" by (simp add: error_result_def)
  then show ?thesis using run llm_error_result_shape [OF run] by blast
qed

theorem fenced_completion_witness:
  "\<not> startswith (py_strip ''{}'') ''`'' \<and> \<not> endswith (py_strip ''{}'') ''`'' \<and>
   llm_match_cv_job (scenario_llm\<lparr>chat_completion := \<lambda>_. Inr (Some (''```json'' @ ''{}'' @ ''```''))\<rparr>)
     scenario_cv scenario_job =
   llm_match_cv_job (scenario_llm\<lparr>chat_completion := \<lambda>_. Inr (Some ''{}'')\<rparr>) scenario_cv scenario_job"
proof -
  have h1: "\<not> startswith (py_strip ''{}'') ''`''" and h2: "\<not> endswith (py_strip ''{}'') ''`''"
    by (simp_all add: py_strip_def py_isspace_def startswith_def endswith_def)
  show ?thesis using h1 h2 fenced_completion_same_result [OF h1 h2] by blast
qed

theorem out_of_range_witness:
  "prompt_template (stub_llm ''{}'' (Inr payload_150)) = Inr ''CV: {cv_text} JOB: {job_text}'' \<and>
   (\<exists>r. llm_match_cv_job (stub_llm ''{}'' (Inr payload_150)) scenario_cv scenario_job = Inr r \<and>
        error r \<and> \<not> match r \<and> overall_score r = 0)"
proof -
  let ?env = "stub_llm ''{}'' (Inr payload_150)"
  have t: "prompt_template ?env = Inr ''CV: {cv_text} JOB: {job_text}''"
    and r: "render ?env ''CV: {cv_text} JOB: {job_text}'' scenario_cv scenario_job =
              Inr (''CV: '' @ scenario_cv @ '' JOB: '' @ scenario_job)"
    and c: "call_openai ?env (''CV: '' @ scenario_cv @ '' JOB: '' @ scenario_job) = Inr (Some ''{}'')"
    and j: "json_loads ?env (clean_response ''{}'') = Inr (PDict [(''match'', PBool True), (''overall_score'', PInt 85),
            (''criteria_scores'', PDict [(''skills'', PInt 150), (''experience'', PInt 80),
               (''location'', PInt 70), (''education'', PInt 70), (''certifications'', PInt 60)]),
            (''explanation'', PStr ''Strong match'')])"
    by (simp_all add: stub_llm_def payload_150_def prompt_template_def load_prompt_def call_openai_def)
  have d: "dict_get [(''match'', PBool True), (''overall_score'', PInt 85),
            (''criteria_scores'', PDict [(''skills'', PInt 150), (''experience'', PInt 80),
               (''location'', PInt 70), (''education'', PInt 70), (''certifications'', PInt 60)]),
            (''explanation'', PStr ''Strong match'')] ''criteria_scores'' =
         Some (PDict [(''skills'', PInt 150), (''experience'', PInt 80),
               (''location'', PInt 70), (''education'', PInt 70), (''certifications'', PInt 60)])"
    and f: "''skills'' \<in> set score_fields"
    and v: "dict_get [(''skills'', PInt 150), (''experience'', PInt 80),
               (''location'', PInt 70), (''education'', PInt 70), (''certifications'', PInt 60)] ''skills'' =
            Some (PInt 150)"
    and e: "\<not> (\<exists>n. coerce_int (PInt 150) = Inr n \<and> 0 \<le> n \<and> n \<le> 100)"
    by (simp_all add: dict_get_def score_fields_def)
  show ?thesis using t out_of_range_score_rejected [OF t r c j d f v e] by blast
qed

theorem valid_payload_witness:
  "llm_match_cv_job scenario_llm scenario_cv scenario_job = Inr scenario_result \<and>
   wf_criteria scenario_scores \<and> in_range 85"
proof -
  have t: "prompt_template scenario_llm = Inr ''CV: {cv_text} JOB: {job_text}''"
    and r: "render scenario_llm ''CV: {cv_text} JOB: {job_text}'' scenario_cv scenario_job =
              Inr (''CV: '' @ scenario_cv @ '' JOB: '' @ scenario_job)"
    and c: "call_openai scenario_llm (''CV: '' @ scenario_cv @ '' JOB: '' @ scenario_job) =
              Inr (Some ''```json {...} ```'')"
    and j: "json_loads scenario_llm (clean_response ''```json {...} ```'') =
              Inr (PDict [(''match'', PBool True), (''overall_score'', PInt 85),
                          (''criteria_scores'', dump_criteria scenario_scores),
                          (''explanation'', PStr ''Strong match'')])"
    by (simp_all add: scenario_llm_def stub_llm_def scenario_payload_def prompt_template_def load_prompt_def call_openai_def)
  have k: "dict_get [(''match'', PBool True), (''overall_score'', PInt 85),
                     (''criteria_scores'', dump_criteria scenario_scores),
                     (''explanation'', PStr ''Strong match'')] ''criteria_scores'' = Some (dump_criteria scenario_scores)"
    and w: "wf_criteria scenario_scores"
    and m: "dict_get [(''match'', PBool True), (''overall_score'', PInt 85),
                     (''criteria_scores'', dump_criteria scenario_scores),
                     (''explanation'', PStr ''Strong match'')] ''match'' = Some (PBool True)"
    and o: "dict_get [(''match'', PBool True), (''overall_score'', PInt 85),
                     (''criteria_scores'', dump_criteria scenario_scores),
                     (''explanation'', PStr ''Strong match'')] ''overall_score'' = Some (PInt 85)"
    and n: "in_range 85"
    and x: "dict_get [(''match'', PBool True), (''overall_score'', PInt 85),
                     (''criteria_scores'', dump_criteria scenario_scores),
                     (''explanation'', PStr ''Strong match'')] ''explanation'' = Some (PStr ''Strong match'')"
    by (simp_all add: dict_get_def wf_criteria_def scenario_scores_def in_range_def)
  show ?thesis using w n valid_payload_accepted [OF t r c j k w m o n x]
    by (simp add: scenario_result_def)
qed

theorem lax_match_witness:
  "llm_match_cv_job lax_llm scenario_cv scenario_job = Inr scenario_result"
proof -
  have t: "prompt_template lax_llm = Inr ''CV: {cv_text} JOB: {job_text}''"
    and r: "render lax_llm ''CV: {cv_text} JOB: {job_text}'' scenario_cv scenario_job =
              Inr (''CV: '' @ scenario_cv @ '' JOB: '' @ scenario_job)"
    and c: "call_openai lax_llm (''CV: '' @ scenario_cv @ '' JOB: '' @ scenario_job) =
              Inr (Some ''```json {...} ```'')"
    and j: "json_loads lax_llm (clean_response ''```json {...} ```'') = Inr (PDict lax_kw)"
    by (simp_all add: lax_llm_def stub_llm_def prompt_template_def load_prompt_def call_openai_def)
  have k: "dict_get lax_kw ''criteria_scores'' = Some (dump_criteria scenario_scores)"
    and w: "wf_criteria scenario_scores"
    and m: "dict_get lax_kw ''match'' = Some (PStr ''YES'')"
    and y: "py_lower ''YES'' \<in> set (bool_true_strs @ bool_false_strs)"
    and o: "dict_get lax_kw ''overall_score'' = Some (PStr '' 85.0 '')"
    and p: "parse_int_str '' 85.0 '' = Some 85"
    and n: "in_range 85"
    and x: "dict_get lax_kw ''explanation'' = Some (PStr ''Strong match'')"
    by (simp_all add: lax_kw_def dict_get_def wf_criteria_def scenario_scores_def in_range_def
        py_lower_def py_lower_char_def char_of_eval bool_true_strs_def bool_false_strs_def
        parse_int_str_def rust_trim_def rust_is_whitespace_def parse_sign_digits_def
        strip_decimal_zeros_def digit_val_def)
  have "py_lower ''YES'' \<in> set bool_true_strs"
    by (simp add: py_lower_def py_lower_char_def char_of_eval bool_true_strs_def)
  then show ?thesis using lax_match_string_accepted [OF t r c j k w m y o p n x]
    by (simp add: scenario_result_def)
qed

theorem other_fence_tag_witness:
  "\<not> startswith ''JSON {}'' ''json'' \<and> clean_response (''```'' @ ''JSON {}'' @ ''```'') = ''JSON {}''"
proof -
  have s: "\<not> startswith ''JSON {}'' ''json''" by (simp add: startswith_def)
  show ?thesis using s other_fence_tag_kept [OF s] by (simp add: py_strip_def py_isspace_def)
qed

theorem prompt_format_witness:
  "prompt_template brace_llm = Inr ''CV: {cv_text} JOB: {job_text}'' \<and>
   render brace_llm ''CV: {cv_text} JOB: {job_text}'' scenario_cv scenario_job = Inl (KeyError ''match'') \<and>
   llm_match_cv_job brace_llm scenario_cv scenario_job = Inl (KeyError ''match'')"
proof -
  have t: "prompt_template brace_llm = Inr ''CV: {cv_text} JOB: {job_text}''"
    and r: "render brace_llm ''CV: {cv_text} JOB: {job_text}'' scenario_cv scenario_job = Inl (KeyError ''match'')"
    by (simp_all add: brace_llm_def scenario_llm_def stub_llm_def prompt_template_def load_prompt_def call_openai_def)
  show ?thesis using t r prompt_format_error_escapes [OF t r] by blast
qed

section \<open>Witnesses of the store, model and handler theorems\<close>

lemma put_x_x:
  "cache_match (\<lambda>s. s) 0 empty_db ''x'' ''x'' scenario_result =
     Inr \<lparr>rows = [''xx'' \<mapsto> \<lparr>cv_content = ''x'', job_content = ''x'', result = model_dump scenario_result,
                               created_at = 0\<rparr>], available = True\<rparr>"
  by (simp add: cache_match_def empty_db_def match_key_def sqlite_timestamp_def)

lemma scenario_llm_result: "llm_match_cv_job scenario_llm scenario_cv scenario_job = Inr scenario_result"
  by (simp add: run_simps scenario_llm_def scenario_payload_def scenario_result_def)

lemma wf_scenario_result: "wf_result scenario_result"
  by (simp add: wf_result_def wf_criteria_def in_range_def scenario_result_def scenario_scores_def)

theorem cache_round_trip_witness:
  "wf_result scenario_result \<and>
   get_match (\<lambda>s. s) \<lparr>rows = [''xx'' \<mapsto> \<lparr>cv_content = ''x'', job_content = ''x'',
       result = model_dump scenario_result, created_at = 0\<rparr>], available = True\<rparr> ''x'' ''x'' =
     Inr (Some scenario_result)"
  using wf_scenario_result cache_round_trip [OF put_x_x wf_scenario_result] by blast

theorem cache_match_replaces_witness:
  "cache_match (\<lambda>s. s) 5 \<lparr>rows = [''xx'' \<mapsto> \<lparr>cv_content = ''x'', job_content = ''x'',
       result = model_dump scenario_result, created_at = 0\<rparr>], available = True\<rparr> ''xx'' [] (error_result (KeyError ''k'')) =
   cache_match (\<lambda>s. s) 5 empty_db ''xx'' [] (error_result (KeyError ''k''))"
proof -
  obtain d2 where d2: "cache_match (\<lambda>s. s) 5 \<lparr>rows = [''xx'' \<mapsto> \<lparr>cv_content = ''x'', job_content = ''x'',
       result = model_dump scenario_result, created_at = 0\<rparr>], available = True\<rparr> ''xx'' [] (error_result (KeyError ''k'')) = Inr d2"
    by (simp add: cache_match_def)
  have k: "match_key (\<lambda>s. s) ''xx'' [] = match_key (\<lambda>s. s) ''x'' ''x''" by (simp add: match_key_def)
  show ?thesis using d2 cache_match_replaces [OF put_x_x d2 k] by simp
qed


theorem sweep_local_clock_witness:
  "(0::int) < 167 * usec_per_hour + 2 * usec_per_hour - 168 * usec_per_hour \<and>
   cleanup_old_cache 168 (167 * usec_per_hour) (2 * usec_per_hour)
     \<lparr>rows = [''xx'' \<mapsto> \<lparr>cv_content = ''x'', job_content = ''x'', result = model_dump scenario_result,
                               created_at = 0\<rparr>], available = True\<rparr> =
     Inr \<lparr>rows = Map.empty, available = True\<rparr> \<and>
   rows \<lparr>rows = Map.empty, available = True\<rparr> (match_key (\<lambda>s. s) ''x'' ''x'') = None"
proof -
  have c: "cleanup_old_cache 168 (167 * usec_per_hour) (2 * usec_per_hour)
     \<lparr>rows = [''xx'' \<mapsto> \<lparr>cv_content = ''x'', job_content = ''x'', result = model_dump scenario_result,
                               created_at = 0\<rparr>], available = True\<rparr> =
     Inr \<lparr>rows = Map.empty, available = True\<rparr>"
    by (simp add: cleanup_old_cache_def expired_def usec_per_hour_def usec_per_sec_def fun_eq_iff)
  have "(0::int) < 167 * usec_per_hour + 2 * usec_per_hour - 168 * usec_per_hour"
    by (simp add: usec_per_hour_def usec_per_sec_def)
  then show ?thesis using c sweep_uses_local_clock [OF put_x_x c] by simp
qed

theorem concatenation_collision_witness:
  "''a'' @ ''bc'' = ''ab'' @ ''c'' \<and> wf_result scenario_result \<and>
   get_match (\<lambda>s. s) \<lparr>rows = [''abc'' \<mapsto> \<lparr>cv_content = ''a'', job_content = ''bc'',
       result = model_dump scenario_result, created_at = 0\<rparr>], available = True\<rparr> ''ab'' ''c'' =
     Inr (Some scenario_result)"
proof -
  have e: "''a'' @ ''bc'' = ''ab'' @ ''c''" by simp
  have p: "cache_match (\<lambda>s. s) 0 empty_db ''a'' ''bc'' scenario_result =
     Inr \<lparr>rows = [''abc'' \<mapsto> \<lparr>cv_content = ''a'', job_content = ''bc'', result = model_dump scenario_result,
                               created_at = 0\<rparr>], available = True\<rparr>"
    by (simp add: cache_match_def empty_db_def match_key_def sqlite_timestamp_def)
  show ?thesis using e wf_scenario_result concatenation_collision [OF e p wf_scenario_result] by blast
qed

theorem validate_dump_witness:
  "MatchResult_star (PDict [(''match'', PStr ''true''), (''overall_score'', PStr ''85''),
      (''criteria_scores'', dump_criteria scenario_scores), (''explanation'', PStr ''Strong match'')]) =
     Inr scenario_result \<and>
   MatchResult_star (model_dump scenario_result) = Inr scenario_result"
proof -
  have v: "MatchResult_star (PDict [(''match'', PStr ''true''), (''overall_score'', PStr ''85''),
      (''criteria_scores'', dump_criteria scenario_scores), (''explanation'', PStr ''Strong match'')]) =
     Inr scenario_result"
    by (simp add: run_simps bool_true_strs_def parse_int_str_def rust_trim_def rust_is_whitespace_def parse_sign_digits_def digit_val_def)
  show ?thesis using v validate_dump_stable [OF v] by blast
qed

theorem response_body_witness:
  "\<exists>r. wf_result r \<and> model_dump (scenario_result\<lparr>processing_time_ms := Some 50\<rparr>) = model_dump r"
  using response_body_well_typed [OF endpoint_first_run] by blast

theorem backend_failure_witness:
  "match_endpoint (stub_env (stub_llm ''oops'' (Inl (JSONDecodeError ''Expecting value''))) 0 (1/20)) empty_db
     \<lparr>filename = Some ''cv.txt'', content_type = Some ''text/plain'', content = [1]\<rparr>
     \<lparr>filename = Some ''job.txt'', content_type = Some ''text/plain'', content = [2]\<rparr> =
   (HttpOk (model_dump ((error_result (JSONDecodeError ''Expecting value''))\<lparr>processing_time_ms := Some 50\<rparr>)),
    empty_db, [EvCacheGet ''xx'', EvLlmCall ''x'' ''x''])"
proof -
  let ?env = "stub_env (stub_llm ''oops'' (Inl (JSONDecodeError ''Expecting value''))) 0 (1/20)"
  let ?cv = "\<lparr>filename = Some ''cv.txt'', content_type = Some ''text/plain'', content = [1]\<rparr>"
  let ?jd = "\<lparr>filename = Some ''job.txt'', content_type = Some ''text/plain'', content = [2::8 word]\<rparr>"
  have c1: "content_type ?cv = Some ''text/plain''" and n1: "''text/plain'' \<noteq> []"
    and c2: "content_type ?jd = Some ''text/plain''"
    by simp_all
  have p1: "parse_file (parsers ?env) (content ?cv) ''text/plain'' = Inr ''x''"
    and p2: "parse_file (parsers ?env) (content ?jd) ''text/plain'' = Inr ''x''"
    and g: "get_match (hash ?env) empty_db ''x'' ''x'' = Inr None"
    and t: "prompt_template (llm ?env) = Inr ''CV: {cv_text} JOB: {job_text}''"
    and r: "render (llm ?env) ''CV: {cv_text} JOB: {job_text}'' ''x'' ''x'' = Inr (''CV: x JOB: x'')"
    and b: "try_body (llm ?env) ''CV: x JOB: x'' = Inl (JSONDecodeError ''Expecting value'')"
    by (simp_all add: run_simps)
  have "elapsed_ms ?env = 50" "match_key (hash ?env) ''x'' ''x'' = ''xx''"
    by (simp_all add: run_simps)
  then show ?thesis
    using backend_failure_is_200 [OF c1 n1 c2 n1 p1 p2 g t r b] by simp
qed

section \<open>Witnesses of the concurrency theorems\<close>

theorem concurrent_cache_inv_witness:
  "cache_inv (\<lambda>s. s) (store \<lparr>store = scenario_db1,
      threads = [Done (Inr (scenario_result\<lparr>processing_time_ms := Some 50\<rparr>)),
                 Done (Inr (scenario_result\<lparr>processing_time_ms := Some 50\<rparr>))],
      trace = [(0, EvCacheGet scenario_key), (0, EvLlmCall scenario_cv scenario_job),
               (1, EvCacheGet scenario_key), (1, EvLlmCall scenario_cv scenario_job),
               (0, EvCachePut scenario_key), (1, EvCachePut scenario_key)]\<rparr>)"
proof -
  have inv: "cache_inv (\<lambda>s. s) empty_db" by (simp add: empty_db_def cache_inv_empty)
  have h: "\<forall>(env, cv, job) \<in> set twin_reqs. hash env = (\<lambda>s. s)"
    by (simp add: twin_reqs_def first_env_def stub_env_def)
  show ?thesis by (rule concurrent_cache_inv [OF overlap_reach inv h])
qed

theorem concurrent_effects_witness:
  "(1::nat) < length twin_reqs \<and> twin_reqs ! 1 = (first_env, scenario_cv, scenario_job) \<and>
   proj 1 [(0::nat, EvCacheGet scenario_key), (0, EvLlmCall scenario_cv scenario_job),
           (1, EvCacheGet scenario_key), (1, EvLlmCall scenario_cv scenario_job),
           (0, EvCachePut scenario_key), (1, EvCachePut scenario_key)] =
   [EvCacheGet (match_key (hash first_env) scenario_cv scenario_job), EvLlmCall scenario_cv scenario_job,
    EvCachePut (match_key (hash first_env) scenario_cv scenario_job)]"
proof -
  have i: "(1::nat) < length twin_reqs" and r: "twin_reqs ! 1 = (first_env, scenario_cv, scenario_job)"
    by (simp_all add: twin_reqs_def)
  have "proj 1 [(0::nat, EvCacheGet scenario_key), (0, EvLlmCall scenario_cv scenario_job),
           (1, EvCacheGet scenario_key), (1, EvLlmCall scenario_cv scenario_job),
           (0, EvCachePut scenario_key), (1, EvCachePut scenario_key)] =
        take 3 [EvCacheGet (match_key (hash first_env) scenario_cv scenario_job), EvLlmCall scenario_cv scenario_job,
          EvCachePut (match_key (hash first_env) scenario_cv scenario_job)]"
    using concurrent_effects_per_request [OF overlap_reach i r] by (simp add: proj_def)
  with i r show ?thesis by simp
qed

theorem no_contention_witness:
  "match_key (hash first_env) ''a'' ''b'' \<noteq> match_key (hash first_env) ''c'' ''d'' \<and>
   match_start first_env (fst (snd (match_finish first_env empty_db ''a'' ''b'' ''p''))) ''c'' ''d'' =
   match_start first_env empty_db ''c'' ''d''"
proof -
  have k: "match_key (hash first_env) ''a'' ''b'' \<noteq> match_key (hash first_env) ''c'' ''d''"
    by (simp add: match_key_def first_env_def stub_env_def)
  have f1: "match_finish first_env empty_db ''a'' ''b'' ''p'' =
      (fst (match_finish first_env empty_db ''a'' ''b'' ''p''),
       fst (snd (match_finish first_env empty_db ''a'' ''b'' ''p'')),
       snd (snd (match_finish first_env empty_db ''a'' ''b'' ''p'')))" by simp
  have f2: "match_finish first_env empty_db ''c'' ''d'' ''q'' =
      (fst (match_finish first_env empty_db ''c'' ''d'' ''q''),
       fst (snd (match_finish first_env empty_db ''c'' ''d'' ''q'')),
       snd (snd (match_finish first_env empty_db ''c'' ''d'' ''q'')))" by simp
  show ?thesis using k different_keys_no_contention [OF k f1 f2] by blast
qed

section \<open>Witnesses of the key and timing theorems\<close>

theorem elapsed_bounds_witness:
  "elapsed_ms first_env = 50 \<and> of_int (elapsed_ms first_env) \<le> (t_end first_env - t_start first_env) * 1000"
proof -
  have "t_start first_env \<le> t_end first_env" by (simp add: first_env_def stub_env_def)
  from elapsed_ms_bounds [OF this] show ?thesis
    by (simp add: first_env_def stub_env_def elapsed_ms_def py_int_of_def)
qed

theorem unparsable_witness:
  "match_endpoint first_env empty_db
     \<lparr>filename = Some ''cv.pdf'', content_type = None, content = [1]\<rparr>
     \<lparr>filename = Some ''job.txt'', content_type = Some ''text/plain'', content = [2]\<rparr> =
   (HttpError 400 ''cannot open broken document'', empty_db, [])"
proof -
  have p: "parse_file (parsers first_env) [1] ''cv.pdf'' = Inl (ValueError ''cannot open broken document'')"
    by (simp add: first_env_def stub_env_def text_parsers_def parse_file_def file_kind_of_def
        extract_text_from_pdf_def py_lower_def py_lower_char_def endswith_def char_of_eval)
  have "match_endpoint first_env empty_db
     \<lparr>filename = Some ''cv.pdf'', content_type = None, content = [1]\<rparr>
     \<lparr>filename = Some ''job.txt'', content_type = Some ''text/plain'', content = [2]\<rparr> =
     (handle_exc (ValueError ''cannot open broken document''), empty_db, [])"
  proof (rule unparsable_upload_rejected_early)
    show "parse_file (parsers first_env) (content \<lparr>filename = Some ''cv.pdf'', content_type = None, content = [1]\<rparr>)
            ''cv.pdf'' = Inl (ValueError ''cannot open broken document'') \<or>
          (\<exists>t. parse_file (parsers first_env) (content \<lparr>filename = Some ''cv.pdf'', content_type = None, content = [1]\<rparr>)
            ''cv.pdf'' = Inr t \<and>
              parse_file (parsers first_env) (content \<lparr>filename = Some ''job.txt'', content_type = Some ''text/plain'', content = [2]\<rparr>)
            ''text/plain'' = Inl (ValueError ''cannot open broken document''))"
      using p by simp
  qed (simp_all add: truthy_def py_or_def)
  then show ?thesis by (simp add: handle_exc_def)
qed

section \<open>Witnesses of the event-loop theorems\<close>

theorem every_request_answered_witness:
  "(\<exists>m. threads (run_all first_pending (init_state empty_db twin_reqs)) ! 0 = Done (Inr m) \<and> wf_result m) \<and>
   (\<exists>m. threads (run_all first_pending (init_state empty_db twin_reqs)) ! 1 = Done (Inr m) \<and> wf_result m)"
proof -
  have a: "available empty_db" and i: "cache_inv (\<lambda>s. s) empty_db"
    by (simp_all add: empty_db_def cache_inv_def)
  have r: "\<forall>(env, cv, job) \<in> set twin_reqs. hash env = (\<lambda>s. s) \<and>
           (\<exists>p. sbind (prompt_template (llm env)) (\<lambda>t. render (llm env) t cv job) = Inr p)"
    by (simp add: twin_reqs_def first_env_def stub_env_def scenario_llm_def stub_llm_def
        prompt_template_def load_prompt_def)
  have all: "\<forall>i < length twin_reqs. \<exists>m. threads (run_all first_pending (init_state empty_db twin_reqs)) ! i = Done (Inr m) \<and> wf_result m"
    using every_request_answered [OF first_pending_ok a i r] by blast
  have l: "length twin_reqs = 2" by (simp add: twin_reqs_def)
  from all [rule_format, of 0] all [rule_format, of 1] l show ?thesis by simp
qed

theorem clock_step_back_witness:
  "\<exists>db'. match_texts (stub_env scenario_llm 10 (10 - 1/100)) empty_db scenario_cv scenario_job =
      (Inr (scenario_result\<lparr>processing_time_ms := Some (-10)\<rparr>), db',
       [EvCacheGet scenario_key, EvLlmCall scenario_cv scenario_job, EvCachePut scenario_key]) \<and>
     get_match (\<lambda>s. s) db' scenario_cv scenario_job = Inr (Some (scenario_result\<lparr>processing_time_ms := Some (-10)\<rparr>))"
proof -
  let ?env = "stub_env scenario_llm 10 (10 - 1/100)"
  have t: "t_end ?env \<le> t_start ?env - 1 / 1000" by (simp add: stub_env_def)
  have a: "available empty_db" by (simp add: empty_db_def)
  have g: "get_match (hash ?env) empty_db scenario_cv scenario_job = Inr None"
    by (simp add: stub_env_def empty_db_def get_match_def)
  have l: "llm_match_cv_job (llm ?env) scenario_cv scenario_job = Inr scenario_result"
    by (simp add: stub_env_def scenario_llm_result)
  have e: "\<not> error scenario_result" by (simp add: scenario_result_def)
  have ms: "elapsed_ms ?env = -10" by (simp add: elapsed_ms_def stub_env_def py_int_of_def)
  show ?thesis using clock_step_back_negative_time [OF t a g l e] ms
    by (simp add: stub_env_def scenario_key_def match_key_def)
qed

theorem same_key_overlap_witness:
  "\<exists>s. run_schedule [0, 1] (init_state empty_db twin_reqs) = Some s \<and> store s = empty_db \<and>
     trace s = [(0, EvCacheGet scenario_key), (0, EvLlmCall scenario_cv scenario_job),
                (1, EvCacheGet scenario_key), (1, EvLlmCall scenario_cv scenario_job)]"
proof -
  have l: "0 < length twin_reqs" "1 < length twin_reqs" "(0::nat) \<noteq> 1"
    by (simp_all add: twin_reqs_def)
  have r: "twin_reqs ! 0 = (first_env, scenario_cv, scenario_job)" "twin_reqs ! 1 = (first_env, scenario_cv, scenario_job)"
    by (simp_all add: twin_reqs_def)
  have h: "hash first_env = hash first_env" by simp
  have g: "get_match (hash first_env) empty_db scenario_cv scenario_job = Inr None"
    by (simp add: first_env_def stub_env_def empty_db_def get_match_def)
  have p: "sbind (prompt_template (llm first_env)) (\<lambda>t. render (llm first_env) t scenario_cv scenario_job) =
             Inr (''CV: '' @ scenario_cv @ '' JOB: '' @ scenario_job)"
    by (simp add: first_env_def stub_env_def scenario_llm_def stub_llm_def prompt_template_def load_prompt_def)
  show ?thesis using same_key_overlap [OF l r h g p p]
    by (simp add: first_env_def stub_env_def scenario_key_def match_key_def)
qed

end
