(* ===== verification/App.thy ===== *)
theory App
  imports Endpoints
begin

text \<open>
  The application as a whole: what importing \<open>app.main\<close> does, how the
  FastAPI application routes a request, and the tests of
  \<open>src/tests/test_api.py\<close>.  Importing \<open>app.main\<close> runs, in import order,
  \<open>settings = Settings()\<close> (\<open>config.py\<close> line 17), \<open>db = Database()\<close>
  (\<open>database.py\<close> line 84, on the file named by \<open>database_path\<close>) and
  \<open>logging.basicConfig(level=getattr(logging, settings.log_level))\<close>
  (\<open>main.py\<close> lines 8--11); the lookup of the level name in the
  \<open>logging\<close> module is a parameter (\<open>resolve_level\<close>), since its outcome
  depends on the module's whole namespace.  The application's routes are
  the schema and documentation pages \<open>FastAPI()\<close> registers by default,
  then the three its decorators register (\<open>include_router\<close> adds
  \<open>/match\<close> and \<open>/health\<close>, then \<open>/\<close>); Starlette's router takes the first route whose
  path and method match, answers 405 when only the path matches, redirects
  (307) to the same path with the trailing slash toggled when that path has
  a route, and answers 404 otherwise.  \<open>/match\<close> takes two required form
  files, whose absence FastAPI reports with status 422 before the handler
  runs.  The test client follows redirects.  CORS preflight requests, which
  the middleware answers itself, are not modelled.
\<close>

datatype http_method = GET | POST | PUT | DELETE | PATCH | HEAD | OPTIONS

datatype route = RootRoute | HealthRoute | MatchRoute | DocsRoute string

text \<open>\<open>FastAPI(...)\<close> registers, in its constructor, the schema and the
  documentation pages at their default paths; they are plain Starlette
  routes on functions, which answer GET and also HEAD.\<close>

definition fastapi_doc_paths :: "string list" where
  "fastapi_doc_paths = [''/openapi.json'', ''/docs'', ''/docs/oauth2-redirect'', ''/redoc'']"

definition fastapi_default_routes :: "(http_method \<times> string \<times> route) list" where
  "fastapi_default_routes = concat (map (\<lambda>p. [(GET, p, DocsRoute p), (HEAD, p, DocsRoute p)]) fastapi_doc_paths)"

text \<open>Then \<open>include_router\<close> adds \<open>/match\<close> and \<open>/health\<close> (FastAPI routes
  answer only the methods they declare), and \<open>@app.get("/")\<close> adds the root.\<close>

definition app_routes :: "(http_method \<times> string \<times> route) list" where
  "app_routes = fastapi_default_routes @
     [(POST, ''/match'', MatchRoute), (GET, ''/health'', HealthRoute), (GET, ''/'', RootRoute)]"

record http_request =
  req_method :: http_method
  req_path :: string
  form_files :: "(string \<times> upload_file) list"

datatype app_response =
    Handled response
  | NotFound
  | MethodNotAllowed
  | RedirectTo string
  | MissingFields "string list"
  | Generated string

text \<open>The first route with this method and path.\<close>

fun route_lookup :: "http_method \<Rightarrow> string \<Rightarrow> (http_method \<times> string \<times> route) list \<Rightarrow> route option" where
  "route_lookup m p [] = None"
| "route_lookup m p ((m', p', r) # rs) = (if m' = m \<and> p' = p then Some r else route_lookup m p rs)"

definition path_known :: "string \<Rightarrow> bool" where
  "path_known p \<longleftrightarrow> p \<in> set (map (\<lambda>(_, p', _). p') app_routes)"

text \<open>\<open>path.rstrip("/")\<close> when the path ends with a slash, \<open>path + "/"\<close>
  otherwise.\<close>

definition redirect_path :: "string \<Rightarrow> string" where
  "redirect_path p =
     (if endswith p ''/'' then rev (dropWhile (\<lambda>c. c = CHR ''/'') (rev p)) else p @ ''/'')"

definition resolve :: "http_method \<Rightarrow> string \<Rightarrow> route + app_response" where
  "resolve m p =
     (case route_lookup m p app_routes of
        Some r \<Rightarrow> Inl r
      | None \<Rightarrow>
          if path_known p then Inr MethodNotAllowed
          else if p \<noteq> ''/'' \<and> path_known (redirect_path p) then Inr (RedirectTo (redirect_path p))
          else Inr NotFound)"

definition dispatch ::
  "'k service_env \<Rightarrow> 'k cache_db \<Rightarrow> http_request \<Rightarrow> app_response \<times> 'k cache_db \<times> 'k event list" where
  "dispatch env db req =
     (case resolve (req_method req) (req_path req) of
        Inr resp \<Rightarrow> (resp, db, [])
      | Inl RootRoute \<Rightarrow> (Handled (HttpOk root_endpoint), db, [])
      | Inl (DocsRoute p) \<Rightarrow> (Generated p, db, [])
      | Inl HealthRoute \<Rightarrow> (Handled (HttpOk (health_endpoint (llm env))), db, [])
      | Inl MatchRoute \<Rightarrow>
          (case (dict_get (form_files req) ''cv'', dict_get (form_files req) ''job_description'') of
             (Some cv, Some jd) \<Rightarrow>
               (case match_endpoint env db cv jd of (r, db', evs) \<Rightarrow> (Handled r, db', evs))
           | (c, j) \<Rightarrow>
               (MissingFields ((if c = None then [''cv''] else []) @
                               (if j = None then [''job_description''] else [])), db, [])))"

fun status_of :: "app_response \<Rightarrow> nat" where
  "status_of (Handled (HttpOk _)) = 200"
| "status_of (Handled (HttpError n _)) = n"
| "status_of NotFound = 404"
| "status_of MethodNotAllowed = 405"
| "status_of (RedirectTo _) = 307"
| "status_of (MissingFields _) = 422"
| "status_of (Generated _) = 200"

definition missing_error :: "string \<Rightarrow> pyval" where
  "missing_error f =
     PDict [(''type'', PStr ''missing''), (''loc'', PList [PStr ''body'', PStr f]),
            (''msg'', PStr ''Field required''), (''input'', PNone)]"

text \<open>The JSON body; a redirect has none, and the content of the generated
  schema and documentation pages is not modelled.\<close>

fun body_of :: "app_response \<Rightarrow> pyval" where
  "body_of (Handled (HttpOk v)) = v"
| "body_of (Handled (HttpError _ d)) = PDict [(''detail'', PStr d)]"
| "body_of NotFound = PDict [(''detail'', PStr ''Not Found'')]"
| "body_of MethodNotAllowed = PDict [(''detail'', PStr ''Method Not Allowed'')]"
| "body_of (RedirectTo _) = PNone"
| "body_of (MissingFields fs) = PDict [(''detail'', PList (map missing_error fs))]"
| "body_of (Generated _) = PNone"

section \<open>Importing the application\<close>

text \<open>The two calls the service makes through the OpenAI client.\<close>

record openai_client =
  create :: "chat_request \<Rightarrow> exc + string option"
  list_models :: "exc + unit"

text \<open>\<open>LLMService.__init__\<close>: the client \<open>AsyncOpenAI(api_key=...)\<close>, built
  by the library constructor \<open>new_client\<close> (which accepts any string key;
  a bad key fails at the first call), and the model name, both from the
  settings; the file, template and JSON functions are those of \<open>libs\<close>.\<close>

definition LLMService :: "settings \<Rightarrow> (string \<Rightarrow> openai_client) \<Rightarrow> llm_env \<Rightarrow> llm_env" where
  "LLMService s new_client libs =
     (let client = new_client (openai_api_key s)
      in libs\<lparr>model := openai_model s, chat_completion := create client, models_list := list_models client\<rparr>)"

text \<open>The module-level \<open>db = Database()\<close> of \<open>database.py\<close>.\<close>

definition module_db :: "settings \<Rightarrow> (string \<Rightarrow> 'k cache_db) \<Rightarrow> exc + 'k cache_db" where
  "module_db s stores = init_database (database_path s) None stores"

text \<open>Importing \<open>app.main\<close>: \<open>Settings()\<close>, \<open>db = Database()\<close>, the
  module-level \<open>matching_service = MatchingService()\<close> of the endpoints
  (whose only field is an \<open>LLMService()\<close>), then the log level.
  \<open>stores\<close> gives the store at each database path.\<close>

definition app_import ::
  "(string \<times> string) list \<Rightarrow> (string \<times> string) list \<Rightarrow> (string \<Rightarrow> 'k cache_db) \<Rightarrow>
   (string \<Rightarrow> openai_client) \<Rightarrow> llm_env \<Rightarrow> (string \<Rightarrow> exc + int) \<Rightarrow>
   exc + settings \<times> 'k cache_db \<times> llm_env" where
  "app_import environ dotenv stores new_client libs resolve_level =
     sbind (Settings environ dotenv) (\<lambda>s.
     sbind (module_db s stores) (\<lambda>db.
     (let l = LLMService s new_client libs
      in sbind (resolve_level (log_level s)) (\<lambda>_. Inr (s, db, l)))))"

section \<open>The test client and the tests\<close>

text \<open>\<open>client.get(path)\<close>, following a redirect.\<close>

definition client_get :: "'k service_env \<Rightarrow> 'k cache_db \<Rightarrow> string \<Rightarrow> app_response \<times> 'k cache_db \<times> 'k event list" where
  "client_get env db path =
     (case dispatch env db \<lparr>req_method = GET, req_path = path, form_files = []\<rparr> of
        (RedirectTo p, db', _) \<Rightarrow> dispatch env db' \<lparr>req_method = GET, req_path = p, form_files = []\<rparr>
      | r \<Rightarrow> r)"

text \<open>\<open>k in s\<close> for strings, and \<open>k in response.json()\<close>: a key of a
  dict, an element of a list, a substring of a string; anything else raises,
  which fails the test.\<close>

fun str_contains :: "string \<Rightarrow> string \<Rightarrow> bool" where
  "str_contains k [] \<longleftrightarrow> k = []"
| "str_contains k (c # cs) \<longleftrightarrow> take (length k) (c # cs) = k \<or> str_contains k cs"

fun py_in :: "string \<Rightarrow> pyval \<Rightarrow> bool" where
  "py_in k (PDict kvs) \<longleftrightarrow> k \<in> set (map fst kvs)"
| "py_in k (PList xs) \<longleftrightarrow> PStr k \<in> set xs"
| "py_in k (PStr s) \<longleftrightarrow> str_contains k s"
| "py_in k _ \<longleftrightarrow> False"

definition test_root_endpoint :: "'k service_env \<Rightarrow> 'k cache_db \<Rightarrow> bool" where
  "test_root_endpoint env db \<longleftrightarrow>
     (let r = fst (client_get env db ''/'') in status_of r = 200 \<and> py_in ''message'' (body_of r))"

definition test_health_endpoint :: "'k service_env \<Rightarrow> 'k cache_db \<Rightarrow> bool" where
  "test_health_endpoint env db \<longleftrightarrow>
     (let r = fst (client_get env db ''/health'') in status_of r = 200 \<and> py_in ''status'' (body_of r))"

definition test_stats_endpoint :: "'k service_env \<Rightarrow> 'k cache_db \<Rightarrow> bool" where
  "test_stats_endpoint env db \<longleftrightarrow>
     (let r = fst (client_get env db ''/stats'') in status_of r = 200 \<and> py_in ''match_cache_size'' (body_of r))"

section \<open>Routing\<close>

lemma route_lookup_append:
  "route_lookup m p (xs @ ys) = (case route_lookup m p xs of None \<Rightarrow> route_lookup m p ys | r \<Rightarrow> r)"
  by (induction xs rule: route_lookup.induct) auto

lemma route_lookup_pages:
  "route_lookup m p (concat (map (\<lambda>q. [(GET, q, DocsRoute q), (HEAD, q, DocsRoute q)]) qs)) =
     (if (m = GET \<or> m = HEAD) \<and> p \<in> set qs then Some (DocsRoute p) else None)"
  by (induction qs) (auto simp: route_lookup_append)

lemma route_lookup_app:
  "route_lookup m p app_routes =
     (if (m = GET \<or> m = HEAD) \<and> p \<in> set fastapi_doc_paths then Some (DocsRoute p)
      else if m = POST \<and> p = ''/match'' then Some MatchRoute
      else if m = GET \<and> p = ''/health'' then Some HealthRoute
      else if m = GET \<and> p = ''/'' then Some RootRoute else None)"
  by (simp add: app_routes_def fastapi_default_routes_def route_lookup_append route_lookup_pages)

text \<open>Only a \<open>POST /match\<close> carrying both files reaches the store or the
  backend; every other request, answered by the router or by FastAPI's
  validation, has no effect.\<close>

lemma dispatch_effects:
  "snd (dispatch env db req) =
     (if req_method req = POST \<and> req_path req = ''/match'' then
        (case (dict_get (form_files req) ''cv'', dict_get (form_files req) ''job_description'') of
           (Some cv, Some jd) \<Rightarrow> snd (match_endpoint env db cv jd)
         | _ \<Rightarrow> (db, []))
      else (db, []))"
  by (auto simp: dispatch_def resolve_def route_lookup_app split: option.splits prod.splits route.splits)

lemma resolve_routes:
  "resolve POST ''/match'' = Inl MatchRoute"
  "resolve GET ''/health'' = Inl HealthRoute"
  "resolve GET ''/'' = Inl RootRoute"
  by (simp_all add: resolve_def route_lookup_app fastapi_doc_paths_def app_routes_def fastapi_default_routes_def)

lemma resolve_stats: "resolve GET ''/stats'' = Inr NotFound"
  by (simp add: resolve_def route_lookup_app fastapi_doc_paths_def app_routes_def fastapi_default_routes_def path_known_def redirect_path_def endswith_def)

lemma dispatch_missing_files:
  "dispatch env db \<lparr>req_method = POST, req_path = ''/match'', form_files = []\<rparr> =
   (MissingFields [''cv'', ''job_description''], db, [])"
  by (simp add: dispatch_def resolve_routes dict_get_def)

lemma dispatch_wrong_method:
  "dispatch env db \<lparr>req_method = GET, req_path = ''/match'', form_files = fs\<rparr> = (MethodNotAllowed, db, [])"
  by (simp add: dispatch_def resolve_def route_lookup_app fastapi_doc_paths_def app_routes_def fastapi_default_routes_def path_known_def)

lemma dispatch_trailing_slash:
  "dispatch env db \<lparr>req_method = GET, req_path = ''/health/'', form_files = fs\<rparr> = (RedirectTo ''/health'', db, [])"
  by (simp add: dispatch_def resolve_def route_lookup_app fastapi_doc_paths_def app_routes_def fastapi_default_routes_def path_known_def redirect_path_def endswith_def)

section \<open>Properties of the import\<close>


lemma app_import_no_database:
  assumes "Settings environ dotenv = Inr s" and "\<not> available (stores (database_path s))"
  shows "app_import environ dotenv stores new_client libs resolve_level = Inl db_unavailable"
  using assms by (simp add: app_import_def module_db_def init_database_def)


text \<open>With neither the environment nor \<open>.env\<close> naming a database path,
  the import opens the default \<open>/app/data/cv_filtering.db\<close> and fails
  when that file cannot be opened, e.g. outside the container image where
  \<open>/app/data\<close> does not exist.\<close>

lemma app_import_default_path:
  assumes "\<not> available (stores ''/app/data/cv_filtering.db'')"
  shows "app_import [] [] stores new_client libs resolve_level = Inl db_unavailable"
  using assms by (simp add: app_import_no_database Settings_defaults default_settings_def)

text \<open>C31: The repository's test suite, run against the application: the
  root and health tests pass whatever the backend and the store (the health
  check reports a degraded backend with status 200), while
  \<open>test_stats_endpoint\<close> fails, because the application has no
  \<open>/stats\<close> route and answers 404 without touching the store.\<close>

theorem api_test_suite:
  "test_root_endpoint env db \<and> test_health_endpoint env db \<and> \<not> test_stats_endpoint env db \<and>
   client_get env db ''/stats'' = (NotFound, db, [])"
  by (simp add: test_root_endpoint_def test_health_endpoint_def test_stats_endpoint_def client_get_def
      dispatch_def resolve_routes resolve_stats root_endpoint_def health_endpoint_def Let_def)

end
