(* ===== verification/Cors.thy ===== *)
theory Cors
  imports App "HOL-Library.AList" "HOL-Library.List_Lexorder" "HOL-Library.Char_ord"
begin

text \<open>
  The CORS middleware \<open>src/app/main.py\<close> installs (lines 20--26) and the
  application it wraps.  \<open>CORSMiddleware\<close> is Starlette's constructor: it
  turns the configuration into the derived fields the middleware keeps
  (methods with \<open>*\<close> expanded, the simple and the preflight header
  dictionaries); \<open>cors_app\<close> is its \<open>__call__\<close>: a request without an
  \<open>origin\<close> header goes to the application unchanged, an \<open>OPTIONS\<close> request
  with an \<open>access-control-request-method\<close> header is answered by
  \<open>preflight_response\<close> without reaching the application, and any other
  request with an origin goes to the application, whose response gets the
  simple CORS headers (\<open>simple_response\<close>).  Request headers are the ASGI
  list of (lower-case name, value) pairs, read by first match as
  \<open>Headers.get\<close> does; the CORS headers of a response are modelled, the
  content headers the inner response carries (which no CORS header
  name clashes with) are not.  \<open>application\<close> is the object
  \<open>app.main.app\<close>: the middleware with the configuration of \<open>main.py\<close>
  around \<open>dispatch\<close>.
\<close>

section \<open>Configuration\<close>

definition all_methods :: "string list" where
  "all_methods = [''DELETE'', ''GET'', ''HEAD'', ''OPTIONS'', ''PATCH'', ''POST'', ''PUT'']"

definition safelisted_headers :: "string list" where
  "safelisted_headers = [''Accept'', ''Accept-Language'', ''Content-Language'', ''Content-Type'']"

record cors_config =
  allow_origins :: "string list"
  allow_methods :: "string list"
  allow_headers :: "string list"
  allow_credentials :: bool
  max_age :: nat

text \<open>The arguments of \<open>app.add_middleware(CORSMiddleware, ...)\<close>;
  \<open>max_age\<close> keeps its default 600.\<close>

definition app_cors :: cors_config where
  "app_cors = \<lparr>allow_origins = [''*''], allow_methods = [''*''], allow_headers = [''*''],
               allow_credentials = True, max_age = 600\<rparr>"

record cors_middleware =
  mw_origins :: "string list"
  mw_methods :: "string list"
  mw_headers :: "string list"
  all_origins :: bool
  all_headers :: bool
  explicit_origin :: bool
  simple_headers :: "(string \<times> string) list"
  preflight_headers :: "(string \<times> string) list"

text \<open>\<open>CORSMiddleware.__init__\<close>; a Python dict is an association list
  updated by \<open>AList.update\<close>, which replaces a key in place and appends a
  new one, as dict assignment does.\<close>

definition CORSMiddleware :: "cors_config \<Rightarrow> cors_middleware" where
  "CORSMiddleware c =
     (let methods = (if ''*'' \<in> set (allow_methods c) then all_methods else allow_methods c);
          ao = ''*'' \<in> set (allow_origins c);
          ah = ''*'' \<in> set (allow_headers c);
          explicit = (\<not> ao \<or> allow_credentials c);
          simple = (if ao then [(''Access-Control-Allow-Origin'', ''*'')] else []) @
                   (if allow_credentials c then [(''Access-Control-Allow-Credentials'', ''true'')] else []);
          hdrs = sort (remdups (safelisted_headers @ allow_headers c));
          pre0 = (if explicit then [(''Vary'', ''Origin'')] else [(''Access-Control-Allow-Origin'', ''*'')]);
          pre1 = AList.update ''Access-Control-Max-Age'' (nat_digits (max_age c))
                   (AList.update ''Access-Control-Allow-Methods'' (py_join '', '' methods) pre0);
          pre2 = (if hdrs \<noteq> [] \<and> \<not> ah
                  then AList.update ''Access-Control-Allow-Headers'' (py_join '', '' hdrs) pre1 else pre1);
          pre3 = (if allow_credentials c
                  then AList.update ''Access-Control-Allow-Credentials'' ''true'' pre2 else pre2)
      in \<lparr>mw_origins = allow_origins c, mw_methods = methods, mw_headers = map py_lower hdrs,
          all_origins = ao, all_headers = ah, explicit_origin = explicit,
          simple_headers = simple, preflight_headers = pre3\<rparr>)"

section \<open>The middleware\<close>

definition is_allowed_origin :: "cors_middleware \<Rightarrow> string \<Rightarrow> bool" where
  "is_allowed_origin m origin \<longleftrightarrow> all_origins m \<or> origin \<in> set (mw_origins m)"

text \<open>\<open>preflight_response\<close>: the status, the plain-text body and the
  header dict; the failures are collected in the code's order.\<close>

definition preflight_response ::
  "cors_middleware \<Rightarrow> string \<Rightarrow> string \<Rightarrow> string option \<Rightarrow> nat \<times> string \<times> (string \<times> string) list" where
  "preflight_response m origin meth req_headers =
     (let h0 = preflight_headers m;
          h1 = (if is_allowed_origin m origin \<and> explicit_origin m
                then AList.update ''Access-Control-Allow-Origin'' origin h0 else h0);
          f1 = (if is_allowed_origin m origin then [] else [''origin'']);
          f2 = f1 @ (if meth \<in> set (mw_methods m) then [] else [''method'']);
          h3 = (case req_headers of
                  Some rh \<Rightarrow> if all_headers m then AList.update ''Access-Control-Allow-Headers'' rh h1 else h1
                | None \<Rightarrow> h1);
          f3 = f2 @ (case req_headers of
                  Some rh \<Rightarrow>
                    if \<not> all_headers m \<and>
                       list_ex (\<lambda>h. py_strip h \<notin> set (mw_headers m)) (map py_lower (py_split_char CHR '','' rh))
                    then [''headers''] else []
                | None \<Rightarrow> [])
      in if f3 \<noteq> [] then (400, ''Disallowed CORS '' @ py_join '', '' f3, h3) else (200, ''OK'', h3))"

text \<open>\<open>MutableHeaders\<close> of a response: names are stored in lower case.\<close>

definition set_header :: "string \<Rightarrow> string \<Rightarrow> (string \<times> string) list \<Rightarrow> (string \<times> string) list" where
  "set_header k v hs = AList.update (py_lower k) v hs"

definition add_vary_header :: "(string \<times> string) list \<Rightarrow> string \<Rightarrow> (string \<times> string) list" where
  "add_vary_header hs v =
     set_header ''vary'' (case map_of hs ''vary'' of None \<Rightarrow> v | Some e \<Rightarrow> py_join '', '' [e, v]) hs"

definition allow_explicit_origin :: "(string \<times> string) list \<Rightarrow> string \<Rightarrow> (string \<times> string) list" where
  "allow_explicit_origin hs origin = add_vary_header (set_header ''Access-Control-Allow-Origin'' origin hs) ''Origin''"

text \<open>The headers \<open>simple_response\<close> adds to the application's response.\<close>

definition simple_response_headers :: "cors_middleware \<Rightarrow> string \<Rightarrow> bool \<Rightarrow> (string \<times> string) list" where
  "simple_response_headers m origin has_cookie =
     (let hs = foldl (\<lambda>acc (k, v). set_header k v acc) [] (simple_headers m)
      in if all_origins m \<and> has_cookie then allow_explicit_origin hs origin
         else if \<not> all_origins m \<and> is_allowed_origin m origin then allow_explicit_origin hs origin
         else hs)"

datatype cors_response = PlainText nat string | FromApp app_response

definition cors_app ::
  "cors_middleware \<Rightarrow> 'k service_env \<Rightarrow> 'k cache_db \<Rightarrow> (string \<times> string) list \<Rightarrow> http_request \<Rightarrow>
   (cors_response \<times> (string \<times> string) list) \<times> 'k cache_db \<times> 'k event list" where
  "cors_app m env db hs req =
     (case map_of hs ''origin'' of
        None \<Rightarrow> (case dispatch env db req of (r, db', evs) \<Rightarrow> ((FromApp r, []), db', evs))
      | Some origin \<Rightarrow>
          (case (req_method req, map_of hs ''access-control-request-method'') of
             (OPTIONS, Some meth) \<Rightarrow>
               (case preflight_response m origin meth (map_of hs ''access-control-request-headers'') of
                  (st, body, h) \<Rightarrow> ((PlainText st body, map (\<lambda>(k, v). (py_lower k, v)) h), db, []))
           | _ \<Rightarrow>
               (case dispatch env db req of
                  (r, db', evs) \<Rightarrow>
                    ((FromApp r, simple_response_headers m origin (map_of hs ''cookie'' \<noteq> None)), db', evs))))"

text \<open>\<open>app.main.app\<close>.\<close>

definition application ::
  "'k service_env \<Rightarrow> 'k cache_db \<Rightarrow> (string \<times> string) list \<Rightarrow> http_request \<Rightarrow>
   (cors_response \<times> (string \<times> string) list) \<times> 'k cache_db \<times> 'k event list" where
  "application = cors_app (CORSMiddleware app_cors)"

section \<open>Effects of the middleware\<close>

text \<open>A preflight request is answered without reaching the application;
  any other request has exactly the application's effects.\<close>

lemma cors_app_effects:
  "snd (cors_app m env db hs req) =
     (if req_method req = OPTIONS \<and> map_of hs ''origin'' \<noteq> None \<and> map_of hs ''access-control-request-method'' \<noteq> None
      then (db, []) else snd (dispatch env db req))"
  by (auto simp: cors_app_def split: option.splits prod.splits http_method.splits)

lemma application_store:
  assumes "application env db hs req = (resp, db', evs)"
  shows "db' = db \<or> (\<exists>cv jd r evs'. match_endpoint env db cv jd = (r, db', evs'))"
proof -
  have "snd (application env db hs req) = (db', evs)" using assms by simp
  then show ?thesis
    by (auto simp: application_def cors_app_effects dispatch_effects split: if_splits option.splits prod.splits)
      (metis prod.collapse)
qed

text \<open>C23: The application as a whole (CORS middleware, router, FastAPI's
  validation of the form, handlers) changes the store and performs cache or
  backend work exactly as \<open>match_endpoint\<close> does for a \<open>POST /match\<close>
  carrying both files, and for no other request: preflights, the other
  routes, 404, 405, redirects and 422 answers touch nothing.\<close>

theorem app_store_effects:
  "snd (application env db hs req) =
     (if req_method req = POST \<and> req_path req = ''/match'' then
        (case (dict_get (form_files req) ''cv'', dict_get (form_files req) ''job_description'') of
           (Some cv, Some jd) \<Rightarrow> snd (match_endpoint env db cv jd)
         | _ \<Rightarrow> (db, []))
      else (db, []))"
  by (simp add: application_def cors_app_effects dispatch_effects)

text \<open>C32: With \<open>allow_origins=["*"]\<close> and \<open>allow_credentials=True\<close>, the
  middleware grants credentialed cross-origin access to every origin: a
  preflight from any origin is answered 200 with that origin echoed in
  \<open>access-control-allow-origin\<close> and \<open>access-control-allow-credentials:
  true\<close>, and any request from any origin carrying a cookie gets the
  application's response with the same two headers.\<close>

theorem cors_credentials_any_origin:
  "application env db [(''origin'', origin), (''access-control-request-method'', ''POST'')]
     \<lparr>req_method = OPTIONS, req_path = p, form_files = fs\<rparr> =
     ((PlainText 200 ''OK'',
       [(''vary'', ''Origin''), (''access-control-allow-methods'', ''DELETE, GET, HEAD, OPTIONS, PATCH, POST, PUT''),
        (''access-control-max-age'', ''600''), (''access-control-allow-credentials'', ''true''),
        (''access-control-allow-origin'', origin)]), db, []) \<and>
   application env db [(''origin'', origin), (''cookie'', c)] \<lparr>req_method = m, req_path = p, form_files = fs\<rparr> =
     (case dispatch env db \<lparr>req_method = m, req_path = p, form_files = fs\<rparr> of
        (r, db', evs) \<Rightarrow>
          ((FromApp r, [(''access-control-allow-origin'', origin), (''access-control-allow-credentials'', ''true''),
                        (''vary'', ''Origin'')]), db', evs))"
  by (cases m) (simp_all add: application_def cors_app_def CORSMiddleware_def app_cors_def all_methods_def
      safelisted_headers_def nat_digits.simps preflight_response_def is_allowed_origin_def
      simple_response_headers_def allow_explicit_origin_def add_vary_header_def set_header_def
      py_lower_def py_lower_char_def char_of_eval)

end
