(* ===== verification/Spec2Isabelle.thy ===== *)
theory Spec2Isabelle
  imports Scenario Cors
begin

text \<open>
  \<^bold>\<open>A verified model of the CV/job matching service (paulEtse/omogen).\<close>

  The program is a FastAPI service that scores a CV against a job
  description with an OpenAI model and caches the assessments in SQLite.  A
  request flows forward through these parts, each modelled in its own theory:
  \<^item> \<open>Prelude\<close>: the Python string operations the code uses (\<open>strip\<close>,
    \<open>startswith\<close>, \<open>endswith\<close>, \<open>lower\<close>, slicing), \<open>int()\<close> of a float,
    exceptions as sums (\<open>sbind\<close>), and the shared lemma collections.
  \<^item> \<open>PyValues\<close>: the values \<open>json.loads\<close> produces, dict lookup, the
    exception classes the code raises or catches with their \<open>str()\<close> and the
    \<open>ValueError\<close> hierarchy, and \<open>data[key]\<close>.
  \<^item> \<open>Models\<close> (\<open>src/app/core/models.py\<close>): the records
    \<open>criteria_scores\<close> and \<open>match_result\<close>, pydantic's lax-mode validation
    of each field (\<open>coerce_int\<close>, \<open>coerce_bool\<close>, \<open>coerce_str\<close>,
    \<open>validate_score\<close> for \<open>Field(ge=0, le=100)\<close>), the constructors
    \<open>CriteriaScores\<close>, \<open>MatchResult\<close>, \<open>MatchResult_star\<close>
    (\<open>MatchResult(**d)\<close>), and \<open>model_dump\<close>.
  \<^item> \<open>CvParser\<close> (\<open>src/app/services/cv_parser.py\<close>): \<open>parse_file\<close>'s
    dispatch on the declared type, the page loop of
    \<open>extract_text_from_pdf\<close> and the newline join of
    \<open>extract_text_from_docx\<close>; the library calls (PyMuPDF's page texts,
    python-docx's paragraph texts, UTF-8 decoding) are parameters
    (\<open>extractors\<close>).
  \<^item> \<open>Database\<close> (\<open>src/app/data/database.py\<close>): the cache table as a map
    from keys to rows plus the availability of the database file;
    \<open>get_match\<close>, \<open>cache_match\<close> (\<open>INSERT OR REPLACE\<close>, which resets
    \<open>created_at\<close>), \<open>cleanup_old_cache\<close>, the key \<open>match_key H cv job =
    H (cv @ job)\<close> for a digest parameter \<open>H\<close> (SHA-256 in the code), and
    the store invariant \<open>cache_inv\<close>.
  \<^item> \<open>LlmService\<close> (\<open>src/app/services/llm_service.py\<close>): the adapter
    \<open>llm_match_cv_job\<close> with \<open>clean_response\<close> (fence stripping),
    \<open>build_result\<close>, \<open>error_result\<close>, \<open>try_body\<close> and \<open>health_check\<close>;
    \<open>load_prompt\<close> and the request \<open>_call_openai\<close> sends (model, one user
    message, temperature, token limit); file reading, \<open>str.format\<close>, the
    chat completion, \<open>json.loads\<close> and the models probe are the parameters
    in \<open>llm_env\<close>.
  \<^item> \<open>MatchingService\<close> (\<open>src/app/services/matching_service.py\<close>): the
    orchestrator \<open>match_cv_job\<close> (parse both files, then \<open>match_texts\<close>:
    lookup, hit or backend call, elapsed time, write unless error).  A run
    returns the outcome, the new store and the trace of its effects
    (\<open>EvCacheGet\<close>, \<open>EvLlmCall\<close>, \<open>EvCachePut\<close>), so that "the backend
    is not called" and "nothing is written" are statements about the trace.
  \<^item> \<open>Endpoints\<close> (\<open>src/app/api/endpoints.py\<close>, \<open>src/app/main.py\<close>,
    \<open>src/app/core/config.py\<close>): \<open>match_endpoint\<close> with its two
    \<open>except\<close> clauses (\<open>handle_exc\<close>), \<open>health_endpoint\<close>,
    \<open>root_endpoint\<close> and \<open>startup_event\<close> (the sweep).
  \<^item> \<open>Config\<close> (\<open>src/app/core/config.py\<close>): the settings record and
    \<open>Settings\<close>, the loading of the fields from the environment and the
    \<open>.env\<close> file (case-insensitive names, lax int parsing, defaults).
  \<^item> \<open>Concurrency\<close>: requests run concurrently on one asyncio event loop
    and yield only at the awaited backend call (the SQLite calls are
    synchronous), so a request is two atomic phases, \<open>match_start\<close> (lookup,
    prompt, call sent) and \<open>match_finish\<close> (completion, validation, write);
    \<open>thread_step\<close> resumes one request, \<open>run_schedule\<close> runs a given
    interleaving and \<open>conc_reach\<close> collects all of them, with a global trace
    whose events are tagged by request.
  \<^item> \<open>EventLoop\<close>: the asyncio loop as \<open>run_all pick\<close>, which resumes the
    request a scheduling policy names until none is left.
  \<^item> \<open>App\<close> (\<open>src/app/main.py\<close>, \<open>src/tests/test_api.py\<close>):
    importing the application (\<open>app_import\<close>: \<open>Settings()\<close>,
    \<open>db = Database()\<close> as \<open>module_db\<close> and \<open>init_database\<close>, the
    \<open>LLMService()\<close> of the module-level \<open>MatchingService()\<close>, built with
    the configured key and model, the log-level lookup), its route
    table \<open>app_routes\<close> (the documentation routes \<open>FastAPI()\<close> registers
    by default, then those of \<open>main.py\<close>) and \<open>dispatch\<close>, which resolves a
    request by
    Starlette's rules (first match, 405 when only the path matches, 307 to
    the path with the trailing slash toggled, 404 otherwise) and answers 422
    for missing form files; the test client \<open>client_get\<close> and the three
    tests of \<open>test_api.py\<close> as predicates on status and body.
  \<^item> \<open>Cors\<close> (\<open>src/app/main.py\<close> lines 13--29): Starlette's
    \<open>CORSMiddleware\<close> (its constructor and \<open>cors_app\<close>, the call with the
    preflight and simple responses) with the configuration \<open>app_cors\<close> of
    \<open>main.py\<close>, and \<open>application\<close>, the object \<open>app\<close>: the middleware
    around \<open>dispatch\<close>.  Requests carry their ASGI headers.
  \<^item> \<open>Scenario\<close>: concrete stub environments (the specification's example
    pair scored 85) and the witnesses of the component theorems.
  This theory adds the relation \<open>service_reachable\<close> of the stores the
  running service can produce (a fresh table, start-up sweeps, \<open>/match\<close>
  requests and HTTP requests of any kind to the whole application, in any
  order with any environment of the same digest, the database file
  becoming unavailable or available again) and the theorems that span
  components.

  \<^bold>\<open>What is proved.\<close>  The orchestrator never writes an error result
  (C1), answers a cache hit without calling the backend (C2), turns a
  successful request into a hit for the next identical one (C3), performs its
  effects in the order read, call, write, each at most once (C5), and, on a
  sound and available store with a buildable prompt, always returns a valid
  result rather than an exception (C6).  The adapter's results are
  well-formed, its error results have the fixed shape (C7), fenced
  completions are unwrapped (C8), out-of-range scores are rejected (C9) and
  valid payloads are passed through field by field (C10).  The store reads
  back what it wrote (C14), replaces on rewrite (C15) and expires entries by
  age when the host runs on UTC (C16); validation normalises (C19).  The
  whole application, middleware and router included, touches the store and
  the backend exactly as \<open>match_endpoint\<close> does for a \<open>POST /match\<close> with
  both files, and not at all for any other request (C23).  Every reachable
  store satisfies \<open>cache_inv\<close> (C25), so an error result is never served
  from the cache (C26).  Under concurrency, every interleaving keeps
  \<open>cache_inv\<close> (C27), each request still reads, calls and writes at most
  once, in order (C28), an in-flight request does not reserve its key, so
  overlapping requests for one pair both call the backend, as the
  specification allows (C29), and requests on different keys do not contend
  (C30).  A file that cannot be extracted is rejected before any cache or
  backend work (C33); the processing time is the elapsed time in whole
  milliseconds when the clock is monotone (C34).  Every 200 body of
  \<open>/match\<close> is the dump of a well-formed result and validates back to it
  (C22).  The event loop, under any policy that does not idle, answers every
  request with a valid result and keeps the store invariant (C36).  The
  settings reach the backend: every request of the imported service uses the
  configured key and model (C37).

  \<^bold>\<open>What the model showed\<close> (theorems C4, C11--C13, C17, C18, C20, C21,
  C31, C32, C35):
  a storage fault fails the request instead of degrading to a miss; pydantic's
  lax mode accepts strings such as \<open>"YES"\<close> for \<open>match\<close> and \<open>"85.0"\<close>
  for a score; only a lower-case \<open>json\<close> fence tag is stripped, any other
  tag stays in the text handed to \<open>json.loads\<close>; a \<open>str.format\<close> failure
  escapes the adapter; the sweep compares a UTC \<open>created_at\<close> with a
  local-time cutoff, shifting the TTL by the host's offset; the key hashes
  the bare concatenation, so \<open>("a", "bc")\<close> and \<open>("ab", "c")\<close> share an
  entry, and so do \<open>("x", "xx")\<close> and its swap, against the specification's
  \<open>identity(a,b) != identity(b,a)\<close>; a wall clock stepping back yields a
  negative processing time that is cached; the suffix test is
  case-sensitive; a missing upload is answered 500, not 400; the test
  suite's \<open>/stats\<close> test cannot pass; the CORS configuration (\<open>*\<close> with
  credentials) lets every origin make credentialed requests and read the
  responses, since the middleware echoes the origin with
  \<open>access-control-allow-credentials: true\<close> (C32).

  \<^bold>\<open>Examples.\<close>  This theory also computes the specification's end-to-end
  example (\<open>end_to_end_scenario\<close>) and the twin requests run overlapping
  and one after the other (\<open>twin_requests_example\<close>); the two-phase model
  is shown to be the sequential request when run alone
  (\<open>Concurrency.match_texts_two_phase\<close>), and every schedule has at most
  two steps per request (\<open>EventLoop.schedules_are_short\<close>).

  \<^bold>\<open>Modelling choices.\<close>  Time is a rational number of seconds for
  \<open>time.time()\<close> and an int of microseconds for SQLite timestamps;
  \<open>created_at\<close> is truncated to the second, so an entry up to one second
  younger than the TTL may already be swept (C16 states the exact margin).
  Text is a list of HOL \<open>char\<close>s, i.e. code points below 256, with
  Python's \<open>isspace\<close> and \<open>lower\<close> on that range.  The \<open>result\<close> column
  is the decoded JSON value: \<open>json.loads\<close> inverts \<open>json.dumps\<close> on what
  \<open>model_dump\<close> produces.  No loop needs fuel: the recursions of the
  program's code are structural, and the event loop \<open>run_all\<close> is a
  \<open>function\<close> whose termination is proved from the number of request
  phases left (\<open>remaining\<close>).  The repository pins no library versions;
  the router and the CORS middleware follow Starlette's behaviour since
  version 0.21, and validation follows pydantic 2 (pydantic-core's
  \<open>str_as_int\<close>: Rust's whitespace trim, a decimal part of zeros
  accepted; the underscore forms some versions accept are not modelled).

  \<^bold>\<open>Not modelled.\<close>  The PDF and DOCX libraries, UTF-8 decoding, SHA-256,
  \<open>json\<close>, \<open>str.format\<close> and the OpenAI client (parameters: the constructor
  \<open>AsyncOpenAI\<close> is \<open>new_client\<close>); the logging configuration and the log
  calls, which only produce log output (the lookup
  \<open>getattr(logging, log_level)\<close> is a parameter of \<open>app_import\<close>, since
  it depends on the whole namespace of the \<open>logging\<close> module); the
  content headers of responses (only the CORS headers are modelled), the
  middleware's \<open>allow_origin_regex\<close> and \<open>expose_headers\<close> options, which
  \<open>main.py\<close> leaves at their defaults, and WebSocket scopes;
  the reading of the upload streams; the
  parsing of the \<open>.env\<close> file itself (quoting, comments) and the handling of
  names in it that are not fields.  \<open>service_reachable\<close> takes
  whole requests one after another; their interleaving is the \<open>Concurrency\<close>
  theory's, whose suspension points are the code's \<open>await\<close>s (the
  \<open>await\<close>s on the upload streams come before any store access and are not
  modelled).  Backend timeouts and cancellation are not modelled.
\<close>

inductive service_reachable :: "(string \<Rightarrow> 'k) \<Rightarrow> 'k cache_db \<Rightarrow> bool" for H where
  fresh: "service_reachable H \<lparr>rows = Map.empty, available = a\<rparr>"
| startup: "service_reachable H db \<Longrightarrow> startup_event s u tz db = Inr db' \<Longrightarrow> service_reachable H db'"
| request: "service_reachable H db \<Longrightarrow> hash env = H \<Longrightarrow>
    match_endpoint env db cv jd = (resp, db', evs) \<Longrightarrow> service_reachable H db'"
| storage: "service_reachable H db \<Longrightarrow> service_reachable H (db\<lparr>available := a\<rparr>)"
| http: "service_reachable H db \<Longrightarrow> hash env = H \<Longrightarrow>
    application env db hs req = (resp, db', evs) \<Longrightarrow> service_reachable H db'"

lemma match_endpoint_inv:
  assumes "cache_inv (hash env) db" and "match_endpoint env db cv jd = (resp, db', evs)"
  shows "cache_inv (hash env) db'"
  using assms
  by (auto simp: match_endpoint_def split: if_splits option.splits prod.splits sum.splits
      dest: match_cv_job_inv [OF assms(1)])

text \<open>C25: Every store the running service can reach, through start-up
  sweeps, \<open>/match\<close> requests, HTTP requests of any method, path, headers
  and form to the whole application, and storage faults in any order,
  satisfies the store
  invariant: each row sits under the digest of its own texts and holds a
  result that decodes, is not an error result and is not marked cached.\<close>

theorem reachable_cache_inv:
  assumes "service_reachable H db"
  shows "cache_inv H db"
  using assms
proof (induction rule: service_reachable.induct)
  case (fresh a)
  show ?case by (rule cache_inv_empty)
next
  case (startup db s u tz db')
  then show ?case by (auto simp: startup_event_def intro: cleanup_old_cache_inv)
next
  case (request db env cv jd resp db' evs)
  then show ?case using match_endpoint_inv by blast
next
  case (storage db a)
  then show ?case by (simp add: cache_inv_available)
next
  case (http db env hs req resp db' evs)
  from application_store [OF http.hyps(3)] show ?case
  proof
    assume "db' = db"
    with http.IH show ?thesis by simp
  next
    assume "\<exists>cv jd r evs'. match_endpoint env db cv jd = (r, db', evs')"
    with http.IH http.hyps(2) show ?thesis using match_endpoint_inv by blast
  qed
qed

text \<open>C26: In any reachable store, an error result a request returns was
  produced by a backend call of that very request and is not marked cached:
  error results are always fresh, never served from the cache.\<close>

theorem served_error_is_fresh:
  assumes "service_reachable (hash env) db" and "match_cv_job env db cb ct jb jt = (Inr r, db', evs)"
    and "error r"
  shows "\<not> cached r \<and> (\<exists>cv job. EvLlmCall cv job \<in> set evs)"
proof (cases rule: match_cv_job_cases [of env db cb ct jb jt])
  case (parse_fail e)
  with assms(2) show ?thesis by simp
next
  case (parsed cv job)
  with assms(2) have run: "match_texts env db cv job = (Inr r, db', evs)" by simp
  have inv: "cache_inv (hash env) db" using assms(1) by (rule reachable_cache_inv)
  show ?thesis
    using run
  proof (cases rule: match_texts_cases [of env db cv job])
    case (hit c)
    with inv have "\<not> error c" using cache_inv_get_match by blast
    with hit(2) run assms(3) show ?thesis by simp
  next
    case (llm_error m)
    from llm_error(2) have "\<not> cached m" using llm_match_cv_job_Inr by blast
    with llm_error(4) run show ?thesis by auto
  qed (use run assms(3) in auto)
qed

text \<open>The specification's end-to-end example.  The CV "5 years Python,
  AWS" and the job "Looking for Python engineer, AWS required", scored by a
  stub backend at 85 (skills 90, experience 80, location 70, education 70,
  certifications 60, "Strong match"): the first request calls the backend
  once, returns the assessment with \<open>cached\<close> false and stores it; the
  second identical request returns the same assessment with \<open>cached\<close> true,
  reads the cache only and leaves it unchanged.\<close>

theorem end_to_end_scenario:
  "match_texts first_env empty_db scenario_cv scenario_job =
     (Inr \<lparr>match = True, overall_score = 85, criteria_scores = scenario_scores,
           explanation = ''Strong match'', cached = False, processing_time_ms = Some 50, error = False\<rparr>,
      scenario_db1, [EvCacheGet scenario_key, EvLlmCall scenario_cv scenario_job, EvCachePut scenario_key]) \<and>
   match_texts second_env scenario_db1 scenario_cv scenario_job =
     (Inr \<lparr>match = True, overall_score = 85, criteria_scores = scenario_scores,
           explanation = ''Strong match'', cached = True, processing_time_ms = Some 2, error = False\<rparr>,
      scenario_db1, [EvCacheGet scenario_key])"
proof
  show "match_texts first_env empty_db scenario_cv scenario_job =
     (Inr \<lparr>match = True, overall_score = 85, criteria_scores = scenario_scores,
           explanation = ''Strong match'', cached = False, processing_time_ms = Some 50, error = False\<rparr>,
      scenario_db1, [EvCacheGet scenario_key, EvLlmCall scenario_cv scenario_job, EvCachePut scenario_key])"
    using scenario_first_run by (simp add: scenario_result_def)
  show "match_texts second_env scenario_db1 scenario_cv scenario_job =
     (Inr \<lparr>match = True, overall_score = 85, criteria_scores = scenario_scores,
           explanation = ''Strong match'', cached = True, processing_time_ms = Some 2, error = False\<rparr>,
      scenario_db1, [EvCacheGet scenario_key])"
    by (simp add: run_simps)
qed

text \<open>The specification's pair requested twice concurrently: overlapping,
  both requests miss, both call the backend and both write (the second write
  replaces the first with an equal row); run one after the other, the second
  is a cache hit and the backend is called once.\<close>

theorem twin_requests_example:
  "run_schedule [0, 1, 0, 1] (init_state empty_db twin_reqs) =
   Some \<lparr>store = scenario_db1,
         threads = [Done (Inr (scenario_result\<lparr>processing_time_ms := Some 50\<rparr>)),
                    Done (Inr (scenario_result\<lparr>processing_time_ms := Some 50\<rparr>))],
         trace = [(0, EvCacheGet scenario_key), (0, EvLlmCall scenario_cv scenario_job),
                  (1, EvCacheGet scenario_key), (1, EvLlmCall scenario_cv scenario_job),
                  (0, EvCachePut scenario_key), (1, EvCachePut scenario_key)]\<rparr> \<and>
   run_schedule [0, 0, 1] (init_state empty_db twin_reqs) =
   Some \<lparr>store = scenario_db1,
         threads = [Done (Inr (scenario_result\<lparr>processing_time_ms := Some 50\<rparr>)),
                    Done (Inr (scenario_result\<lparr>cached := True, processing_time_ms := Some 50\<rparr>))],
         trace = [(0, EvCacheGet scenario_key), (0, EvLlmCall scenario_cv scenario_job),
                  (0, EvCachePut scenario_key), (1, EvCacheGet scenario_key)]\<rparr>"
  using overlap_run serial_run by (rule conjI)

section \<open>Witnesses\<close>

theorem reachable_cache_inv_witness:
  "service_reachable (\<lambda>s. s) \<lparr>rows = [''xx'' \<mapsto> \<lparr>cv_content = ''x'', job_content = ''x'',
       result = model_dump (scenario_result\<lparr>processing_time_ms := Some 50\<rparr>), created_at = 0\<rparr>],
     available = True\<rparr> \<and>
   cache_inv (\<lambda>s. s) \<lparr>rows = [''xx'' \<mapsto> \<lparr>cv_content = ''x'', job_content = ''x'',
       result = model_dump (scenario_result\<lparr>processing_time_ms := Some 50\<rparr>), created_at = 0\<rparr>],
     available = True\<rparr>"
proof -
  let ?db = "\<lparr>rows = [''xx'' \<mapsto> \<lparr>cv_content = ''x'', job_content = ''x'',
       result = model_dump (scenario_result\<lparr>processing_time_ms := Some 50\<rparr>), created_at = 0\<rparr>],
     available = True\<rparr>"
  have h: "hash first_env = (\<lambda>s. s)" by (simp add: first_env_def stub_env_def)
  have r: "service_reachable (\<lambda>s. s) ?db"
    by (rule service_reachable.request [OF service_reachable.fresh h endpoint_first_run])
  show ?thesis using r reachable_cache_inv [OF r] by blast
qed

theorem served_error_is_fresh_witness:
  "service_reachable (hash (stub_env (stub_llm ''oops'' (Inl (JSONDecodeError ''Expecting value''))) 0 (1/20)))
     empty_db \<and>
   \<not> cached ((error_result (JSONDecodeError ''Expecting value''))\<lparr>processing_time_ms := Some 50\<rparr>)"
proof -
  let ?env = "stub_env (stub_llm ''oops'' (Inl (JSONDecodeError ''Expecting value''))) 0 (1/20)"
  have reach: "service_reachable (hash ?env) empty_db"
    unfolding empty_db_def by (rule service_reachable.fresh)
  have run: "match_cv_job ?env empty_db [1] ''text/plain'' [2] ''text/plain'' =
     (Inr ((error_result (JSONDecodeError ''Expecting value''))\<lparr>processing_time_ms := Some 50\<rparr>),
      empty_db, [EvCacheGet ''xx'', EvLlmCall ''x'' ''x''])"
    by (simp add: run_simps error_result_def)
  have err: "error ((error_result (JSONDecodeError ''Expecting value''))\<lparr>processing_time_ms := Some 50\<rparr>)"
    by (simp add: error_result_def)
  show ?thesis using reach served_error_is_fresh [OF reach run err] by blast
qed

theorem app_store_effects_witness:
  "snd (application first_env empty_db [] \<lparr>req_method = GET, req_path = ''/health'', form_files = []\<rparr>) =
   (empty_db, [])"
  using app_store_effects [where env = first_env and db = empty_db and hs = "[]"
      and req = "\<lparr>req_method = GET, req_path = ''/health'', form_files = []\<rparr>"]
  by simp

theorem cors_credentials_any_origin_witness:
  "fst (application first_env empty_db [(''origin'', ''https://evil.example''), (''access-control-request-method'', ''POST'')]
     \<lparr>req_method = OPTIONS, req_path = ''/match'', form_files = []\<rparr>) =
   (PlainText 200 ''OK'',
    [(''vary'', ''Origin''), (''access-control-allow-methods'', ''DELETE, GET, HEAD, OPTIONS, PATCH, POST, PUT''),
     (''access-control-max-age'', ''600''), (''access-control-allow-credentials'', ''true''),
     (''access-control-allow-origin'', ''https://evil.example'')])"
  using cors_credentials_any_origin [where env = first_env and db = empty_db and origin = "''https://evil.example''"
      and p = "''/match''" and fs = "[]" and c = "''sid=1''" and m = GET]
  by simp


end
